theory Spec2Isabelle
  imports Main "HOL-Library.Sublist"
begin

section \<open>Data model\<close>

text \<open>
  Source text is a JavaScript string; it is modelled as a HOL \<open>string\<close>, one \<open>char\<close> per
  UTF-16 code unit, for the code units 0 to 255.  \<open>length\<close> is JavaScript's \<open>.length\<close>.

  \<open>TranslationKey\<close> is the interface of \<open>src/types/index.ts\<close>.  The fields \<open>text\<close>, \<open>file\<close> and
  \<open>context\<close> carry a prime because their names are reserved words of the theory language.
  The optional fields are options; \<open>None\<close> is JavaScript's \<open>undefined\<close>.
\<close>

record TranslationKey =
  key :: string
  text' :: string
  type :: string
  file' :: string
  line :: nat
  context' :: "string option"
  priority :: "string option"
  category :: "string option"

section \<open>Strings of the JavaScript runtime\<close>

text \<open>
  A character of the model is a UTF-16 code unit from 0 to 255, the character with that
  number; text with a code unit above 255 is outside the model.  The character classes
  are those of a regular expression without the \<open>u\<close> flag: \<open>\w\<close> is \<open>[A-Za-z0-9_]\<close>; \<open>\s\<close>
  is, among the code units 0 to 255, tab, line feed, vertical tab, form feed, carriage
  return, space and the no-break space.
\<close>

definition isLower :: "char \<Rightarrow> bool" where
  "isLower c = (c \<in> set ''abcdefghijklmnopqrstuvwxyz'')"

definition isUpper :: "char \<Rightarrow> bool" where
  "isUpper c = (c \<in> set ''ABCDEFGHIJKLMNOPQRSTUVWXYZ'')"

definition isDigit :: "char \<Rightarrow> bool" where
  "isDigit c = (c \<in> set ''0123456789'')"

definition isWordChar :: "char \<Rightarrow> bool" where
  "isWordChar c = (isLower c \<or> isUpper c \<or> isDigit c \<or> c = CHR ''_'')"

definition isSpace :: "char \<Rightarrow> bool" where
  "isSpace c = (c \<in> {CHR 0x09, CHR 0x0A, CHR 0x0B, CHR 0x0C, CHR 0x0D, CHR '' '', CHR 0xA0})"

text \<open>
  \<open>toUpperCase\<close> and \<open>toLowerCase\<close> are the methods of \<open>String.prototype\<close>, which follow the
  case mappings of Unicode whatever the locale.  Among the code units 0 to 255 the
  lower-case letters with an upper-case form are \<open>a\<close> to \<open>z\<close>, the letters 0xE0 to 0xFE
  without the division sign 0xF7 (their upper-case forms are 0x20 below them), the sharp s
  0xDF, whose upper-case form is the two letters \<open>SS\<close>, the micro sign 0xB5 and the letter
  0xFF.  The upper-case forms of the last two are the code units 0x039C and 0x0178, which
  the model does not have: \<open>toUpperCase\<close> leaves these two characters as they are, and a
  text that holds one of them is outside the model where it is converted to upper case.
  \<open>toUpperChar\<close> is the conversion of a character to one character: the upper-case form
  when it is one code unit of the model, the character itself otherwise.  The upper-case letters with a lower-case form are \<open>A\<close> to \<open>Z\<close> and the
  letters 0xC0 to 0xDE without the multiplication sign 0xD7.
\<close>

definition latin1Lower :: string where
  "latin1Lower = [
      CHR 0xE0, CHR 0xE1, CHR 0xE2, CHR 0xE3, CHR 0xE4, CHR 0xE5, CHR 0xE6, CHR 0xE7,
      CHR 0xE8, CHR 0xE9, CHR 0xEA, CHR 0xEB, CHR 0xEC, CHR 0xED, CHR 0xEE, CHR 0xEF,
      CHR 0xF0, CHR 0xF1, CHR 0xF2, CHR 0xF3, CHR 0xF4, CHR 0xF5, CHR 0xF6, CHR 0xF8,
      CHR 0xF9, CHR 0xFA, CHR 0xFB, CHR 0xFC, CHR 0xFD, CHR 0xFE]"

definition latin1Upper :: string where
  "latin1Upper = [
      CHR 0xC0, CHR 0xC1, CHR 0xC2, CHR 0xC3, CHR 0xC4, CHR 0xC5, CHR 0xC6, CHR 0xC7,
      CHR 0xC8, CHR 0xC9, CHR 0xCA, CHR 0xCB, CHR 0xCC, CHR 0xCD, CHR 0xCE, CHR 0xCF,
      CHR 0xD0, CHR 0xD1, CHR 0xD2, CHR 0xD3, CHR 0xD4, CHR 0xD5, CHR 0xD6, CHR 0xD8,
      CHR 0xD9, CHR 0xDA, CHR 0xDB, CHR 0xDC, CHR 0xDD, CHR 0xDE]"

definition toUpperChar :: "char \<Rightarrow> char" where
  "toUpperChar c =
     (case map_of (zip (''abcdefghijklmnopqrstuvwxyz'' @ latin1Lower)
                       (''ABCDEFGHIJKLMNOPQRSTUVWXYZ'' @ latin1Upper)) c of
        Some u \<Rightarrow> u | None \<Rightarrow> c)"

definition toUpperCase :: "string \<Rightarrow> string" where
  "toUpperCase s = concat (map (\<lambda>c. if c = CHR 0xDF then ''SS'' else [toUpperChar c]) s)"

definition toLowerChar :: "char \<Rightarrow> char" where
  "toLowerChar c =
     (case map_of (zip (''ABCDEFGHIJKLMNOPQRSTUVWXYZ'' @ latin1Upper)
                       (''abcdefghijklmnopqrstuvwxyz'' @ latin1Lower)) c of
        Some l \<Rightarrow> l | None \<Rightarrow> c)"

definition toLowerCase :: "string \<Rightarrow> string" where
  "toLowerCase s = map toLowerChar s"

text \<open>
  \<open>split_sep\<close> is \<open>String.prototype.split\<close> with a one-character separator (the empty string
  splits into one empty part), \<open>findIndex\<close> is \<open>Array.prototype.findIndex\<close> (\<open>-1\<close> when no
  element qualifies), \<open>jsSlice\<close> is \<open>String.prototype.slice\<close> (a negative index counts from
  the end), \<open>replaceFirstChar\<close> is \<open>String.prototype.replace\<close> with a one-character string
  pattern: only the first occurrence is replaced.
\<close>

fun split_sep :: "char \<Rightarrow> string \<Rightarrow> string list" where
  "split_sep sep [] = [[]]"
| "split_sep sep (c # cs) =
     (if c = sep then [] # split_sep sep cs
      else (case split_sep sep cs of
              [] \<Rightarrow> [[c]]
            | part # parts \<Rightarrow> (c # part) # parts))"

fun findIndex :: "('a \<Rightarrow> bool) \<Rightarrow> 'a list \<Rightarrow> int" where
  "findIndex P [] = -1"
| "findIndex P (x # xs) =
     (if P x then 0 else (let i = findIndex P xs in if i < 0 then -1 else i + 1))"

definition jsSlice :: "string \<Rightarrow> int \<Rightarrow> int \<Rightarrow> string" where
  "jsSlice s a b =
     (let n = int (length s);
          lo = (if a < 0 then max (n + a) 0 else min a n);
          hi = (if b < 0 then max (n + b) 0 else min b n)
      in take (nat (hi - lo)) (drop (nat lo) s))"

fun replaceFirstChar :: "char \<Rightarrow> char \<Rightarrow> string \<Rightarrow> string" where
  "replaceFirstChar a b [] = []"
| "replaceFirstChar a b (c # cs) = (if c = a then b # cs else c # replaceFirstChar a b cs)"

text \<open>
  \<open>basename\<close> is \<open>path.basename(path, ext)\<close> of Node.js on POSIX (\<open>path.sep\<close> is \<open>/\<close>): one scan
  of the path from its last character, which skips trailing separators, stops at the
  separator before the last component and compares the component's end with \<open>ext\<close>.  The
  two loops are the library's loops with and without an extension to strip; a loop that
  returns its state without a recursive call is the library's \<open>break\<close>.
\<close>

record basename_state =
  bn_start :: int
  bn_end :: int
  bn_matchedSlash :: bool
  bn_extIdx :: int
  bn_firstNonSlashEnd :: int

fun basename_ext_loop :: "string \<Rightarrow> string \<Rightarrow> nat \<Rightarrow> basename_state \<Rightarrow> basename_state" where
  "basename_ext_loop path ext 0 st = st"
| "basename_ext_loop path ext (Suc i) st =
     (let code = path ! i in
      if code = CHR ''/'' then
        (if \<not> bn_matchedSlash st then st\<lparr>bn_start := int i + 1\<rparr>
         else basename_ext_loop path ext i st)
      else
        (let st1 = (if bn_firstNonSlashEnd st = -1
                    then st\<lparr>bn_matchedSlash := False, bn_firstNonSlashEnd := int i + 1\<rparr>
                    else st);
             st2 = (if bn_extIdx st1 \<ge> 0 then
                      (if code = ext ! nat (bn_extIdx st1) then
                         (if bn_extIdx st1 - 1 = -1
                          then st1\<lparr>bn_extIdx := bn_extIdx st1 - 1, bn_end := int i\<rparr>
                          else st1\<lparr>bn_extIdx := bn_extIdx st1 - 1\<rparr>)
                       else st1\<lparr>bn_extIdx := -1, bn_end := bn_firstNonSlashEnd st1\<rparr>)
                    else st1)
         in basename_ext_loop path ext i st2))"

fun basename_plain_loop :: "string \<Rightarrow> nat \<Rightarrow> basename_state \<Rightarrow> basename_state" where
  "basename_plain_loop path 0 st = st"
| "basename_plain_loop path (Suc i) st =
     (if path ! i = CHR ''/'' then
        (if \<not> bn_matchedSlash st then st\<lparr>bn_start := int i + 1\<rparr>
         else basename_plain_loop path i st)
      else if bn_end st = -1
        then basename_plain_loop path i (st\<lparr>bn_matchedSlash := False, bn_end := int i + 1\<rparr>)
        else basename_plain_loop path i st)"

definition basename :: "string \<Rightarrow> string \<Rightarrow> string" where
  "basename path ext =
     (let init = \<lparr>bn_start = 0, bn_end = -1, bn_matchedSlash = True,
                  bn_extIdx = int (length ext) - 1, bn_firstNonSlashEnd = -1\<rparr>
      in if ext \<noteq> [] \<and> length ext \<le> length path then
           (if ext = path then []
            else (let st = basename_ext_loop path ext (length path) init;
                      e = (if bn_start st = bn_end st then bn_firstNonSlashEnd st
                           else if bn_end st = -1 then int (length path)
                           else bn_end st)
                  in jsSlice path (bn_start st) e))
         else (let st = basename_plain_loop path (length path) init
               in if bn_end st = -1 then [] else jsSlice path (bn_start st) (bn_end st)))"

section \<open>Key Generator: \<open>generateKey\<close>\<close>

text \<open>
  \<^verbatim>\<open>
  private generateKey(text: string, type: string, filePath: string): string {
    let cleanText = text
      .replace(/[^\w\s]/g, '') // Remove special chars
      .replace(/\s+/g, '_') // Replace spaces with underscores
      .toUpperCase();
    const pathParts = filePath.split(path.sep);
    let serviceName = '';
    for (let i = 0; i < pathParts.length; i++) {
      if (pathParts[i] === 'notification' || pathParts[i] === 'auth' ||
          pathParts[i] === 'profile' || pathParts[i] === 'location') {
        serviceName = pathParts[i];
        break;
      }
    }
    if (!serviceName) {
      const srcIndex = pathParts.findIndex(part => part === 'src');
      if (srcIndex > 0) { serviceName = pathParts[srcIndex - 1]; }
      else { serviceName = 'UNKNOWN'; }
    }
    const fileName = path.basename(filePath, '.ts').replace('.', '_');
    return `${serviceName.toUpperCase()}.${fileName.toUpperCase()}.${type}.${cleanText}`;
  }
  \<close>
  \<open>removeSpecialChars\<close> is the first \<open>replace\<close>: every character that is neither a word
  character nor white space is deleted.  \<open>spacesToUnderscores\<close> is the second: every maximal
  run of white space becomes one underscore.  \<open>serviceName\<close> is the loop with its fallback
  (the loop leaves \<open>serviceName\<close> empty exactly when no part is a known service);
  \<open>fileName\<close> replaces the first dot only, as \<open>replace\<close> with a string pattern does.
  The function reads its three arguments and nothing else: no field of the extractor, no
  clock, and its two regular expressions are fresh literals.
\<close>

definition removeSpecialChars :: "string \<Rightarrow> string" where
  "removeSpecialChars s = filter (\<lambda>c. isWordChar c \<or> isSpace c) s"

function spacesToUnderscores :: "string \<Rightarrow> string" where
  "spacesToUnderscores [] = []"
| "spacesToUnderscores (c # cs) =
     (if isSpace c then CHR ''_'' # spacesToUnderscores (dropWhile isSpace cs)
      else c # spacesToUnderscores cs)"
  by pat_completeness auto
termination
  by (relation "measure length") (auto simp: less_Suc_eq_le length_dropWhile_le)

definition cleanText :: "string \<Rightarrow> string" where
  "cleanText text = toUpperCase (spacesToUnderscores (removeSpecialChars text))"

definition knownService :: "string \<Rightarrow> bool" where
  "knownService part =
     (part = ''notification'' \<or> part = ''auth'' \<or> part = ''profile'' \<or> part = ''location'')"

definition serviceName :: "string \<Rightarrow> string" where
  "serviceName filePath =
     (let pathParts = split_sep (CHR ''/'') filePath in
      case find knownService pathParts of
        Some part \<Rightarrow> part
      | None \<Rightarrow>
          (let srcIndex = findIndex (\<lambda>part. part = ''src'') pathParts in
           if srcIndex > 0 then pathParts ! nat (srcIndex - 1) else ''UNKNOWN''))"

definition fileName :: "string \<Rightarrow> string" where
  "fileName filePath = replaceFirstChar (CHR ''.'') (CHR ''_'') (basename filePath ''.ts'')"

definition generateKey :: "string \<Rightarrow> string \<Rightarrow> string \<Rightarrow> string" where
  "generateKey text ty filePath =
     toUpperCase (serviceName filePath) @ ''.'' @ toUpperCase (fileName filePath) @ ''.'' @
     ty @ ''.'' @ cleanText text"

text \<open>
  \<open>legalKeyChar\<close> holds of the characters of a legal key: the letters \<open>a\<close> to \<open>z\<close> and \<open>A\<close> to
  \<open>Z\<close>, the digits, the underscore and the dot.  \<open>cleanChar\<close> holds of the characters that
  the cleaning of the text leaves: the upper-case letters, the digits and the underscore.
  \<open>isAscii\<close> holds of the code units below 128.
\<close>

definition legalKeyChar :: "char \<Rightarrow> bool" where
  "legalKeyChar c = (isLower c \<or> isUpper c \<or> isDigit c \<or> c = CHR ''_'' \<or> c = CHR ''.'')"

definition cleanChar :: "char \<Rightarrow> bool" where
  "cleanChar c = (isUpper c \<or> isDigit c \<or> c = CHR ''_'')"

definition isAscii :: "char \<Rightarrow> bool" where
  "isAscii c = ((of_char c :: nat) < 128)"
section \<open>Deduplicator: \<open>removeDuplicates\<close>\<close>

text \<open>
  \<^verbatim>\<open>
  private removeDuplicates(strings: TranslationKey[]): TranslationKey[] {
    const uniqueStrings: TranslationKey[] = [];
    const seen = new Set();
    strings.forEach(item => {
      const key = `${item.key}:${item.text}`;
      if (!seen.has(key)) { seen.add(key); uniqueStrings.push(item); }
    });
    return uniqueStrings;
  }
  \<close>
  \<open>dedupKey\<close> is the template string; \<open>removeDuplicates_forEach\<close> is the \<open>forEach\<close> loop, with
  the set \<open>seen\<close> and the array \<open>uniqueStrings\<close> passed as state.
\<close>

definition dedupKey :: "TranslationKey \<Rightarrow> string" where
  "dedupKey item = key item @ '':'' @ text' item"

fun removeDuplicates_forEach ::
  "TranslationKey list \<Rightarrow> string set \<Rightarrow> TranslationKey list \<Rightarrow> TranslationKey list" where
  "removeDuplicates_forEach [] seen uniqueStrings = uniqueStrings"
| "removeDuplicates_forEach (item # rest) seen uniqueStrings =
     (let k = dedupKey item in
      if k \<notin> seen
      then removeDuplicates_forEach rest (insert k seen) (uniqueStrings @ [item])
      else removeDuplicates_forEach rest seen uniqueStrings)"

definition removeDuplicates :: "TranslationKey list \<Rightarrow> TranslationKey list" where
  "removeDuplicates strings = removeDuplicates_forEach strings {} []"

text \<open>
  \<open>firstOccurrence f xs i\<close>: no entry before position \<open>i\<close> has the same image under \<open>f\<close> as the
  entry at \<open>i\<close>.  \<open>pairOf\<close> is the (key, text) pair of an entry.
\<close>

definition firstOccurrence :: "(TranslationKey \<Rightarrow> 'a) \<Rightarrow> TranslationKey list \<Rightarrow> nat \<Rightarrow> bool" where
  "firstOccurrence f xs i = (\<forall>j<i. f (xs ! j) \<noteq> f (xs ! i))"

definition pairOf :: "TranslationKey \<Rightarrow> string \<times> string" where
  "pairOf item = (key item, text' item)"

definition unseen :: "string set \<Rightarrow> TranslationKey list \<Rightarrow> nat \<Rightarrow> bool" where
  "unseen seen xs i = (dedupKey (xs ! i) \<notin> seen \<union> dedupKey ` set (take i xs))"

section \<open>Regular expressions of the JavaScript runtime\<close>

text \<open>
  The patterns of the program are JavaScript regular expressions.  \<open>regex\<close> is their syntax,
  as far as the program uses it: a character class (\<open>Atom\<close>, a predicate on characters),
  sequence, alternative, the greedy star, the lazy star \<open>*?\<close>, a numbered capture group, the
  negative lookahead \<open>(?!r)\<close> and the end-of-line assertion \<open>$\<close> of the \<open>m\<close> flag.
  \<open>r+\<close>, \<open>r?\<close>, \<open>r{n,}\<close> and literal text are derived forms.

  \<open>rmatch r s caps\<close> is the backtracking matcher: all the ways \<open>r\<close> matches a prefix of \<open>s\<close>,
  each as the rest of the input with the captures, in the order in which a backtracking
  engine tries them, so that the head of the list is the match JavaScript reports.  An
  iteration of a star that consumes nothing is rejected, as in ECMAScript.  No pattern of
  the program has a capture group under a repetition, so the reset of captures at each
  iteration is not modelled.
\<close>

datatype regex =
    Atom "char \<Rightarrow> bool"
  | Eps
  | Seq regex regex
  | Alt regex regex
  | Star regex
  | Lazy regex
  | Group nat regex
  | NotAhead regex
  | LineEnd

type_synonym captures = "(nat \<times> string) list"

definition isLineTerminator :: "char \<Rightarrow> bool" where
  "isLineTerminator c = (c = CHR 0x0A \<or> c = CHR 0x0D)"

function rmatch :: "regex \<Rightarrow> string \<Rightarrow> captures \<Rightarrow> (string \<times> captures) list" where
  "rmatch (Atom P) s caps = (case s of [] \<Rightarrow> [] | c # cs \<Rightarrow> if P c then [(cs, caps)] else [])"
| "rmatch Eps s caps = [(s, caps)]"
| "rmatch (Seq r1 r2) s caps =
     concat (map (\<lambda>(s1, caps1). rmatch r2 s1 caps1) (rmatch r1 s caps))"
| "rmatch (Alt r1 r2) s caps = rmatch r1 s caps @ rmatch r2 s caps"
| "rmatch (Star r) s caps =
     concat (map (\<lambda>(s1, caps1). if length s1 < length s then rmatch (Star r) s1 caps1 else [])
                 (rmatch r s caps)) @ [(s, caps)]"
| "rmatch (Lazy r) s caps =
     (s, caps) #
     concat (map (\<lambda>(s1, caps1). if length s1 < length s then rmatch (Lazy r) s1 caps1 else [])
                 (rmatch r s caps))"
| "rmatch (Group n r) s caps =
     map (\<lambda>(s1, caps1). (s1, (n, take (length s - length s1) s) # caps1)) (rmatch r s caps)"
| "rmatch (NotAhead r) s caps = (if rmatch r s caps = [] then [(s, caps)] else [])"
| "rmatch LineEnd s caps =
     (case s of [] \<Rightarrow> [(s, caps)] | c # cs \<Rightarrow> if isLineTerminator c then [(s, caps)] else [])"
  by pat_completeness auto
termination
  by (relation "inv_image (less_than <*lex*> less_than) (\<lambda>(r, s, caps). (size r, length s))") auto

declare rmatch.simps(5,6) [simp del]

definition Plus :: "regex \<Rightarrow> regex" where
  "Plus r = Seq r (Star r)"

definition Opt :: "regex \<Rightarrow> regex" where
  "Opt r = Alt r Eps"

fun AtLeast :: "nat \<Rightarrow> regex \<Rightarrow> regex" where
  "AtLeast 0 r = Star r"
| "AtLeast (Suc n) r = Seq r (AtLeast n r)"

fun Lit :: "string \<Rightarrow> regex" where
  "Lit [] = Eps"
| "Lit (c # cs) = Seq (Atom (\<lambda>x. x = c)) (Lit cs)"

text \<open>
  \<open>LitI\<close> is literal text under the \<open>i\<close> flag: two characters match when their canonical
  forms agree.  The canonical form of a character is its upper-case form when that is one
  code unit, and the character itself otherwise; a character above 127 whose upper-case
  form is below 128 would keep itself, and the range has none.  The forms of 0xB5 and
  0xFF are the forms of no other character of the range, so that \<open>toUpperChar\<close>, which
  leaves the two as they are, decides the agreement of two characters of the range.
\<close>

fun LitI :: "string \<Rightarrow> regex" where
  "LitI [] = Eps"
| "LitI (c # cs) = Seq (Atom (\<lambda>x. toUpperChar x = toUpperChar c)) (LitI cs)"

fun Seqs :: "regex list \<Rightarrow> regex" where
  "Seqs [] = Eps"
| "Seqs [r] = r"
| "Seqs (r # rs) = Seq r (Seqs rs)"

text \<open>
  \<open>matchAt r s\<close> is the match of \<open>r\<close> at the start of \<open>s\<close>: the matched text and the captures.
  \<open>search r s\<close> is the leftmost match in \<open>s\<close>: the number of characters before it, the
  matched text and the captures.  A capture that is absent from the list is \<open>undefined\<close>.
\<close>

definition matchAt :: "regex \<Rightarrow> string \<Rightarrow> (string \<times> captures) option" where
  "matchAt r s =
     (case rmatch r s [] of
        [] \<Rightarrow> None
      | (rest, caps) # _ \<Rightarrow> Some (take (length s - length rest) s, caps))"

fun search :: "regex \<Rightarrow> string \<Rightarrow> (nat \<times> string \<times> captures) option" where
  "search r [] = (case matchAt r [] of None \<Rightarrow> None | Some (m, caps) \<Rightarrow> Some (0, m, caps))"
| "search r (c # cs) =
     (case matchAt r (c # cs) of
        Some (m, caps) \<Rightarrow> Some (0, m, caps)
      | None \<Rightarrow> (case search r cs of
                   None \<Rightarrow> None
                 | Some (k, m, caps) \<Rightarrow> Some (Suc k, m, caps)))"

text \<open>
  \<open>execAllG r s pos\<close> is the list of matches that \<open>String.prototype.replace\<close> and
  \<open>String.prototype.match\<close> collect for a regular expression with the \<open>g\<close> flag: \<open>s\<close> is the
  subject from position \<open>pos\<close> on, and each match is given with its position in the subject.
  After an empty match the search resumes one character further.
\<close>

function execAllG :: "regex \<Rightarrow> string \<Rightarrow> nat \<Rightarrow> (nat \<times> string \<times> captures) list" where
  "execAllG r [] pos =
     (case search r [] of None \<Rightarrow> [] | Some (k, m, caps) \<Rightarrow> [(pos + k, m, caps)])"
| "execAllG r (c # cs) pos =
     (case search r (c # cs) of
        None \<Rightarrow> []
      | Some (k, m, caps) \<Rightarrow>
          (pos + k, m, caps) #
          (if m = [] then
             (if k < length (c # cs)
              then execAllG r (drop (Suc k) (c # cs)) (pos + Suc k)
              else [])
           else execAllG r (drop (k + length m) (c # cs)) (pos + k + length m)))"
  by pat_completeness auto
termination
  by (relation "measure (\<lambda>(r, s, pos). length s)") auto

definition jsMatchAll :: "regex \<Rightarrow> string \<Rightarrow> string list" where
  "jsMatchAll r s = map (\<lambda>(i, m, caps). m) (execAllG r s 0)"

text \<open>
  \<open>splice s p reps\<close> builds the result of a replacement: \<open>p\<close> is the position after the last
  replaced match, and each element of \<open>reps\<close> is the position of a match, its text and what
  replaces it.
\<close>

fun splice :: "string \<Rightarrow> nat \<Rightarrow> (nat \<times> string \<times> string) list \<Rightarrow> string" where
  "splice s p [] = drop p s"
| "splice s p ((i, m, rep) # reps) =
     (if p \<le> i then take (i - p) (drop p s) @ rep @ splice s (i + length m) reps
      else splice s p reps)"

definition jsReplaceAll :: "regex \<Rightarrow> (string \<Rightarrow> captures \<Rightarrow> string) \<Rightarrow> string \<Rightarrow> string" where
  "jsReplaceAll r f s = splice s 0 (map (\<lambda>(i, m, caps). (i, m, f m caps)) (execAllG r s 0))"

definition jsRemoveAll :: "regex \<Rightarrow> string \<Rightarrow> string" where
  "jsRemoveAll r s = jsReplaceAll r (\<lambda>m caps. []) s"

text \<open>
  \<open>getSubstitution\<close> expands a replacement string for a pattern without capture groups:
  \<open>$$\<close> is a dollar sign, \<open>$&\<close> the matched text, \<open>$`\<close> the text before the match and \<open>$'\<close>
  the text after it; any other dollar sign stands for itself.  \<open>jsReplaceFirst\<close> is
  \<open>String.prototype.replace\<close> with a pattern without the \<open>g\<close> flag and a replacement string.
\<close>

fun getSubstitution :: "string \<Rightarrow> string \<Rightarrow> string \<Rightarrow> string \<Rightarrow> string" where
  "getSubstitution m pre post [] = []"
| "getSubstitution m pre post [c] = [c]"
| "getSubstitution m pre post (c # d # rest) =
     (if c = CHR ''$'' \<and> d = CHR ''$'' then CHR ''$'' # getSubstitution m pre post rest
      else if c = CHR ''$'' \<and> d = CHR ''&'' then m @ getSubstitution m pre post rest
      else if c = CHR ''$'' \<and> d = CHR 0x60 then pre @ getSubstitution m pre post rest
      else if c = CHR ''$'' \<and> d = CHR 0x27 then post @ getSubstitution m pre post rest
      else c # getSubstitution m pre post (d # rest))"

definition jsReplaceFirst :: "regex \<Rightarrow> string \<Rightarrow> string \<Rightarrow> string" where
  "jsReplaceFirst r replacement s =
     (case search r s of
        None \<Rightarrow> s
      | Some (k, m, caps) \<Rightarrow>
          take k s @ getSubstitution m (take k s) (drop (k + length m) s) replacement @
          drop (k + length m) s)"

text \<open>
  Further string functions: \<open>trim\<close>, \<open>jsIncludes\<close> (the method \<open>includes\<close>), and the decimal
  numeral of a number in a template string.
\<close>

definition trim :: "string \<Rightarrow> string" where
  "trim s = rev (dropWhile isSpace (rev (dropWhile isSpace s)))"

fun jsIncludes :: "string \<Rightarrow> string \<Rightarrow> bool" where
  "jsIncludes [] sub = (sub = [])"
| "jsIncludes (c # cs) sub = (prefix sub (c # cs) \<or> jsIncludes cs sub)"

function showNat :: "nat \<Rightarrow> string" where
  "showNat n = (if n < 10 then [''0123456789'' ! n] else showNat (n div 10) @ [''0123456789'' ! (n mod 10)])"
  by pat_completeness auto
termination
  by (relation "measure id") auto

declare showNat.simps [simp del]

definition isQuote :: "char \<Rightarrow> bool" where
  "isQuote c = (c = CHR 0x27 \<or> c = CHR 0x22 \<or> c = CHR 0x60)"

definition quote :: regex where
  "quote = Atom isQuote"

definition notQuote :: regex where
  "notQuote = Atom (\<lambda>c. \<not> isQuote c)"

definition wordChar :: regex where
  "wordChar = Atom isWordChar"

definition whiteSpace :: regex where
  "whiteSpace = Atom isSpace"

section \<open>The file system\<close>

text \<open>
  The program reaches the file system through \<open>fs-extra\<close>.  \<open>world\<close> is the part of it that the
  program reads and writes: the text of each readable file, the size that \<open>stat\<close> reports
  for a path, the parsed content that \<open>readJson\<close> returns for a path, the paths where a
  write or a directory creation is refused, the directories created and the log of the
  writes made, in the order of the calls.  A path that a map does not know is a path whose
  read fails.  \<open>TranslationData\<close> is the persisted dataset as far as the program reads it; its
  field \<open>keys\<close> may be absent.
\<close>

datatype error =
    ReadFailed string
  | WriteFailed string
  | InvalidSearchPath
  | TypeError

record TranslationData =
  keys :: "TranslationKey list option"

record world =
  files :: "string \<rightharpoonup> string"
  sizes :: "string \<rightharpoonup> int"
  jsons :: "string \<rightharpoonup> TranslationData"
  denied :: "string \<Rightarrow> bool"
  dirs :: "string list"
  written :: "(string \<times> string) list"

definition readFile :: "world \<Rightarrow> string \<Rightarrow> error + string" where
  "readFile w p = (case files w p of None \<Rightarrow> Inl (ReadFailed p) | Some content \<Rightarrow> Inr content)"

definition writeFile :: "world \<Rightarrow> string \<Rightarrow> string \<Rightarrow> error + world" where
  "writeFile w p content =
     (if denied w p then Inl (WriteFailed p)
      else Inr (w\<lparr>files := (files w)(p \<mapsto> content), written := written w @ [(p, content)]\<rparr>))"

definition ensureDir :: "world \<Rightarrow> string \<Rightarrow> error + world" where
  "ensureDir w d =
     (if denied w d then Inl (WriteFailed d) else Inr (w\<lparr>dirs := dirs w @ [d]\<rparr>))"

definition readJson :: "world \<Rightarrow> string \<Rightarrow> error + TranslationData" where
  "readJson w p = (case jsons w p of None \<Rightarrow> Inl (ReadFailed p) | Some data \<Rightarrow> Inr data)"

section \<open>Pattern Matcher and Extraction Orchestrator\<close>

text \<open>
  \<open>ExtractionPattern\<close> is the interface of \<open>src/types/index.ts\<close>; its regular expression has
  the \<open>g\<close> flag.  \<open>defaultPatterns\<close> is the catalog of \<open>TranslationExtractor\<close>:
  \<^verbatim>\<open>
  /throw new \w+Exception\(['"`]([^'"`]+)['"`](?:,\s*\w+\.\w+)?\)/g          EXCEPTION, 1
  /return\s*\{[^}]*message\s*:\s*['"`]([^'"`]+)['"`][^}]*\}/g               RETURN_MESSAGE, 2
  /errors\.push\(`([^`]+)`\)/g                                              TEMPLATE_LITERAL, 3
  /message\s*:\s*['"`]([^'"`]+)['"`]/g                                      MESSAGE_PROPERTY, 4
  /['"`]([^'"`]{10,})['"`]\s*\+\s*['"`]([^'"`]+)['"`]/g                     CONCATENATED_STRING, 5
  \<close>
\<close>

record ExtractionPattern =
  pat_regex :: regex
  pat_type :: string
  pat_description :: string
  pat_priority :: "int option"

definition exceptionRegex :: regex where
  "exceptionRegex =
     Seqs [Lit ''throw new '', Plus wordChar, Lit ''Exception('', quote, Group 1 (Plus notQuote),
           quote,
           Opt (Seqs [Lit '','', Star whiteSpace, Plus wordChar, Lit ''.'', Plus wordChar]),
           Lit '')'']"

definition returnMessageRegex :: regex where
  "returnMessageRegex =
     Seqs [Lit ''return'', Star whiteSpace, Lit ''{'', Star (Atom (\<lambda>c. c \<noteq> CHR ''}'')),
           Lit ''message'', Star whiteSpace, Lit '':'', Star whiteSpace,
           quote, Group 1 (Plus notQuote), quote,
           Star (Atom (\<lambda>c. c \<noteq> CHR ''}'')), Lit ''}'']"

definition templateLiteralRegex :: regex where
  "templateLiteralRegex =
     Seqs [Lit ''errors.push('', Atom (\<lambda>c. c = CHR 0x60),
           Group 1 (Plus (Atom (\<lambda>c. c \<noteq> CHR 0x60))),
           Atom (\<lambda>c. c = CHR 0x60), Lit '')'']"

definition messagePropertyRegex :: regex where
  "messagePropertyRegex =
     Seqs [Lit ''message'', Star whiteSpace, Lit '':'', Star whiteSpace,
           quote, Group 1 (Plus notQuote), quote]"

definition concatenatedStringRegex :: regex where
  "concatenatedStringRegex =
     Seqs [quote, Group 1 (AtLeast 10 notQuote), quote, Star whiteSpace, Lit ''+'',
           Star whiteSpace, quote, Group 2 (Plus notQuote), quote]"

definition defaultPatterns :: "ExtractionPattern list" where
  "defaultPatterns =
     [\<lparr>pat_regex = exceptionRegex, pat_type = ''EXCEPTION'',
       pat_description = ''Exception messages'', pat_priority = Some 1\<rparr>,
      \<lparr>pat_regex = returnMessageRegex, pat_type = ''RETURN_MESSAGE'',
       pat_description = ''Return object messages'', pat_priority = Some 2\<rparr>,
      \<lparr>pat_regex = templateLiteralRegex, pat_type = ''TEMPLATE_LITERAL'',
       pat_description = ''Template literals in error arrays'', pat_priority = Some 3\<rparr>,
      \<lparr>pat_regex = messagePropertyRegex, pat_type = ''MESSAGE_PROPERTY'',
       pat_description = ''Message properties in objects'', pat_priority = Some 4\<rparr>,
      \<lparr>pat_regex = concatenatedStringRegex, pat_type = ''CONCATENATED_STRING'',
       pat_description = ''Concatenated strings'', pat_priority = Some 5\<rparr>]"

subsection \<open>\<open>Validator.sanitizeOutput\<close> and \<open>Validator.validatePath\<close>\<close>

text \<open>
  \<^verbatim>\<open>
  sanitizeOutput(output: string): string {
    if (!this.securityContext.sanitizeOutputs) { return output; }
    return output
      .replace(/<script\b[^<]*(?:(?!<\/script>)<[^<]*)*<\/script>/gi, '')
      .replace(/[<>]/g, '')
      .replace(/javascript:/gi, '')
      .replace(/data:text\/html/gi, '')
      .replace(/on\w+\s*=/gi, '')
      .replace(/eval\s*\(/gi, '')
      .replace(/alert\s*\(/gi, '')
      .replace(/confirm\s*\(/gi, '')
      .replace(/prompt\s*\(/gi, '')
      .trim();
  }
  \<close>
  The flag \<open>sanitizeOutputs\<close> of the configuration is the first argument.  In the first
  pattern \<open>\b\<close> follows the letter \<open>t\<close>, so it holds exactly when no word character comes
  next: it is written as a negative lookahead.
\<close>

definition scriptTagRegex :: regex where
  "scriptTagRegex =
     Seqs [LitI ''<script'', NotAhead wordChar, Star (Atom (\<lambda>c. c \<noteq> CHR ''<'')),
           Star (Seqs [NotAhead (LitI ''</script>''), Lit ''<'', Star (Atom (\<lambda>c. c \<noteq> CHR ''<''))]),
           LitI ''</script>'']"

definition sanitizeOutput :: "bool \<Rightarrow> string \<Rightarrow> string" where
  "sanitizeOutput sanitizeOutputs output =
     (if \<not> sanitizeOutputs then output
      else trim
        (jsRemoveAll (Seqs [LitI ''prompt'', Star whiteSpace, Lit ''(''])
        (jsRemoveAll (Seqs [LitI ''confirm'', Star whiteSpace, Lit ''(''])
        (jsRemoveAll (Seqs [LitI ''alert'', Star whiteSpace, Lit ''(''])
        (jsRemoveAll (Seqs [LitI ''eval'', Star whiteSpace, Lit ''(''])
        (jsRemoveAll (Seqs [LitI ''on'', Plus wordChar, Star whiteSpace, Lit ''=''])
        (jsRemoveAll (LitI ''data:text/html'')
        (jsRemoveAll (LitI ''javascript:'')
        (jsRemoveAll (Atom (\<lambda>c. c = CHR ''<'' \<or> c = CHR ''>''))
        (jsRemoveAll scriptTagRegex output))))))))))"

text \<open>
  \<open>validatePath\<close> reports an error for a path that is empty or blank, or that holds a null
  character; its other finding is a warning.  \<open>pathIsValid\<close> is its \<open>isValid\<close>.
\<close>

definition pathIsValid :: "string \<Rightarrow> bool" where
  "pathIsValid p = (trim p \<noteq> [] \<and> CHR 0x00 \<notin> set p)"

subsection \<open>Enrichments of an entry\<close>

text \<open>
  \<^verbatim>\<open>
  private determinePriority(text: string, type: string): 'high' | 'medium' | 'low' {
    if (type === 'EXCEPTION' || text.toLowerCase().includes('error')) { return 'high'; }
    if (type === 'RETURN_MESSAGE' || text.toLowerCase().includes('validation')) { return 'medium'; }
    return 'low';
  }
  private determineCategory(filePath: string, type: string): string {
    const pathParts = filePath.split(path.sep);
    const serviceIndex = pathParts.findIndex(part =>
      ['auth', 'profile', 'notification', 'location', 'bff'].includes(part));
    if (serviceIndex !== -1) { return pathParts[serviceIndex]; }
    const srcIndex = pathParts.findIndex(part => part === 'src');
    if (srcIndex > 0) { return pathParts[srcIndex - 1]; }
    return 'unknown';
  }
  private extractComments(content: string): string[] {
    const comments: string[] = [];
    const singleLineComments = content.match(/\/\/.*$/gm) || [];
    comments.push(...singleLineComments.map(c => c.trim()));
    const multiLineComments = content.match(/\/\*[\s\S]*?\*\//gm) || [];
    comments.push(...multiLineComments.map(c => c.trim()));
    return comments;
  }
  private findNearbyComment(comments: string[], line: number): string | undefined {
    for (let i = Math.max(0, line - 5); i <= line + 5; i++) {
      const comment = comments.find(c => c.includes(`line ${i}`));
      if (comment) { return comment.replace(/\/\/\s*|\/\*\s*|\s*\*\//g, '').trim(); }
    }
    return undefined;
  }
  \<close>
\<close>

definition determinePriority :: "string \<Rightarrow> string \<Rightarrow> string" where
  "determinePriority text ty =
     (if ty = ''EXCEPTION'' \<or> jsIncludes (toLowerCase text) ''error'' then ''high''
      else if ty = ''RETURN_MESSAGE'' \<or> jsIncludes (toLowerCase text) ''validation'' then ''medium''
      else ''low'')"

definition determineCategory :: "string \<Rightarrow> string \<Rightarrow> string" where
  "determineCategory filePath ty =
     (let pathParts = split_sep (CHR ''/'') filePath;
          serviceIndex = findIndex
            (\<lambda>part. part \<in> set [''auth'', ''profile'', ''notification'', ''location'', ''bff''])
            pathParts
      in if serviceIndex \<noteq> -1 then pathParts ! nat serviceIndex
         else (let srcIndex = findIndex (\<lambda>part. part = ''src'') pathParts
               in if srcIndex > 0 then pathParts ! nat (srcIndex - 1) else ''unknown''))"

definition singleLineCommentRegex :: regex where
  "singleLineCommentRegex = Seqs [Lit ''//'', Star (Atom (\<lambda>c. \<not> isLineTerminator c)), LineEnd]"

definition multiLineCommentRegex :: regex where
  "multiLineCommentRegex = Seqs [Lit ''/*'', Lazy (Atom (\<lambda>c. True)), Lit ''*/'']"

definition commentMarkerRegex :: regex where
  "commentMarkerRegex =
     Alt (Seq (Lit ''//'') (Star whiteSpace))
         (Alt (Seq (Lit ''/*'') (Star whiteSpace)) (Seq (Star whiteSpace) (Lit ''*/'')))"

definition extractComments :: "string \<Rightarrow> string list" where
  "extractComments content =
     map trim (jsMatchAll singleLineCommentRegex content) @
     map trim (jsMatchAll multiLineCommentRegex content)"

fun findNearbyComment_for :: "string list \<Rightarrow> nat list \<Rightarrow> string option" where
  "findNearbyComment_for comments [] = None"
| "findNearbyComment_for comments (i # rest) =
     (case find (\<lambda>c. jsIncludes c (''line '' @ showNat i)) comments of
        None \<Rightarrow> findNearbyComment_for comments rest
      | Some comment \<Rightarrow>
          if comment \<noteq> [] then Some (trim (jsRemoveAll commentMarkerRegex comment))
          else findNearbyComment_for comments rest)"

definition findNearbyComment :: "string list \<Rightarrow> nat \<Rightarrow> string option" where
  "findNearbyComment comments ln = findNearbyComment_for comments [ln - 5 ..< ln + 6]"

subsection \<open>\<open>extractFromFile\<close>\<close>

text \<open>
  \<^verbatim>\<open>
  private async extractFromFile(filePath: string, patterns: ExtractionPattern[],
                                includeComments: boolean = false): Promise<TranslationKey[]> {
    const content = await fs.readFile(filePath, 'utf8');
    const results: TranslationKey[] = [];
    let comments: string[] = [];
    if (includeComments) { comments = this.extractComments(content); }
    patterns.forEach(pattern => {
      let match;
      while ((match = pattern.regex.exec(content)) !== null) {
        const text = match[1] || match[2] || match[0];
        if (text.length < 3 || text.length > 500) { continue; }
        const key = this.generateKey(text, pattern.type, filePath);
        const line = content.substring(0, match.index).split('\n').length;
        const context = includeComments ? this.findNearbyComment(comments, line) : undefined;
        results.push({ key, text: this.validator.sanitizeOutput(text), type: pattern.type,
          file: filePath, line, context,
          priority: this.determinePriority(text, pattern.type),
          category: this.determineCategory(filePath, pattern.type) });
      }
    });
    return results;
  }
  \<close>
  \<open>candidate\<close> is \<open>match[1] || match[2] || match[0]\<close>: an absent or empty capture is falsy.
  \<open>extract_body\<close> is the body of the \<open>while\<close> loop for one match at position \<open>index\<close>.

  \<open>extract_while\<close> is the \<open>while\<close> loop: \<open>s\<close> is the content from \<open>lastIndex\<close> on.  \<open>exec\<close>
  sets \<open>lastIndex\<close> to the end of the match and resets it to 0 when it finds none, so every
  loop starts at 0; the loops of one batch do not interleave, because a loop runs without
  a suspension point.  After an empty match \<open>lastIndex\<close> stays where it is, the same match
  is found again and the loop never ends: the result is then \<open>None\<close>.  A result \<open>Some\<close> is
  a loop that ends.
\<close>

definition candidate :: "string \<Rightarrow> captures \<Rightarrow> string" where
  "candidate m caps =
     (let m0 = m;
          m2 = (case map_of caps 2 of None \<Rightarrow> m0 | Some g \<Rightarrow> if g \<noteq> [] then g else m0)
      in case map_of caps 1 of None \<Rightarrow> m2 | Some g \<Rightarrow> if g \<noteq> [] then g else m2)"

record extraction =
  ex_sanitizeOutputs :: bool
  ex_includeComments :: bool
  ex_comments :: "string list"
  ex_content :: string
  ex_filePath :: string

definition extract_body ::
  "extraction \<Rightarrow> ExtractionPattern \<Rightarrow> nat \<Rightarrow> string \<Rightarrow> captures \<Rightarrow>
   TranslationKey list \<Rightarrow> TranslationKey list" where
  "extract_body ex pattern index m caps results =
     (let text = candidate m caps in
      if length text < 3 \<or> length text > 500 then results
      else
        (let k = generateKey text (pat_type pattern) (ex_filePath ex);
             ln = length (split_sep (CHR 0x0A) (take index (ex_content ex)));
             ctx = (if ex_includeComments ex then findNearbyComment (ex_comments ex) ln else None)
         in results @
            [\<lparr>key = k, text' = sanitizeOutput (ex_sanitizeOutputs ex) text,
              type = pat_type pattern, file' = ex_filePath ex, line = ln, context' = ctx,
              priority = Some (determinePriority text (pat_type pattern)),
              category = Some (determineCategory (ex_filePath ex) (pat_type pattern))\<rparr>]))"

function extract_while ::
  "extraction \<Rightarrow> ExtractionPattern \<Rightarrow> string \<Rightarrow> nat \<Rightarrow> TranslationKey list \<Rightarrow>
   TranslationKey list option" where
  "extract_while ex pattern [] lastIndex results =
     (case search (pat_regex pattern) [] of None \<Rightarrow> Some results | Some found \<Rightarrow> None)"
| "extract_while ex pattern (c # cs) lastIndex results =
     (case search (pat_regex pattern) (c # cs) of
        None \<Rightarrow> Some results
      | Some (k, m, caps) \<Rightarrow>
          if m = [] then None
          else extract_while ex pattern (drop (k + length m) (c # cs)) (lastIndex + k + length m)
                 (extract_body ex pattern (lastIndex + k) m caps results))"
  by pat_completeness auto
termination
  by (relation "measure (\<lambda>(ex, pattern, s, lastIndex, results). length s)") auto

fun extract_forEach ::
  "extraction \<Rightarrow> ExtractionPattern list \<Rightarrow> TranslationKey list \<Rightarrow> TranslationKey list option" where
  "extract_forEach ex [] results = Some results"
| "extract_forEach ex (pattern # patterns) results =
     (case extract_while ex pattern (ex_content ex) 0 results of
        None \<Rightarrow> None
      | Some results' \<Rightarrow> extract_forEach ex patterns results')"

text \<open>
  The result of \<open>extractFromFile\<close> is \<open>None\<close> when a loop never ends, \<open>Some (Inl e)\<close> when the
  promise is rejected (the file cannot be read) and \<open>Some (Inr results)\<close> when it is
  fulfilled.
\<close>

definition extractFromFile ::
  "world \<Rightarrow> bool \<Rightarrow> string \<Rightarrow> ExtractionPattern list \<Rightarrow> bool \<Rightarrow>
   (error + TranslationKey list) option" where
  "extractFromFile w sanitizeOutputs filePath patterns includeComments =
     (case readFile w filePath of
        Inl e \<Rightarrow> Some (Inl e)
      | Inr content \<Rightarrow>
          (let comments = (if includeComments then extractComments content else []);
               ex = \<lparr>ex_sanitizeOutputs = sanitizeOutputs, ex_includeComments = includeComments,
                     ex_comments = comments, ex_content = content, ex_filePath = filePath\<rparr>
           in map_option Inr (extract_forEach ex patterns [])))"

subsection \<open>\<open>extract\<close>\<close>

text \<open>
  The method \<open>extract\<close> is the function \<open>extract'\<close>: its own name is a reserved word of the
  theory language.
\<close>

text \<open>
  \<^verbatim>\<open>
  private async filterFilesBySize(files: string[], maxFileSizeMB: number): Promise<string[]> {
    const validFiles: string[] = [];
    for (const file of files) {
      try {
        const stats = await fs.stat(file);
        const fileSizeMB = stats.size / (1024 * 1024);
        if (fileSizeMB <= maxFileSizeMB) { validFiles.push(file); }
      } catch (error) { this.logger.warning(...); }
    }
    return validFiles;
  }
  \<close>
  The size is a number of bytes; the limit is a whole number of megabytes here.
\<close>

definition filterFilesBySize :: "world \<Rightarrow> string list \<Rightarrow> int \<Rightarrow> string list" where
  "filterFilesBySize w fs maxFileSizeMB =
     filter (\<lambda>f. case sizes w f of None \<Rightarrow> False
                 | Some sz \<Rightarrow> sz \<le> maxFileSizeMB * (1024 * 1024)) fs"

text \<open>
  \<^verbatim>\<open>
  async extract(options: ExtractionOptions): Promise<TranslationKey[]> {
    ...
    if (validate) {
      const pathValidation = this.validator.validatePath(searchPath);
      if (!pathValidation.isValid) { ...; throw new Error('Invalid search path'); }
    }
    const tsFiles = await glob(searchPattern, { ignore: allIgnorePatterns });
    const validFiles = await this.filterFilesBySize(tsFiles, maxFileSize);
    const sortedPatterns = [...patterns].sort((a, b) => (a.priority || 0) - (b.priority || 0));
    const allStrings: TranslationKey[] = [];
    const batchSize = concurrency;
    for (let i = 0; i < validFiles.length; i += batchSize) {
      const batch = validFiles.slice(i, i + batchSize);
      const batchPromises = batch.map((file: string) =>
        this.extractFromFile(file, sortedPatterns, includeComments));
      const batchResults = await Promise.allSettled(batchPromises);
      batchResults.forEach((result, index) => {
        if (result.status === 'fulfilled') { allStrings.push(...result.value); }
        else { this.logger.warning(...); }
      });
    }
    const uniqueStrings = this.removeDuplicates(allStrings);
    ...
    return uniqueStrings;
  }
  \<close>
  \<open>settings\<close> holds the options after their defaults are filled in, with the flag
  \<open>sanitizeOutputs\<close> of the configuration; the list \<open>tsFiles\<close> that \<open>glob\<close> returns is an
  argument.  The logger, the performance monitor and the validation of the result only
  report.  \<open>priorityOf\<close> is \<open>(pattern.priority || 0)\<close>; \<open>sort\<close> is stable.

  \<open>extract_settled\<close> is \<open>Promise.allSettled\<close> with the \<open>forEach\<close> that follows it: the values
  of the fulfilled promises, in the order of the batch; \<open>None\<close> when a promise never
  settles.  \<open>extract_batches\<close> is the \<open>for\<close> loop; with a batch size that is not positive
  the loop variable never reaches the number of files, and the result is \<open>None\<close>.
\<close>

record settings =
  searchPath :: string
  patterns :: "ExtractionPattern list"
  validate :: bool
  maxFileSize :: int
  concurrency :: int
  includeComments :: bool
  sanitizeOutputs :: bool

definition priorityOf :: "ExtractionPattern \<Rightarrow> int" where
  "priorityOf pattern = (case pat_priority pattern of None \<Rightarrow> 0 | Some p \<Rightarrow> p)"

fun extract_settled ::
  "world \<Rightarrow> settings \<Rightarrow> ExtractionPattern list \<Rightarrow> string list \<Rightarrow> TranslationKey list option" where
  "extract_settled w cfg sortedPatterns [] = Some []"
| "extract_settled w cfg sortedPatterns (f # batch) =
     (case extractFromFile w (sanitizeOutputs cfg) f sortedPatterns (includeComments cfg) of
        None \<Rightarrow> None
      | Some result \<Rightarrow>
          (case extract_settled w cfg sortedPatterns batch of
             None \<Rightarrow> None
           | Some rest \<Rightarrow>
               (case result of Inl reason \<Rightarrow> Some rest | Inr val \<Rightarrow> Some (val @ rest))))"

function extract_batches ::
  "world \<Rightarrow> settings \<Rightarrow> ExtractionPattern list \<Rightarrow> string list \<Rightarrow> nat \<Rightarrow>
   TranslationKey list \<Rightarrow> TranslationKey list option" where
  "extract_batches w cfg sortedPatterns validFiles i allStrings =
     (if i < length validFiles then
        (if concurrency cfg \<le> 0 then None
         else
           (case extract_settled w cfg sortedPatterns
                   (take (nat (concurrency cfg)) (drop i validFiles)) of
              None \<Rightarrow> None
            | Some vals \<Rightarrow>
                extract_batches w cfg sortedPatterns validFiles (i + nat (concurrency cfg))
                  (allStrings @ vals)))
      else Some allStrings)"
  by pat_completeness auto
termination
  by (relation "measure (\<lambda>(w, cfg, sortedPatterns, validFiles, i, allStrings). length validFiles - i)")
     auto

declare extract_batches.simps [simp del]

definition extract' :: "world \<Rightarrow> settings \<Rightarrow> string list \<Rightarrow> (error + TranslationKey list) option" where
  "extract' w cfg tsFiles =
     (if validate cfg \<and> \<not> pathIsValid (searchPath cfg) then Some (Inl InvalidSearchPath)
      else
        (let validFiles = filterFilesBySize w tsFiles (maxFileSize cfg);
             sortedPatterns = sort_key priorityOf (patterns cfg)
         in case extract_batches w cfg sortedPatterns validFiles 0 [] of
              None \<Rightarrow> None
            | Some allStrings \<Rightarrow> Some (Inr (removeDuplicates allStrings))))"

section \<open>Replacement Engine\<close>

text \<open>
  \<^verbatim>\<open>
  const textToKeyMap = new Map<string, string>();
  translationKeys.forEach(key => { textToKeyMap.set(key.text, key.key); });
  const patterns = [
    { regex: /throw new (\w+Exception)\(['"`]([^'"`]+)['"`](?:,\s*\{[^}]+\})?\)/g,
      replacement: (match: string, exceptionType: string, text: string) => {
        const key = textToKeyMap.get(text);
        if (key) { return `throw new ${exceptionType}(this.translate('${key}'))`; }
        return match; } },
    { regex: /throw new (\w+Exception)\(['"`]([^'"`]+)['"`]\)/g,
      replacement: (the same function) },
    { regex: /return\s*\{[^}]*message\s*:\s*['"`]([^'"`]+)['"`][^}]*\}/g,
      replacement: (match: string, text: string) => {
        const key = textToKeyMap.get(text);
        if (key) { return match.replace(/message\s*:\s*['"`][^'"`]+['"`]/,
                                        `message: this.translate('${key}')`); }
        return match; } },
    { regex: /message\s*:\s*['"`]([^'"`]+)['"`]/g,
      replacement: (match: string, text: string) => {
        const key = textToKeyMap.get(text);
        if (key) { return `message: this.translate('${key}')`; }
        return match; } },
    { regex: /errors\.push\(`([^`]+)`\)/g,
      replacement: (match: string, text: string) => {
        const key = textToKeyMap.get(text);
        if (key) { return `errors.push(this.translate('${key}'))`; }
        return match; } }
  ];
  \<close>
  \<open>textToKeyMap\<close> is the map: a later entry with the same text replaces an earlier one.
  \<open>lookupKey\<close> is \<open>textToKeyMap.get(text)\<close> under the test \<open>if (key)\<close>: an empty key is falsy.
  \<open>group n caps\<close> is the text of capture \<open>n\<close>; every capture read here belongs to a
  group that takes part in each match.  A \<open>replacement\<close> takes the keys, the matched text
  and the captures.
\<close>

definition textToKeyMap :: "TranslationKey list \<Rightarrow> (string \<rightharpoonup> string)" where
  "textToKeyMap translationKeys = foldl (\<lambda>m k. m(text' k \<mapsto> key k)) Map.empty translationKeys"

definition lookupKey :: "TranslationKey list \<Rightarrow> string \<Rightarrow> string option" where
  "lookupKey translationKeys text =
     (case textToKeyMap translationKeys text of
        None \<Rightarrow> None
      | Some k \<Rightarrow> if k \<noteq> [] then Some k else None)"

definition group :: "nat \<Rightarrow> captures \<Rightarrow> string" where
  "group n caps = (case map_of caps n of None \<Rightarrow> [] | Some g \<Rightarrow> g)"

record ReplacePattern =
  rp_regex :: regex
  rp_replacement :: "TranslationKey list \<Rightarrow> string \<Rightarrow> captures \<Rightarrow> string"

definition exceptionWithObjectRegex :: regex where
  "exceptionWithObjectRegex =
     Seqs [Lit ''throw new '', Group 1 (Seq (Plus wordChar) (Lit ''Exception'')), Lit ''('',
           quote, Group 2 (Plus notQuote), quote,
           Opt (Seqs [Lit '','', Star whiteSpace, Lit ''{'', Plus (Atom (\<lambda>c. c \<noteq> CHR ''}'')),
                      Lit ''}'']),
           Lit '')'']"

definition simpleExceptionRegex :: regex where
  "simpleExceptionRegex =
     Seqs [Lit ''throw new '', Group 1 (Seq (Plus wordChar) (Lit ''Exception'')), Lit ''('',
           quote, Group 2 (Plus notQuote), quote, Lit '')'']"

definition messageValueRegex :: regex where
  "messageValueRegex =
     Seqs [Lit ''message'', Star whiteSpace, Lit '':'', Star whiteSpace,
           quote, Plus notQuote, quote]"

definition exceptionReplacement :: "TranslationKey list \<Rightarrow> string \<Rightarrow> captures \<Rightarrow> string" where
  "exceptionReplacement translationKeys m caps =
     (case lookupKey translationKeys (group 2 caps) of
        Some k \<Rightarrow> ''throw new '' @ group 1 caps @ ''(this.translate('' @ [CHR 0x27] @ k @
                  [CHR 0x27] @ ''))''
      | None \<Rightarrow> m)"

definition returnMessageReplacement :: "TranslationKey list \<Rightarrow> string \<Rightarrow> captures \<Rightarrow> string" where
  "returnMessageReplacement translationKeys m caps =
     (case lookupKey translationKeys (group 1 caps) of
        Some k \<Rightarrow> jsReplaceFirst messageValueRegex
                   (''message: this.translate('' @ [CHR 0x27] @ k @ [CHR 0x27] @ '')'') m
      | None \<Rightarrow> m)"

definition messagePropertyReplacement :: "TranslationKey list \<Rightarrow> string \<Rightarrow> captures \<Rightarrow> string" where
  "messagePropertyReplacement translationKeys m caps =
     (case lookupKey translationKeys (group 1 caps) of
        Some k \<Rightarrow> ''message: this.translate('' @ [CHR 0x27] @ k @ [CHR 0x27] @ '')''
      | None \<Rightarrow> m)"

definition templateLiteralReplacement :: "TranslationKey list \<Rightarrow> string \<Rightarrow> captures \<Rightarrow> string" where
  "templateLiteralReplacement translationKeys m caps =
     (case lookupKey translationKeys (group 1 caps) of
        Some k \<Rightarrow> ''errors.push(this.translate('' @ [CHR 0x27] @ k @ [CHR 0x27] @ ''))''
      | None \<Rightarrow> m)"

definition replacePatterns :: "ReplacePattern list" where
  "replacePatterns =
     [\<lparr>rp_regex = exceptionWithObjectRegex, rp_replacement = exceptionReplacement\<rparr>,
      \<lparr>rp_regex = simpleExceptionRegex, rp_replacement = exceptionReplacement\<rparr>,
      \<lparr>rp_regex = returnMessageRegex, rp_replacement = returnMessageReplacement\<rparr>,
      \<lparr>rp_regex = messagePropertyRegex, rp_replacement = messagePropertyReplacement\<rparr>,
      \<lparr>rp_regex = templateLiteralRegex, rp_replacement = templateLiteralReplacement\<rparr>]"

text \<open>
  \<^verbatim>\<open>
  patterns.forEach(pattern => {
    newContent = newContent.replace(pattern.regex, (match, ...args) => {
      const result = pattern.replacement(match, args[0], args[1]);
      if (result !== match) { replacements++; ... }
      return result;
    });
  });
  \<close>
  \<open>replace_callbacks\<close> calls the function for each match in turn and counts the results that
  differ from the match; \<open>replace_forEach\<close> is the loop over the patterns, with \<open>newContent\<close>
  and \<open>replacements\<close> as state.
\<close>

fun replace_callbacks ::
  "ReplacePattern \<Rightarrow> TranslationKey list \<Rightarrow> (nat \<times> string \<times> captures) list \<Rightarrow> nat \<Rightarrow>
   (nat \<times> string \<times> string) list \<times> nat" where
  "replace_callbacks pattern translationKeys [] replacements = ([], replacements)"
| "replace_callbacks pattern translationKeys ((i, m, caps) # ms) replacements =
     (let result = rp_replacement pattern translationKeys m caps;
          replacements' = (if result \<noteq> m then replacements + 1 else replacements);
          (reps, n) = replace_callbacks pattern translationKeys ms replacements'
      in ((i, m, result) # reps, n))"

fun replace_forEach ::
  "ReplacePattern list \<Rightarrow> TranslationKey list \<Rightarrow> string \<Rightarrow> nat \<Rightarrow> string \<times> nat" where
  "replace_forEach [] translationKeys newContent replacements = (newContent, replacements)"
| "replace_forEach (pattern # rest) translationKeys newContent replacements =
     (let (reps, n) = replace_callbacks pattern translationKeys
                        (execAllG (rp_regex pattern) newContent 0) replacements
      in replace_forEach rest translationKeys (splice newContent 0 reps) n)"

text \<open>
  \<^verbatim>\<open>
  private async replaceInFile(filePath, translationKeys, options): Promise<number> {
    const { backup, dryRun } = options;
    const content = await fs.readFile(filePath, 'utf8');
    let newContent = content;
    let replacements = 0;
    ...
    if (replacements > 0 && !dryRun) {
      if (backup) {
        const backupPath = `${filePath}.backup`;
        await fs.writeFile(backupPath, content);
      }
      await fs.writeFile(filePath, newContent);
    } else if (replacements > 0 && dryRun) { this.logger.info(`[DRY RUN] Would update ...`); }
    else if (replacements === 0) { this.logger.debug(...); }
    return replacements;
  }
  \<close>
  The result is the rejection or the number returned, with the world after the call.
\<close>

definition replaceInFile ::
  "world \<Rightarrow> string \<Rightarrow> TranslationKey list \<Rightarrow> bool \<Rightarrow> bool \<Rightarrow> (error + nat) \<times> world" where
  "replaceInFile w filePath translationKeys backup dryRun =
     (case readFile w filePath of
        Inl e \<Rightarrow> (Inl e, w)
      | Inr content \<Rightarrow>
          (let (newContent, replacements) = replace_forEach replacePatterns translationKeys content 0
           in if replacements > 0 \<and> \<not> dryRun then
                (case (if backup then writeFile w (filePath @ ''.backup'') content else Inr w) of
                   Inl e \<Rightarrow> (Inl e, w)
                 | Inr w1 \<Rightarrow>
                     (case writeFile w1 filePath newContent of
                        Inl e \<Rightarrow> (Inl e, w1)
                      | Inr w2 \<Rightarrow> (Inr replacements, w2)))
              else (Inr replacements, w)))"

text \<open>
  \<^verbatim>\<open>
  async replace(options: ReplaceOptions): Promise<void> {
    ...
    const translationKeys = await this.loadTranslationKeys(keysFile);
    const tsFiles = await glob(searchPattern, { ignore: ignorePatterns });
    let totalReplacements = 0;
    const replacementSummary: Array<{ file: string; replacements: number }> = [];
    for (const file of tsFiles) {
      try {
        const replacements = await this.replaceInFile(file, translationKeys, { backup, dryRun });
        if (replacements > 0) {
          replacementSummary.push({ file, replacements });
          totalReplacements += replacements;
        }
      } catch (error) { this.logger.warning(...); }
    }
    this.logger.success(`Replacement completed! Total replacements: ${totalReplacements}`);
    ...
  }
  private async loadTranslationKeys(keysFile: string): Promise<TranslationKey[]> {
    try {
      const data = await fs.readJson(keysFile);
      return data.keys || [];
    } catch (error) {
      this.logger.error(...);
      this.logger.info('Run translation extract first to generate translation keys');
      process.exit(1);
    }
  }
  \<close>
  A run either returns or ends the process with an exit status.  What \<open>replace\<close> reports
  is its result here: the total and the summary that it logs.
\<close>

datatype 'a run = Returned 'a | Exited nat

definition replacer_loadTranslationKeys :: "world \<Rightarrow> string \<Rightarrow> (TranslationKey list) run" where
  "replacer_loadTranslationKeys w keysFile =
     (case readJson w keysFile of
        Inr data \<Rightarrow> Returned (case keys data of Some ks \<Rightarrow> ks | None \<Rightarrow> [])
      | Inl e \<Rightarrow> Exited 1)"

fun replace_for ::
  "string list \<Rightarrow> TranslationKey list \<Rightarrow> bool \<Rightarrow> bool \<Rightarrow> world \<Rightarrow> nat \<Rightarrow> (string \<times> nat) list \<Rightarrow>
   nat \<times> (string \<times> nat) list \<times> world" where
  "replace_for [] translationKeys backup dryRun w totalReplacements replacementSummary =
     (totalReplacements, replacementSummary, w)"
| "replace_for (f # tsFiles) translationKeys backup dryRun w totalReplacements replacementSummary =
     (case replaceInFile w f translationKeys backup dryRun of
        (Inr replacements, w') \<Rightarrow>
          if replacements > 0
          then replace_for tsFiles translationKeys backup dryRun w'
                 (totalReplacements + replacements) (replacementSummary @ [(f, replacements)])
          else replace_for tsFiles translationKeys backup dryRun w' totalReplacements
                 replacementSummary
      | (Inl e, w') \<Rightarrow>
          replace_for tsFiles translationKeys backup dryRun w' totalReplacements
            replacementSummary)"

definition replace ::
  "world \<Rightarrow> string \<Rightarrow> bool \<Rightarrow> bool \<Rightarrow> string list \<Rightarrow>
   (nat \<times> (string \<times> nat) list \<times> world) run" where
  "replace w keysFile backup dryRun tsFiles =
     (case replacer_loadTranslationKeys w keysFile of
        Exited status \<Rightarrow> Exited status
      | Returned translationKeys \<Rightarrow>
          Returned (replace_for tsFiles translationKeys backup dryRun w 0 []))"

section \<open>Template Generator\<close>

subsection \<open>Objects, JSON text and paths of the runtime\<close>

text \<open>
  A \<open>Record<string, string>\<close> is a JavaScript object: \<open>jsobj\<close> lists its properties in the
  order of their creation.  \<open>obj_set\<close> is the assignment \<open>obj[k] = v\<close>: it updates a property
  in place or adds it at the end, and an assignment of a string to \<open>__proto__\<close> has no
  effect.  \<open>obj_entries\<close> is the order of \<open>Object.entries\<close> and of \<open>JSON.stringify\<close>: the
  properties whose names are array indices (canonical decimal numerals up to
  \<open>2^32 - 2\<close>) in ascending order, then the others in the order of their creation.
  \<open>jsonStringify\<close> is \<open>JSON.stringify(obj, null, 2)\<close> for such an object.
\<close>

type_synonym jsobj = "(string \<times> string) list"

fun obj_update :: "jsobj \<Rightarrow> string \<Rightarrow> string \<Rightarrow> jsobj" where
  "obj_update [] k v = [(k, v)]"
| "obj_update ((k', v') # ps) k v = (if k' = k then (k, v) # ps else (k', v') # obj_update ps k v)"

definition obj_set :: "jsobj \<Rightarrow> string \<Rightarrow> string \<Rightarrow> jsobj" where
  "obj_set obj k v = (if k = ''__proto__'' then obj else obj_update obj k v)"

definition digitValue :: "char \<Rightarrow> int" where
  "digitValue c =
     (case map_of (zip ''0123456789'' [0, 1, 2, 3, 4, 5, 6, 7, 8, 9]) c of
        Some d \<Rightarrow> d | None \<Rightarrow> 0)"

definition decimalValue :: "string \<Rightarrow> int" where
  "decimalValue s = foldl (\<lambda>n c. 10 * n + digitValue c) 0 s"

definition isArrayIndex :: "string \<Rightarrow> bool" where
  "isArrayIndex s =
     (s = ''0'' \<or>
      (s \<noteq> [] \<and> list_all isDigit s \<and> hd s \<noteq> CHR ''0'' \<and> length s \<le> 10
       \<and> decimalValue s \<le> 4294967294))"

definition obj_entries :: "jsobj \<Rightarrow> (string \<times> string) list" where
  "obj_entries obj =
     sort_key (\<lambda>(k, v). decimalValue k) (filter (\<lambda>(k, v). isArrayIndex k) obj) @
     filter (\<lambda>(k, v). \<not> isArrayIndex k) obj"

definition hexDigit :: "nat \<Rightarrow> char" where
  "hexDigit n = ''0123456789abcdef'' ! n"

definition quoteJSONChar :: "char \<Rightarrow> string" where
  "quoteJSONChar c =
     (if c = CHR 0x08 then [CHR 0x5C, CHR ''b'']
      else if c = CHR 0x09 then [CHR 0x5C, CHR ''t'']
      else if c = CHR 0x0A then [CHR 0x5C, CHR ''n'']
      else if c = CHR 0x0C then [CHR 0x5C, CHR ''f'']
      else if c = CHR 0x0D then [CHR 0x5C, CHR ''r'']
      else if c = CHR 0x22 then [CHR 0x5C, CHR 0x22]
      else if c = CHR 0x5C then [CHR 0x5C, CHR 0x5C]
      else if (of_char c :: nat) < 32
        then [CHR 0x5C, CHR ''u'', CHR ''0'', CHR ''0'',
              hexDigit ((of_char c :: nat) div 16), hexDigit ((of_char c :: nat) mod 16)]
      else [c])"

definition quoteJSONString :: "string \<Rightarrow> string" where
  "quoteJSONString s = [CHR 0x22] @ concat (map quoteJSONChar s) @ [CHR 0x22]"

fun intercalate :: "string \<Rightarrow> string list \<Rightarrow> string" where
  "intercalate sep [] = []"
| "intercalate sep [x] = x"
| "intercalate sep (x # y # ys) = x @ sep @ intercalate sep (y # ys)"

definition jsonStringify :: "jsobj \<Rightarrow> string" where
  "jsonStringify obj =
     (case obj_entries obj of
        [] \<Rightarrow> ''{}''
      | e # es \<Rightarrow>
          ''{'' @ [CHR 0x0A] @
          intercalate ('','' @ [CHR 0x0A])
            (map (\<lambda>(k, v). ''  '' @ quoteJSONString k @ '': '' @ quoteJSONString v) (e # es)) @
          [CHR 0x0A] @ ''}'')"

text \<open>
  \<open>pathJoin\<close> is \<open>path.join\<close> of Node.js on POSIX: the arguments that are not empty are
  joined with \<open>/\<close> and the result is normalised.  \<open>normalizeSegments\<close> is the normalisation
  of the segments: an empty segment and \<open>.\<close> are dropped, and \<open>..\<close> removes the segment
  before it unless there is none or it is \<open>..\<close> itself; then it is kept in a relative path
  and dropped in an absolute one.
\<close>

fun normalizeSegments :: "bool \<Rightarrow> string list \<Rightarrow> string list \<Rightarrow> string list" where
  "normalizeSegments allowAboveRoot res [] = res"
| "normalizeSegments allowAboveRoot res (seg # segs) =
     (if seg = [] \<or> seg = ''.'' then normalizeSegments allowAboveRoot res segs
      else if seg = ''..'' then
        (if res \<noteq> [] \<and> last res \<noteq> ''..''
         then normalizeSegments allowAboveRoot (butlast res) segs
         else if allowAboveRoot then normalizeSegments allowAboveRoot (res @ [''..'']) segs
         else normalizeSegments allowAboveRoot res segs)
      else normalizeSegments allowAboveRoot (res @ [seg]) segs)"

definition pathNormalize :: "string \<Rightarrow> string" where
  "pathNormalize p =
     (if p = [] then ''.''
      else
        (let isAbsolute = (hd p = CHR ''/'');
             trailingSeparator = (last p = CHR ''/'');
             res = intercalate ''/'' (normalizeSegments (\<not> isAbsolute) [] (split_sep (CHR ''/'') p))
         in if res = [] then (if isAbsolute then ''/'' else if trailingSeparator then ''./'' else ''.'')
            else (if isAbsolute then ''/'' else []) @ res @ (if trailingSeparator then ''/'' else [])))"

definition pathJoin :: "string list \<Rightarrow> string" where
  "pathJoin args =
     (case filter (\<lambda>arg. arg \<noteq> []) args of
        [] \<Rightarrow> ''.''
      | a # as \<Rightarrow> pathNormalize (intercalate ''/'' (a # as)))"

subsection \<open>\<open>TranslationGenerator\<close>\<close>

text \<open>
  \<^verbatim>\<open>
  private async loadTranslationKeys(inputFile: string): Promise<{ keys: TranslationKey[] }> {
    try {
      const data = await fs.readJson(inputFile);
      return data;
    } catch (error) {
      this.logger.error(...);
      this.logger.info('Run translation-extract first to generate translation keys');
      // Return empty data instead of throwing
      return { keys: [] };
    }
  }
  private groupByService(keys: TranslationKey[]): ServiceTranslation[] {
    const serviceMap = new Map<string, TranslationKey[]>();
    keys.forEach(key => {
      const serviceName = key.file.split(path.sep)[0];
      if (!serviceMap.has(serviceName)) { serviceMap.set(serviceName, []); }
      serviceMap.get(serviceName)!.push(key);
    });
    return Array.from(serviceMap.entries()).map(([serviceName, serviceKeys]) => ({
      serviceName,
      translations: this.createTranslationObject(serviceKeys),
      totalKeys: serviceKeys.length
    }));
  }
  private createTranslationObject(keys: TranslationKey[]): Record<string, string> {
    const translations: Record<string, string> = {};
    keys.forEach(key => { translations[key.key] = key.text; });
    return translations;
  }
  private createTemplateTranslations(translations: Record<string, string>, lang: string) {
    const template: Record<string, string> = {};
    Object.entries(translations).forEach(([key, value]) => {
      template[key] = `TODO: Translate "${value}" to ${lang}`;
    });
    return template;
  }
  \<close>
  The \<open>Map\<close> of \<open>groupByService\<close> is a list of pairs in the order of insertion;
  \<open>serviceMap_push\<close> adds a key to the list of its service.
\<close>

definition generator_loadTranslationKeys :: "world \<Rightarrow> string \<Rightarrow> TranslationData" where
  "generator_loadTranslationKeys w inputFile =
     (case readJson w inputFile of
        Inr data \<Rightarrow> data
      | Inl e \<Rightarrow> \<lparr>keys = Some []\<rparr>)"

record ServiceTranslation =
  st_serviceName :: string
  st_translations :: jsobj
  st_totalKeys :: nat

fun serviceMap_push ::
  "(string \<times> TranslationKey list) list \<Rightarrow> string \<Rightarrow> TranslationKey \<Rightarrow>
   (string \<times> TranslationKey list) list" where
  "serviceMap_push [] service k = [(service, [k])]"
| "serviceMap_push ((name, ks) # rest) service k =
     (if name = service then (name, ks @ [k]) # rest
      else (name, ks) # serviceMap_push rest service k)"

definition createTranslationObject :: "TranslationKey list \<Rightarrow> jsobj" where
  "createTranslationObject ks = foldl (\<lambda>translations k. obj_set translations (key k) (text' k)) [] ks"

definition groupByService :: "TranslationKey list \<Rightarrow> ServiceTranslation list" where
  "groupByService ks =
     map (\<lambda>(service, serviceKeys).
            \<lparr>st_serviceName = service,
             st_translations = createTranslationObject serviceKeys,
             st_totalKeys = length serviceKeys\<rparr>)
         (foldl (\<lambda>serviceMap k. serviceMap_push serviceMap (hd (split_sep (CHR ''/'') (file' k))) k)
                [] ks)"

definition createTemplateTranslations :: "jsobj \<Rightarrow> string \<Rightarrow> jsobj" where
  "createTemplateTranslations translations lang =
     foldl (\<lambda>template (k, v).
              obj_set template k (''TODO: Translate '' @ [CHR 0x22] @ v @ [CHR 0x22] @ '' to '' @ lang))
           [] (obj_entries translations)"

text \<open>
  \<^verbatim>\<open>
  private async generateServiceTranslations(serviceTranslation, languages, template) {
    const { serviceName, translations, totalKeys } = serviceTranslation;
    const translationsDir = path.join(serviceName, 'src', 'translations');
    await fs.ensureDir(translationsDir);
    // Generate English translations (source)
    const enFile = path.join(translationsDir, 'en.json');
    await fs.writeFile(enFile, JSON.stringify(translations, null, 2));
    // Generate other language templates
    if (template) {
      for (const lang of languages) {
        if (lang === 'en') continue; // Skip English as it's already generated
        const langFile = path.join(translationsDir, `${lang}.json`);
        const templateTranslations = this.createTemplateTranslations(translations, lang);
        await fs.writeFile(langFile, JSON.stringify(templateTranslations, null, 2));
      }
    }
    // Generate README
    await this.generateReadme(serviceName, translationsDir, totalKeys, languages);
  }
  \<close>
  \<open>generateReadme\<close> writes one file, \<open>README.md\<close>, whose text is a template over the service
  name, the number of keys, the languages and the clock; the text is the argument
  \<open>readme\<close> here.  A write that fails rejects every call above it: the result is the error,
  with the world as the writes before it left it.
\<close>

definition translationsDirOf :: "string \<Rightarrow> string" where
  "translationsDirOf service = pathJoin [service, ''src'', ''translations'']"

definition enFileOf :: "string \<Rightarrow> string" where
  "enFileOf service = pathJoin [translationsDirOf service, ''en.json'']"

definition langFileOf :: "string \<Rightarrow> string \<Rightarrow> string" where
  "langFileOf service lang = pathJoin [translationsDirOf service, lang @ ''.json'']"

definition readmeFileOf :: "string \<Rightarrow> string" where
  "readmeFileOf service = pathJoin [translationsDirOf service, ''README.md'']"

fun generate_languages ::
  "world \<Rightarrow> ServiceTranslation \<Rightarrow> string list \<Rightarrow> error option \<times> world" where
  "generate_languages w st [] = (None, w)"
| "generate_languages w st (lang # languages) =
     (if lang = ''en'' then generate_languages w st languages
      else
        (case writeFile w (langFileOf (st_serviceName st) lang)
                (jsonStringify (createTemplateTranslations (st_translations st) lang)) of
           Inl e \<Rightarrow> (Some e, w)
         | Inr w' \<Rightarrow> generate_languages w' st languages))"

definition generateReadme ::
  "(ServiceTranslation \<Rightarrow> string list \<Rightarrow> string) \<Rightarrow> world \<Rightarrow> ServiceTranslation \<Rightarrow> string list \<Rightarrow>
   error option \<times> world" where
  "generateReadme readme w st languages =
     (case writeFile w (readmeFileOf (st_serviceName st)) (readme st languages) of
        Inl e \<Rightarrow> (Some e, w)
      | Inr w' \<Rightarrow> (None, w'))"

definition generateServiceTranslations ::
  "(ServiceTranslation \<Rightarrow> string list \<Rightarrow> string) \<Rightarrow> world \<Rightarrow> ServiceTranslation \<Rightarrow> string list \<Rightarrow>
   bool \<Rightarrow> error option \<times> world" where
  "generateServiceTranslations readme w st languages template =
     (case ensureDir w (translationsDirOf (st_serviceName st)) of
        Inl e \<Rightarrow> (Some e, w)
      | Inr w1 \<Rightarrow>
          (case writeFile w1 (enFileOf (st_serviceName st)) (jsonStringify (st_translations st)) of
             Inl e \<Rightarrow> (Some e, w1)
           | Inr w2 \<Rightarrow>
               (case (if template then generate_languages w2 st languages else (None, w2)) of
                  (Some e, w3) \<Rightarrow> (Some e, w3)
                | (None, w3) \<Rightarrow> generateReadme readme w3 st languages)))"

text \<open>
  \<^verbatim>\<open>
  async generate(options: GenerationOptions): Promise<void> {
    const { input = 'translation-keys.json', languages = this.defaultLanguages,
            template = false, verbose = false } = options;
    const translationData = await this.loadTranslationKeys(input);
    this.logger.info(`Loaded ${translationData.keys.length} translation keys`);
    const serviceTranslations = this.groupByService(translationData.keys);
    // Don't generate files if there are no keys
    if (translationData.keys.length === 0) { ...; return; }
    for (const serviceTranslation of serviceTranslations) {
      await this.generateServiceTranslations(serviceTranslation, languages, template);
    }
  }
  \<close>
  The result of \<open>generate\<close> is \<open>None\<close> when the promise is fulfilled and the error when it is
  rejected.  A dataset that was read without its field \<open>keys\<close> makes \<open>keys.length\<close> throw.
\<close>

fun generate_for ::
  "(ServiceTranslation \<Rightarrow> string list \<Rightarrow> string) \<Rightarrow> world \<Rightarrow> ServiceTranslation list \<Rightarrow>
   string list \<Rightarrow> bool \<Rightarrow> error option \<times> world" where
  "generate_for readme w [] languages template = (None, w)"
| "generate_for readme w (st # sts) languages template =
     (case generateServiceTranslations readme w st languages template of
        (Some e, w') \<Rightarrow> (Some e, w')
      | (None, w') \<Rightarrow> generate_for readme w' sts languages template)"

definition generate ::
  "(ServiceTranslation \<Rightarrow> string list \<Rightarrow> string) \<Rightarrow> world \<Rightarrow> string \<Rightarrow> string list \<Rightarrow> bool \<Rightarrow>
   error option \<times> world" where
  "generate readme w input languages template =
     (case keys (generator_loadTranslationKeys w input) of
        None \<Rightarrow> (Some TypeError, w)
      | Some ks \<Rightarrow>
          if length ks = 0 then (None, w)
          else generate_for readme w (groupByService ks) languages template)"

section \<open>Notions used in the statements\<close>

text \<open>
  \<open>exec_matches\<close> is the \<open>while\<close> loop of \<open>extractFromFile\<close> without its body: the matches
  that \<open>exec\<close> returns, each with its position, or \<open>None\<close> when the loop never ends.
  \<open>lineAt\<close> is the line number of a position, \<open>entryOf\<close> the entry that the body builds for
  a candidate found at a position, \<open>retained\<close> the length bound that the body checks.
  \<open>entriesOfPattern\<close> lists the entries of the retained candidates of one pattern in one
  file, in the order of the matches; \<open>entriesOfFile\<close> lists the entries of one file, pattern
  after pattern in the order of the sorted catalog.  \<open>terminates\<close> and \<open>fileTerminates\<close> say
  that the loops end.  \<open>batchesResult\<close> is the closed form of the batch loop.
  \<open>consuming r\<close> is a syntactic condition under which every match of \<open>r\<close> holds at least
  one character.
\<close>

function exec_matches :: "regex \<Rightarrow> string \<Rightarrow> nat \<Rightarrow> (nat \<times> string \<times> captures) list option" where
  "exec_matches r [] lastIndex =
     (case search r [] of None \<Rightarrow> Some [] | Some found \<Rightarrow> None)"
| "exec_matches r (c # cs) lastIndex =
     (case search r (c # cs) of
        None \<Rightarrow> Some []
      | Some (k, m, caps) \<Rightarrow>
          if m = [] then None
          else map_option (\<lambda>ms. (lastIndex + k, m, caps) # ms)
                 (exec_matches r (drop (k + length m) (c # cs)) (lastIndex + k + length m)))"
  by pat_completeness auto
termination
  by (relation "measure (\<lambda>(r, s, lastIndex). length s)") auto

definition lineAt :: "string \<Rightarrow> nat \<Rightarrow> nat" where
  "lineAt content index = length (split_sep (CHR 0x0A) (take index content))"

definition retained :: "string \<Rightarrow> bool" where
  "retained text = (3 \<le> length text \<and> length text \<le> 500)"

definition entryOf :: "extraction \<Rightarrow> ExtractionPattern \<Rightarrow> nat \<Rightarrow> string \<Rightarrow> TranslationKey" where
  "entryOf ex pattern index text =
     \<lparr>key = generateKey text (pat_type pattern) (ex_filePath ex),
      text' = sanitizeOutput (ex_sanitizeOutputs ex) text,
      type = pat_type pattern, file' = ex_filePath ex,
      line = lineAt (ex_content ex) index,
      context' = (if ex_includeComments ex
                  then findNearbyComment (ex_comments ex) (lineAt (ex_content ex) index)
                  else None),
      priority = Some (determinePriority text (pat_type pattern)),
      category = Some (determineCategory (ex_filePath ex) (pat_type pattern))\<rparr>"

definition entriesOfMatches ::
  "extraction \<Rightarrow> ExtractionPattern \<Rightarrow> (nat \<times> string \<times> captures) list \<Rightarrow> TranslationKey list" where
  "entriesOfMatches ex pattern ms =
     map (\<lambda>(index, m, caps). entryOf ex pattern index (candidate m caps))
         (filter (\<lambda>(index, m, caps). retained (candidate m caps)) ms)"

definition entriesOfPattern :: "extraction \<Rightarrow> ExtractionPattern \<Rightarrow> TranslationKey list" where
  "entriesOfPattern ex pattern =
     (case exec_matches (pat_regex pattern) (ex_content ex) 0 of
        None \<Rightarrow> []
      | Some ms \<Rightarrow> entriesOfMatches ex pattern ms)"

definition terminates :: "extraction \<Rightarrow> ExtractionPattern \<Rightarrow> bool" where
  "terminates ex pattern = (exec_matches (pat_regex pattern) (ex_content ex) 0 \<noteq> None)"

definition extractionOf :: "world \<Rightarrow> settings \<Rightarrow> string \<Rightarrow> extraction" where
  "extractionOf w cfg filePath =
     (let content = (case files w filePath of None \<Rightarrow> [] | Some c \<Rightarrow> c) in
      \<lparr>ex_sanitizeOutputs = sanitizeOutputs cfg, ex_includeComments = includeComments cfg,
       ex_comments = (if includeComments cfg then extractComments content else []),
       ex_content = content, ex_filePath = filePath\<rparr>)"

definition fileTerminates :: "world \<Rightarrow> settings \<Rightarrow> string \<Rightarrow> bool" where
  "fileTerminates w cfg filePath =
     (case files w filePath of
        None \<Rightarrow> True
      | Some content \<Rightarrow>
          list_all (terminates (extractionOf w cfg filePath)) (sort_key priorityOf (patterns cfg)))"

definition entriesOfFile :: "world \<Rightarrow> settings \<Rightarrow> string \<Rightarrow> TranslationKey list" where
  "entriesOfFile w cfg filePath =
     (case files w filePath of
        None \<Rightarrow> []
      | Some content \<Rightarrow>
          concat (map (entriesOfPattern (extractionOf w cfg filePath))
                      (sort_key priorityOf (patterns cfg))))"

definition batchesResult ::
  "world \<Rightarrow> settings \<Rightarrow> string list \<Rightarrow> nat \<Rightarrow> TranslationKey list \<Rightarrow> TranslationKey list option" where
  "batchesResult w cfg vf i acc =
     (if i < length vf then
        (if concurrency cfg \<le> 0 then None
         else if list_all (fileTerminates w cfg) (drop i vf)
           then Some (acc @ concat (map (entriesOfFile w cfg) (drop i vf)))
           else None)
      else Some acc)"

fun consuming :: "regex \<Rightarrow> bool" where
  "consuming (Atom P) = True"
| "consuming (Seq r1 r2) = (consuming r1 \<or> consuming r2)"
| "consuming (Alt r1 r2) = (consuming r1 \<and> consuming r2)"
| "consuming (Group n r) = consuming r"
| "consuming r = False"


definition firsts :: "'a list \<Rightarrow> 'a list" where
  "firsts xs = rev (remdups (rev xs))"

definition serviceOf :: "TranslationKey \<Rightarrow> string" where
  "serviceOf k = hd (split_sep (CHR ''/'') (file' k))"

definition languageWrites :: "ServiceTranslation \<Rightarrow> string list \<Rightarrow> (string \<times> string) list" where
  "languageWrites st languages =
     map (\<lambda>lang. (langFileOf (st_serviceName st) lang,
                  jsonStringify (createTemplateTranslations (st_translations st) lang)))
         (filter (\<lambda>lang. lang \<noteq> ''en'') languages)"

definition serviceWrites ::
  "(ServiceTranslation \<Rightarrow> string list \<Rightarrow> string) \<Rightarrow> ServiceTranslation \<Rightarrow> string list \<Rightarrow> bool \<Rightarrow>
   (string \<times> string) list" where
  "serviceWrites readme st languages template =
     [(enFileOf (st_serviceName st), jsonStringify (st_translations st))] @
     (if template then languageWrites st languages else []) @
     [(readmeFileOf (st_serviceName st), readme st languages)]"

definition lastTextOf :: "TranslationKey list \<Rightarrow> string \<Rightarrow> string" where
  "lastTextOf ks n = (case find (\<lambda>k. key k = n) (rev ks) of None \<Rightarrow> [] | Some k \<Rightarrow> text' k)"

section \<open>Concrete inputs\<close>

text \<open>
  The inputs of the scenarios: the file of the specification's basic extraction scenario
  with the default settings; a file with a return statement on line 1 and an exception on
  line 2; the file and the dataset of the replacer's test \<open>should handle exception with
  object parameters\<close>; and a dataset with keys of two services.  In every world each path
  may be written.
\<close>

definition scenario_settings :: settings where
  "scenario_settings =
     \<lparr>searchPath = ''.'', patterns = defaultPatterns, validate = True, maxFileSize = 10,
      concurrency = 5, includeComments = False, sanitizeOutputs = True\<rparr>"

definition scenario_world :: world where
  "scenario_world =
     \<lparr>files = [''auth/src/services/auth.service.ts'' \<mapsto>
                ''return { message: 'Validation failed' };''],
      sizes = [''auth/src/services/auth.service.ts'' \<mapsto> 40],
      jsons = Map.empty, denied = (\<lambda>p. False), dirs = [], written = []\<rparr>"

definition order_world :: world where
  "order_world =
     \<lparr>files = [''auth/src/a.ts'' \<mapsto>
         ''return { message: 'Validation failed' };'' @ [CHR 0x0A] @
         ''throw new BadRequestException('User exists');''],
      sizes = [''auth/src/a.ts'' \<mapsto> 87],
      jsons = Map.empty, denied = (\<lambda>p. False), dirs = [], written = []\<rparr>"

definition object_argument_keys :: "TranslationKey list" where
  "object_argument_keys =
     [\<lparr>key = ''AUTH.AUTH_SERVICE.EXCEPTION.USER_ALREADY_EXISTS'',
       text' = ''User already exists with this email'', type = ''EXCEPTION'',
       file' = ''auth/src/services/auth.service.ts'', line = 10,
       context' = None, priority = None, category = None\<rparr>]"

definition object_argument_world :: world where
  "object_argument_world =
     \<lparr>files = [''auth/src/services/auth.service.ts'' \<mapsto>
         ''throw new BadRequestException('User already exists with this email', { userId: 123 });''],
      sizes = [''auth/src/services/auth.service.ts'' \<mapsto> 88],
      jsons = [''translation-keys.json'' \<mapsto> \<lparr>keys = Some object_argument_keys\<rparr>],
      denied = (\<lambda>p. False), dirs = [], written = []\<rparr>"

definition two_service_keys :: "TranslationKey list" where
  "two_service_keys =
     [\<lparr>key = ''AUTH.AUTH_SERVICE.EXCEPTION.USER_ALREADY_EXISTS'',
       text' = ''User already exists with this email'', type = ''EXCEPTION'',
       file' = ''auth/src/services/auth.service.ts'', line = 10,
       context' = None, priority = None, category = None\<rparr>,
      \<lparr>key = ''PROFILE.PROFILE_CONTROLLER.EXCEPTION.PROFILE_NOT_FOUND'',
       text' = ''Profile not found'', type = ''EXCEPTION'',
       file' = ''profile/src/controllers/profile.controller.ts'', line = 20,
       context' = None, priority = None, category = None\<rparr>]"

definition two_service_world :: world where
  "two_service_world =
     \<lparr>files = Map.empty, sizes = Map.empty,
      jsons = [''translation-keys.json'' \<mapsto> \<lparr>keys = Some two_service_keys\<rparr>],
      denied = (\<lambda>p. False), dirs = [], written = []\<rparr>"

definition readme_stub :: "ServiceTranslation \<Rightarrow> string list \<Rightarrow> string" where
  "readme_stub st languages = ''# '' @ st_serviceName st @ '' Translation Files''"

definition boundary_extraction :: extraction where
  "boundary_extraction =
     \<lparr>ex_sanitizeOutputs = False, ex_includeComments = False, ex_comments = [],
      ex_content = ''message: `abc`'', ex_filePath = ''auth/src/a.ts''\<rparr>"


text \<open>
  Further inputs: a file whose only candidate is the letter \<open>a\<close> repeated \<open>n\<close> times, and a
  file whose only candidate is \<open><b>\<close>.
\<close>

definition boundary_world :: "nat \<Rightarrow> world" where
  "boundary_world n =
     \<lparr>files = [''auth/src/a.ts'' \<mapsto> ''message: `'' @ replicate n (CHR ''a'') @ ''`''],
      sizes = [''auth/src/a.ts'' \<mapsto> 600],
      jsons = Map.empty, denied = (\<lambda>p. False), dirs = [], written = []\<rparr>"

definition markup_world :: world where
  "markup_world =
     \<lparr>files = [''auth/src/a.ts'' \<mapsto> ''{ message: '<b>' }''],
      sizes = [''auth/src/a.ts'' \<mapsto> 18],
      jsons = Map.empty, denied = (\<lambda>p. False), dirs = [], written = []\<rparr>"

text \<open>
  Datasets for the Template Generator: two entries with one key and two texts, as the
  extraction of the file of \<open>duplicate_key_source\<close> gives them, and an entry whose key is
  \<open>__proto__\<close>.
\<close>

definition duplicate_key_source :: world where
  "duplicate_key_source =
     \<lparr>files = [''auth/src/services/auth.service.ts'' \<mapsto>
         ''throw new BadRequestException('Validation failed!');'' @ [CHR 0x0A] @
         ''throw new BadRequestException('Validation failed');''],
      sizes = [''auth/src/services/auth.service.ts'' \<mapsto> 103],
      jsons = Map.empty, denied = (\<lambda>p. False), dirs = [], written = []\<rparr>"

definition duplicate_key_keys :: "TranslationKey list" where
  "duplicate_key_keys =
     [\<lparr>key = ''AUTH.AUTH_SERVICE.EXCEPTION.VALIDATION_FAILED'',
       text' = ''Validation failed!'', type = ''EXCEPTION'',
       file' = ''auth/src/services/auth.service.ts'', line = 1,
       context' = None, priority = Some ''high'', category = Some ''auth''\<rparr>,
      \<lparr>key = ''AUTH.AUTH_SERVICE.EXCEPTION.VALIDATION_FAILED'',
       text' = ''Validation failed'', type = ''EXCEPTION'',
       file' = ''auth/src/services/auth.service.ts'', line = 2,
       context' = None, priority = Some ''high'', category = Some ''auth''\<rparr>]"

definition duplicate_key_world :: world where
  "duplicate_key_world =
     \<lparr>files = Map.empty, sizes = Map.empty,
      jsons = [''translation-keys.json'' \<mapsto> \<lparr>keys = Some duplicate_key_keys\<rparr>],
      denied = (\<lambda>p. False), dirs = [], written = []\<rparr>"

definition proto_key_world :: world where
  "proto_key_world =
     \<lparr>files = Map.empty, sizes = Map.empty,
      jsons = [''translation-keys.json'' \<mapsto>
        \<lparr>keys = Some [\<lparr>key = ''__proto__'', text' = ''Profile not found'', type = ''EXCEPTION'',
                        file' = ''profile/src/controllers/profile.controller.ts'', line = 20,
                        context' = None, priority = None, category = None\<rparr>]\<rparr>],
      denied = (\<lambda>p. False), dirs = [], written = []\<rparr>"
section \<open>Properties of the Deduplicator\<close>

lemma unseen_0: "unseen seen (x # xs) 0 = (dedupKey x \<notin> seen)"
  by (simp add: unseen_def)

lemma unseen_Suc: "unseen seen (x # xs) (Suc i) = unseen (insert (dedupKey x) seen) xs i"
  by (simp add: unseen_def)

lemma unseen_absorb: "k \<in> seen \<Longrightarrow> unseen (insert k seen) xs i = unseen seen xs i"
  by (simp add: insert_absorb)

lemma upt_length_Cons: "[0..<length (x # xs)] = 0 # map Suc [0..<length xs]"
  by (simp add: upt_conv_Cons map_Suc_upt del: upt_Suc)

lemma forEach_filter:
  "removeDuplicates_forEach xs seen acc =
     acc @ map (\<lambda>i. xs ! i) (filter (unseen seen xs) [0..<length xs])"
proof (induction xs arbitrary: seen acc)
  case Nil
  then show ?case by simp
next
  case (Cons x xs)
  show ?case
    unfolding upt_length_Cons
    by (simp add: Cons.IH filter_map comp_def unseen_0 unseen_Suc unseen_absorb del: upt_Suc)
qed

lemma unseen_empty_firstOccurrence:
  assumes "i < length xs"
  shows "unseen {} xs i = firstOccurrence dedupKey xs i"
proof -
  have "set (take i xs) = (!) xs ` {0..<i}"
    using assms by (simp add: nth_image)
  then have "dedupKey ` set (take i xs) = {dedupKey (xs ! j) |j. j < i}"
    by auto
  then show ?thesis
    unfolding unseen_def firstOccurrence_def by auto
qed

lemma removeDuplicates_filter:
  "removeDuplicates xs =
     map (\<lambda>i. xs ! i) (filter (firstOccurrence dedupKey xs) [0..<length xs])"
proof -
  have "filter (unseen {} xs) [0..<length xs] =
        filter (firstOccurrence dedupKey xs) [0..<length xs]"
    by (rule filter_cong) (simp_all add: unseen_empty_firstOccurrence)
  then show ?thesis
    by (simp add: removeDuplicates_def forEach_filter)
qed

lemma subseq_nth_filter: "subseq (map (\<lambda>i. xs ! i) (filter P [0..<length xs])) xs"
proof (induction xs arbitrary: P)
  case Nil
  then show ?case by simp
next
  case (Cons x xs)
  have "subseq (map (\<lambda>i. xs ! i) (filter (P \<circ> Suc) [0..<length xs])) xs"
    by (rule Cons.IH)
  then show ?case
    unfolding upt_length_Cons
    by (auto simp add: filter_map comp_def simp del: upt_Suc intro: list_emb_Cons)
qed

lemma forEach_distinct:
  "distinct (map dedupKey acc) \<Longrightarrow> dedupKey ` set acc \<subseteq> seen \<Longrightarrow>
   distinct (map dedupKey (removeDuplicates_forEach xs seen acc))"
proof (induction xs arbitrary: seen acc)
  case Nil
  then show ?case by simp
next
  case (Cons x xs)
  show ?case
  proof (cases "dedupKey x \<in> seen")
    case True
    then show ?thesis using Cons by simp
  next
    case False
    have "distinct (map dedupKey (acc @ [x]))"
      using Cons.prems False by auto
    moreover have "dedupKey ` set (acc @ [x]) \<subseteq> insert (dedupKey x) seen"
      using Cons.prems by auto
    ultimately show ?thesis
      using False Cons.IH by simp
  qed
qed

lemma forEach_keys:
  "dedupKey ` set (removeDuplicates_forEach xs seen acc) =
     dedupKey ` set acc \<union> (dedupKey ` set xs - seen)"
  by (induction xs arbitrary: seen acc) (auto simp: Let_def)

lemma takeWhile_until:
  "c \<notin> set k \<Longrightarrow> takeWhile (\<lambda>x. x \<noteq> c) (k @ c # t) = k"
  by (induction k) auto

lemma dedupKey_colon_free:
  assumes "CHR '':'' \<notin> set (key a)" and "CHR '':'' \<notin> set (key b)"
  shows "dedupKey a = dedupKey b \<longleftrightarrow> pairOf a = pairOf b"
proof
  assume eq: "dedupKey a = dedupKey b"
  have "takeWhile (\<lambda>c. c \<noteq> CHR '':'') (dedupKey a) = key a"
    using assms(1) by (simp add: dedupKey_def takeWhile_until)
  moreover have "takeWhile (\<lambda>c. c \<noteq> CHR '':'') (dedupKey b) = key b"
    using assms(2) by (simp add: dedupKey_def takeWhile_until)
  ultimately have "key a = key b" using eq by simp
  with eq show "pairOf a = pairOf b"
    by (simp add: dedupKey_def pairOf_def)
next
  assume "pairOf a = pairOf b"
  then show "dedupKey a = dedupKey b"
    by (simp add: dedupKey_def pairOf_def)
qed

lemma firstOccurrence_colon_free:
  assumes "\<forall>item \<in> set xs. CHR '':'' \<notin> set (key item)" and "i < length xs"
  shows "firstOccurrence dedupKey xs i = firstOccurrence pairOf xs i"
  unfolding firstOccurrence_def
  using assms by (auto simp: dedupKey_colon_free)


text \<open>
  Claim C3, as amended.  For every list of matches, the output of the Deduplicator is the
  subsequence of the input at the first occurrence of each distinct concatenated string
  \<open>key + ":" + text\<close>: one entry per distinct concatenation, the first-seen entry kept, in
  first-seen order, not sorted.  When no key of the list contains a colon, the concatenation
  identifies the (key, text) pair, and the output holds exactly one entry per distinct pair.
\<close>

theorem removeDuplicates_first_occurrences:
  "removeDuplicates xs =
     map (\<lambda>i. xs ! i) (filter (firstOccurrence dedupKey xs) [0..<length xs])
   \<and> distinct (map dedupKey (removeDuplicates xs))
   \<and> dedupKey ` set (removeDuplicates xs) = dedupKey ` set xs
   \<and> subseq (removeDuplicates xs) xs
   \<and> ((\<forall>item \<in> set xs. CHR '':'' \<notin> set (key item)) \<longrightarrow>
        removeDuplicates xs =
          map (\<lambda>i. xs ! i) (filter (firstOccurrence pairOf xs) [0..<length xs])
        \<and> distinct (map pairOf (removeDuplicates xs))
        \<and> pairOf ` set (removeDuplicates xs) = pairOf ` set xs)"
proof -
  have A: "removeDuplicates xs =
     map (\<lambda>i. xs ! i) (filter (firstOccurrence dedupKey xs) [0..<length xs])"
    by (rule removeDuplicates_filter)
  have B: "distinct (map dedupKey (removeDuplicates xs))"
    unfolding removeDuplicates_def by (rule forEach_distinct) simp_all
  have C: "dedupKey ` set (removeDuplicates xs) = dedupKey ` set xs"
    unfolding removeDuplicates_def by (simp add: forEach_keys)
  have D: "subseq (removeDuplicates xs) xs"
    unfolding A by (rule subseq_nth_filter)
  have E: "removeDuplicates xs =
          map (\<lambda>i. xs ! i) (filter (firstOccurrence pairOf xs) [0..<length xs])
        \<and> distinct (map pairOf (removeDuplicates xs))
        \<and> pairOf ` set (removeDuplicates xs) = pairOf ` set xs"
    if free: "\<forall>item \<in> set xs. CHR '':'' \<notin> set (key item)"
  proof -
    have sub: "set (removeDuplicates xs) \<subseteq> set xs"
      using D by (auto dest: list_emb_set)
    have inj: "dedupKey a = dedupKey b \<longleftrightarrow> pairOf a = pairOf b"
      if "a \<in> set xs" "b \<in> set xs" for a b
      using that free by (simp add: dedupKey_colon_free)
    have E1: "filter (firstOccurrence dedupKey xs) [0..<length xs] =
          filter (firstOccurrence pairOf xs) [0..<length xs]"
      by (rule filter_cong) (simp_all add: firstOccurrence_colon_free[OF free])
    have "inj_on dedupKey (set (removeDuplicates xs))"
      using B by (simp add: distinct_map)
    then have "inj_on pairOf (set (removeDuplicates xs))"
      using sub inj unfolding inj_on_def by (metis pairOf_def dedupKey_def subsetD)
    moreover have "distinct (removeDuplicates xs)"
      using B by (simp add: distinct_map)
    ultimately have E2: "distinct (map pairOf (removeDuplicates xs))"
      by (simp add: distinct_map)
    have E3: "pairOf ` set (removeDuplicates xs) = pairOf ` set xs"
    proof
      show "pairOf ` set (removeDuplicates xs) \<subseteq> pairOf ` set xs"
        using sub by auto
      show "pairOf ` set xs \<subseteq> pairOf ` set (removeDuplicates xs)"
      proof
        fix p assume "p \<in> pairOf ` set xs"
        then obtain a where a: "a \<in> set xs" "p = pairOf a" by auto
        then have "dedupKey a \<in> dedupKey ` set (removeDuplicates xs)"
          using C by auto
        then obtain b where b: "b \<in> set (removeDuplicates xs)" "dedupKey a = dedupKey b"
          by auto
        then have "pairOf a = pairOf b"
          using inj a(1) sub by auto
        then show "p \<in> pairOf ` set (removeDuplicates xs)"
          using a(2) b(1) by auto
      qed
    qed
    show ?thesis using A E1 E2 E3 by simp
  qed
  show ?thesis using A B C D E by blast
qed


theorem removeDuplicates_first_occurrences_witness:
  "list_all (\<lambda>item. CHR '':'' \<notin> set (key item))
      [\<lparr>key = ''AUTH.A.EXCEPTION.BAD'', text' = ''Bad'', type = ''EXCEPTION'', file' = ''auth/a.ts'',
        line = 1, context' = None, priority = Some ''high'', category = Some ''auth''\<rparr>,
       \<lparr>key = ''AUTH.A.EXCEPTION.WORSE'', text' = ''Worse'', type = ''EXCEPTION'', file' = ''auth/a.ts'',
        line = 2, context' = None, priority = Some ''high'', category = Some ''auth''\<rparr>,
       \<lparr>key = ''AUTH.A.EXCEPTION.BAD'', text' = ''Bad'', type = ''EXCEPTION'', file' = ''auth/a.ts'',
        line = 3, context' = None, priority = Some ''high'', category = Some ''auth''\<rparr>]
   \<and> distinct (map pairOf (removeDuplicates
      [\<lparr>key = ''AUTH.A.EXCEPTION.BAD'', text' = ''Bad'', type = ''EXCEPTION'', file' = ''auth/a.ts'',
        line = 1, context' = None, priority = Some ''high'', category = Some ''auth''\<rparr>,
       \<lparr>key = ''AUTH.A.EXCEPTION.WORSE'', text' = ''Worse'', type = ''EXCEPTION'', file' = ''auth/a.ts'',
        line = 2, context' = None, priority = Some ''high'', category = Some ''auth''\<rparr>,
       \<lparr>key = ''AUTH.A.EXCEPTION.BAD'', text' = ''Bad'', type = ''EXCEPTION'', file' = ''auth/a.ts'',
        line = 3, context' = None, priority = Some ''high'', category = Some ''auth''\<rparr>]))
   \<and> removeDuplicates
      [\<lparr>key = ''AUTH.A.EXCEPTION.BAD'', text' = ''Bad'', type = ''EXCEPTION'', file' = ''auth/a.ts'',
        line = 1, context' = None, priority = Some ''high'', category = Some ''auth''\<rparr>,
       \<lparr>key = ''AUTH.A.EXCEPTION.WORSE'', text' = ''Worse'', type = ''EXCEPTION'', file' = ''auth/a.ts'',
        line = 2, context' = None, priority = Some ''high'', category = Some ''auth''\<rparr>,
       \<lparr>key = ''AUTH.A.EXCEPTION.BAD'', text' = ''Bad'', type = ''EXCEPTION'', file' = ''auth/a.ts'',
        line = 3, context' = None, priority = Some ''high'', category = Some ''auth''\<rparr>]
     = [\<lparr>key = ''AUTH.A.EXCEPTION.BAD'', text' = ''Bad'', type = ''EXCEPTION'', file' = ''auth/a.ts'',
        line = 1, context' = None, priority = Some ''high'', category = Some ''auth''\<rparr>,
       \<lparr>key = ''AUTH.A.EXCEPTION.WORSE'', text' = ''Worse'', type = ''EXCEPTION'', file' = ''auth/a.ts'',
        line = 2, context' = None, priority = Some ''high'', category = Some ''auth''\<rparr>]"
proof -
  let ?W = "[\<lparr>key = ''AUTH.A.EXCEPTION.BAD'', text' = ''Bad'', type = ''EXCEPTION'', file' = ''auth/a.ts'',
        line = 1, context' = None, priority = Some ''high'', category = Some ''auth''\<rparr>,
       \<lparr>key = ''AUTH.A.EXCEPTION.WORSE'', text' = ''Worse'', type = ''EXCEPTION'', file' = ''auth/a.ts'',
        line = 2, context' = None, priority = Some ''high'', category = Some ''auth''\<rparr>,
       \<lparr>key = ''AUTH.A.EXCEPTION.BAD'', text' = ''Bad'', type = ''EXCEPTION'', file' = ''auth/a.ts'',
        line = 3, context' = None, priority = Some ''high'', category = Some ''auth''\<rparr>]"
  have h: "\<forall>item \<in> set ?W. CHR '':'' \<notin> set (key item)"
    by simp
  have out: "removeDuplicates ?W = [?W ! 0, ?W ! 1]"
    by (simp add: removeDuplicates_def dedupKey_def)
  from removeDuplicates_first_occurrences [of ?W] h
  have "distinct (map pairOf (removeDuplicates ?W))"
    by blast
  with h out show ?thesis
    by (simp add: list_all_iff)
qed

text \<open>
  Claim C3 as stated fails where a key contains a colon: the two entries below are distinct
  (key, text) pairs with the same concatenation \<open>A:B:c\<close>, and the second is dropped.
\<close>

theorem removeDuplicates_pair_counterexample:
  "removeDuplicates
     [\<lparr>key = ''A:B'', text' = ''c'', type = ''EXCEPTION'', file' = ''a.ts'', line = 1,
       context' = None, priority = None, category = None\<rparr>,
      \<lparr>key = ''A'', text' = ''B:c'', type = ''EXCEPTION'', file' = ''a.ts'', line = 2,
       context' = None, priority = None, category = None\<rparr>]
   = [\<lparr>key = ''A:B'', text' = ''c'', type = ''EXCEPTION'', file' = ''a.ts'', line = 1,
       context' = None, priority = None, category = None\<rparr>]"
  by (simp add: removeDuplicates_def dedupKey_def)

section \<open>Properties of the Key Generator\<close>

lemma upper_tables_length:
  "length (''abcdefghijklmnopqrstuvwxyz'' @ latin1Lower) =
   length (''ABCDEFGHIJKLMNOPQRSTUVWXYZ'' @ latin1Upper)"
  by (simp add: latin1Lower_def latin1Upper_def)

lemma toUpperChar_fixed: "\<not> isLower c \<Longrightarrow> c \<notin> set latin1Lower \<Longrightarrow> toUpperChar c = c"
  using map_of_zip_is_None[OF upper_tables_length, of c]
  by (simp add: toUpperChar_def isLower_def)

lemma toUpperChar_letters:
  "list_all (\<lambda>c. isUpper (toUpperChar c)) ''abcdefghijklmnopqrstuvwxyz''"
  by code_simp

lemma toUpperChar_lower: "isLower c \<Longrightarrow> isUpper (toUpperChar c)"
  using toUpperChar_letters unfolding list_all_iff isLower_def by blast

lemma latin1Lower_not_ascii: "c \<in> set latin1Lower \<Longrightarrow> \<not> isAscii c"
  unfolding latin1Lower_def isAscii_def by auto

lemma latin1Lower_not_legal: "c \<in> set latin1Lower \<Longrightarrow> \<not> legalKeyChar c"
  unfolding latin1Lower_def legalKeyChar_def isLower_def isUpper_def isDigit_def by auto

lemma sharp_s_not_ascii: "\<not> isAscii (CHR 0xDF)"
  by (simp add: isAscii_def)

lemma sharp_s_not_legal: "legalKeyChar c \<Longrightarrow> c \<noteq> CHR 0xDF"
  unfolding legalKeyChar_def isLower_def isUpper_def isDigit_def by auto

lemma toUpperChar_legal: "legalKeyChar c \<Longrightarrow> legalKeyChar (toUpperChar c)"
proof (cases "isLower c")
  case True
  then show ?thesis by (simp add: legalKeyChar_def toUpperChar_lower)
next
  case False
  assume l: "legalKeyChar c"
  then have "c \<notin> set latin1Lower" using latin1Lower_not_legal by blast
  with False have "toUpperChar c = c" by (rule toUpperChar_fixed)
  with l show ?thesis by simp
qed

lemma wordChar_legal: "isWordChar c \<Longrightarrow> legalKeyChar c"
  by (auto simp: isWordChar_def legalKeyChar_def)

lemma cleanChar_toUpperChar: "isWordChar c \<Longrightarrow> cleanChar (toUpperChar c)"
proof (cases "isLower c")
  case True
  then show ?thesis by (simp add: cleanChar_def toUpperChar_lower)
next
  case False
  assume w: "isWordChar c"
  with latin1Lower_not_legal[of c] have "c \<notin> set latin1Lower"
    by (auto dest: wordChar_legal)
  with False have "toUpperChar c = c" by (rule toUpperChar_fixed)
  with w False show ?thesis by (simp add: cleanChar_def isWordChar_def)
qed

lemma toUpperChar_ascii: "isAscii c \<Longrightarrow> \<not> legalKeyChar c \<Longrightarrow> toUpperChar c = c"
  using latin1Lower_not_ascii[of c] by (auto simp: legalKeyChar_def intro: toUpperChar_fixed)

lemma toUpperCase_legal: "list_all legalKeyChar s \<Longrightarrow> list_all legalKeyChar (toUpperCase s)"
  by (induction s) (auto simp: toUpperCase_def toUpperChar_legal dest: sharp_s_not_legal)

lemma toUpperCase_clean: "list_all isWordChar s \<Longrightarrow> list_all cleanChar (toUpperCase s)"
  by (induction s)
     (auto simp: toUpperCase_def cleanChar_toUpperChar dest: wordChar_legal sharp_s_not_legal)

lemma toUpperCase_copies:
  "isAscii c \<Longrightarrow> \<not> legalKeyChar c \<Longrightarrow> c \<in> set s \<Longrightarrow> c \<in> set (toUpperCase s)"
proof (induction s)
  case Nil
  then show ?case by simp
next
  case (Cons a s)
  show ?case
  proof (cases "c = a")
    case True
    with Cons.prems sharp_s_not_ascii have "a \<noteq> CHR 0xDF" by auto
    moreover from True Cons.prems have "toUpperChar a = a" by (simp add: toUpperChar_ascii)
    ultimately show ?thesis using True by (simp add: toUpperCase_def)
  next
    case False
    with Cons have "c \<in> set (toUpperCase s)" by simp
    then show ?thesis by (simp add: toUpperCase_def)
  qed
qed

lemma spacesToUnderscores_word:
  "list_all (\<lambda>c. isWordChar c \<or> isSpace c) s \<Longrightarrow> list_all isWordChar (spacesToUnderscores s)"
proof (induction s rule: spacesToUnderscores.induct)
  case 1
  then show ?case by simp
next
  case (2 c cs)
  have "list_all (\<lambda>c. isWordChar c \<or> isSpace c) (dropWhile isSpace cs)"
    using "2.prems" by (auto simp: list_all_iff dest: set_dropWhileD)
  then show ?case
    using 2 by (auto simp: isWordChar_def)
qed

lemma cleanText_clean: "list_all cleanChar (cleanText t)"
proof -
  have "list_all (\<lambda>c. isWordChar c \<or> isSpace c) (removeSpecialChars t)"
    by (simp add: removeSpecialChars_def list_all_iff)
  then have "list_all isWordChar (spacesToUnderscores (removeSpecialChars t))"
    by (rule spacesToUnderscores_word)
  then show ?thesis
    by (simp add: cleanText_def toUpperCase_clean)
qed

lemma cleanChar_legal: "cleanChar c \<Longrightarrow> legalKeyChar c"
  by (auto simp: cleanChar_def legalKeyChar_def)

text \<open>
  Claim C5, as amended.  For every (text, type, filePath) the segment of the key that is
  derived from the text consists only of upper-case letters, digits and underscores, and
  the whole key consists only of letters, digits, underscores and dots whenever the type
  tag, the service-deriving path segment and the file base name (with its first dot
  replaced) do.  The path segments and the type tag are not cleaned: the segments are
  converted to upper case and copied with the tag into the key, so that a hyphen, or any
  other ASCII character that is not a letter, a digit, an underscore or a dot, that stands
  in one of them stands in the key as well, and the key is then not a legal identifier.
\<close>

theorem generateKey_legal:
  "list_all cleanChar (cleanText t)
   \<and> (list_all legalKeyChar (serviceName filePath) \<and> list_all legalKeyChar (fileName filePath)
        \<and> list_all legalKeyChar ty \<longrightarrow>
      list_all legalKeyChar (generateKey t ty filePath))
   \<and> (isAscii c \<and> \<not> legalKeyChar c
        \<and> (c \<in> set (serviceName filePath) \<or> c \<in> set (fileName filePath) \<or> c \<in> set ty) \<longrightarrow>
      c \<in> set (generateKey t ty filePath) \<and> \<not> list_all legalKeyChar (generateKey t ty filePath))"
proof -
  have seg: "list_all legalKeyChar (cleanText t)"
    using cleanText_clean[of t] by (auto simp: list_all_iff cleanChar_legal)
  have dot: "legalKeyChar (CHR ''.'')"
    by (simp add: legalKeyChar_def)
  have A: "list_all legalKeyChar (generateKey t ty filePath)"
    if "list_all legalKeyChar (serviceName filePath) \<and> list_all legalKeyChar (fileName filePath)
        \<and> list_all legalKeyChar ty"
    using that seg dot by (simp add: generateKey_def toUpperCase_legal)
  have B: "c \<in> set (generateKey t ty filePath) \<and> \<not> list_all legalKeyChar (generateKey t ty filePath)"
    if h: "isAscii c \<and> \<not> legalKeyChar c
        \<and> (c \<in> set (serviceName filePath) \<or> c \<in> set (fileName filePath) \<or> c \<in> set ty)"
  proof -
    from h have "c \<in> set (toUpperCase (serviceName filePath))
        \<or> c \<in> set (toUpperCase (fileName filePath)) \<or> c \<in> set ty"
      by (auto intro: toUpperCase_copies)
    then have "c \<in> set (generateKey t ty filePath)"
      by (auto simp: generateKey_def)
    with h show ?thesis by (auto simp: list_all_iff)
  qed
  from A B cleanText_clean[of t] show ?thesis by blast
qed

text \<open>
  The theorem at the file of the basic scenario, whose key is legal, and at a file name
  with a hyphen, which the key holds.
\<close>

theorem generateKey_legal_witness:
  "list_all legalKeyChar
     (generateKey ''Validation failed'' ''RETURN_MESSAGE'' ''auth/src/services/auth.service.ts'')
   \<and> CHR ''-'' \<in> set (generateKey ''Validation failed'' ''RETURN_MESSAGE''
                       ''auth/src/services/user-profile.service.ts'')
   \<and> \<not> list_all legalKeyChar (generateKey ''Validation failed'' ''RETURN_MESSAGE''
                               ''auth/src/services/user-profile.service.ts'')"
proof -
  have a: "list_all legalKeyChar (serviceName ''auth/src/services/auth.service.ts'')
      \<and> list_all legalKeyChar (fileName ''auth/src/services/auth.service.ts'')
      \<and> list_all legalKeyChar ''RETURN_MESSAGE''"
    by code_simp
  have b: "isAscii (CHR ''-'') \<and> \<not> legalKeyChar (CHR ''-'')
      \<and> (CHR ''-'' \<in> set (serviceName ''auth/src/services/user-profile.service.ts'')
         \<or> CHR ''-'' \<in> set (fileName ''auth/src/services/user-profile.service.ts'')
         \<or> CHR ''-'' \<in> set ''RETURN_MESSAGE'')"
    by code_simp
  from generateKey_legal[of "''Validation failed''" "''auth/src/services/auth.service.ts''"
        "''RETURN_MESSAGE''"] a
  have A: "list_all legalKeyChar
     (generateKey ''Validation failed'' ''RETURN_MESSAGE'' ''auth/src/services/auth.service.ts'')"
    by blast
  from generateKey_legal[of "''Validation failed''" "''auth/src/services/user-profile.service.ts''"
        "''RETURN_MESSAGE''" "CHR ''-''"] b
  have B: "CHR ''-'' \<in> set (generateKey ''Validation failed'' ''RETURN_MESSAGE''
                       ''auth/src/services/user-profile.service.ts'')
   \<and> \<not> list_all legalKeyChar (generateKey ''Validation failed'' ''RETURN_MESSAGE''
                               ''auth/src/services/user-profile.service.ts'')"
    by blast
  from A B show ?thesis by blast
qed

text \<open>
  Claim C5 as stated fails for a file name with a hyphen: the hyphen is copied into the key.
\<close>

theorem generateKey_hyphen_counterexample:
  "generateKey ''Validation failed'' ''RETURN_MESSAGE'' ''auth/src/services/user-profile.service.ts''
     = ''AUTH.USER-PROFILE_SERVICE.RETURN_MESSAGE.VALIDATION_FAILED''
   \<and> \<not> legalKeyChar (CHR ''-'')"
  by code_simp
section \<open>Properties of the Pattern Matcher and the Extraction Orchestrator\<close>

lemma rmatch_length: "(s1, caps1) \<in> set (rmatch r s caps) \<Longrightarrow> length s1 \<le> length s"
proof (induction r s caps arbitrary: s1 caps1 rule: rmatch.induct)
  case (1 P s caps)
  then show ?case by (cases s) (auto split: if_splits)
next
  case (2 s caps)
  then show ?case by simp
next
  case (3 r1 r2 s caps)
  from "3.prems" obtain s' caps' where
    a: "(s', caps') \<in> set (rmatch r1 s caps)" and b: "(s1, caps1) \<in> set (rmatch r2 s' caps')"
    by auto
  from "3.IH"(1)[OF a] "3.IH"(2)[OF a refl b] show ?case by simp
next
  case (4 r1 r2 s caps)
  then show ?case by auto
next
  case (5 r s caps)
  from "5.prems" consider "(s1, caps1) = (s, caps)"
    | s' caps' where "(s', caps') \<in> set (rmatch r s caps)" "length s' < length s"
        "(s1, caps1) \<in> set (rmatch (Star r) s' caps')"
    by (subst (asm) rmatch.simps(5)) (auto split: if_splits)
  then show ?case
  proof cases
    case 1
    then show ?thesis by simp
  next
    case 2
    from "5.IH"(2)[OF 2(1) refl 2(2) 2(3)] 2(2) show ?thesis by simp
  qed
next
  case (6 r s caps)
  from "6.prems" consider "(s1, caps1) = (s, caps)"
    | s' caps' where "(s', caps') \<in> set (rmatch r s caps)" "length s' < length s"
        "(s1, caps1) \<in> set (rmatch (Lazy r) s' caps')"
    by (subst (asm) rmatch.simps(6)) (auto split: if_splits)
  then show ?case
  proof cases
    case 1
    then show ?thesis by simp
  next
    case 2
    from "6.IH"(2)[OF 2(1) refl 2(2) 2(3)] 2(2) show ?thesis by simp
  qed
next
  case (7 n r s caps)
  then show ?case by auto
next
  case (8 r s caps)
  then show ?case by (auto split: if_splits)
next
  case (9 s caps)
  then show ?case by (cases s) (auto split: if_splits)
qed

lemma rmatch_consuming:
  "consuming r \<Longrightarrow> (s1, caps1) \<in> set (rmatch r s caps) \<Longrightarrow> length s1 < length s"
proof (induction r arbitrary: s caps s1 caps1)
  case (Atom P)
  then show ?case by (cases s) (auto split: if_splits)
next
  case (Seq r1 r2)
  from Seq.prems(2) obtain s' caps' where
    a: "(s', caps') \<in> set (rmatch r1 s caps)" and b: "(s1, caps1) \<in> set (rmatch r2 s' caps')"
    by auto
  have la: "length s' \<le> length s" and lb: "length s1 \<le> length s'"
    using a b by (auto dest: rmatch_length)
  from Seq.prems(1) have "consuming r1 \<or> consuming r2" by simp
  then show ?case
  proof
    assume "consuming r1"
    from Seq.IH(1)[OF this a] lb show ?thesis by simp
  next
    assume "consuming r2"
    from Seq.IH(2)[OF this b] la show ?thesis by simp
  qed
next
  case (Alt r1 r2)
  then show ?case by auto
next
  case (Group n r)
  then show ?case by auto
qed simp_all

lemma matchAt_consuming:
  assumes "consuming r" and "matchAt r s = Some (m, caps)"
  shows "m \<noteq> []"
proof -
  from assms(2) obtain rest where r: "(rest, caps) \<in> set (rmatch r s [])"
    and m: "m = take (length s - length rest) s"
    by (auto simp: matchAt_def split: list.splits)
  from rmatch_consuming[OF assms(1) r] have "length rest < length s" .
  then show ?thesis using m by auto
qed

lemma search_consuming:
  "consuming r \<Longrightarrow> search r s = Some (k, m, caps) \<Longrightarrow> m \<noteq> []"
proof (induction s arbitrary: k)
  case Nil
  then have "matchAt r [] = Some (m, caps)"
    by (auto split: option.splits)
  with Nil.prems(1) show ?case by (rule matchAt_consuming)
next
  case (Cons c cs)
  show ?case
  proof (cases "matchAt r (c # cs)")
    case None
    with Cons.prems(2) obtain k' where "search r cs = Some (k', m, caps)"
      by (auto split: option.splits)
    with Cons.IH Cons.prems(1) show ?thesis by blast
  next
    case (Some a)
    with Cons.prems(2) have "matchAt r (c # cs) = Some (m, caps)"
      by (auto split: option.splits)
    with Cons.prems(1) show ?thesis by (rule matchAt_consuming)
  qed
qed

lemma search_Nil_empty: "search r [] = Some (k, m, caps) \<Longrightarrow> m = []"
  by (auto simp: matchAt_def split: option.splits list.splits)

lemma search_Nil_consuming: "consuming r \<Longrightarrow> search r [] = None"
proof (cases "search r []")
  case None
  then show ?thesis .
next
  case (Some found)
  assume c: "consuming r"
  obtain k m caps where f: "found = (k, m, caps)" by (cases found)
  from search_consuming[OF c] search_Nil_empty Some f show ?thesis by blast
qed

lemma exec_matches_total:
  "consuming r \<Longrightarrow> \<exists>ms. exec_matches r s lastIndex = Some ms"
proof (induction r s lastIndex rule: exec_matches.induct)
  case (1 r lastIndex)
  then show ?case by (simp add: search_Nil_consuming del: search.simps)
next
  case (2 r c cs lastIndex)
  show ?case
  proof (cases "search r (c # cs)")
    case None
    then show ?thesis by simp
  next
    case (Some found)
    obtain k m caps where f: "found = (k, m, caps)" by (cases found)
    have ne: "m \<noteq> []" using search_consuming[OF "2.prems"] Some f by blast
    from "2.IH"[OF Some f[symmetric] refl ne "2.prems"] show ?thesis
      using Some f ne by auto
  qed
qed

lemma extract_body_eq:
  "extract_body ex p i m caps res =
     res @ (if retained (candidate m caps) then [entryOf ex p i (candidate m caps)] else [])"
  by (auto simp: extract_body_def retained_def entryOf_def lineAt_def Let_def)

lemma entriesOfMatches_Cons:
  "entriesOfMatches ex p ((i, m, caps) # ms) =
     (if retained (candidate m caps) then [entryOf ex p i (candidate m caps)] else []) @
     entriesOfMatches ex p ms"
  by (simp add: entriesOfMatches_def)

lemma extract_while_eq:
  "extract_while ex p s i res =
     map_option (\<lambda>ms. res @ entriesOfMatches ex p ms) (exec_matches (pat_regex p) s i)"
proof (induction ex p s i res rule: extract_while.induct)
  case (1 ex pattern lastIndex results)
  then show ?case
    by (simp add: entriesOfMatches_def split: option.splits del: search.simps)
next
  case (2 ex pattern c cs lastIndex results)
  show ?case
  proof (cases "search (pat_regex pattern) (c # cs)")
    case None
    then show ?thesis by (simp add: entriesOfMatches_def del: search.simps)
  next
    case (Some found)
    obtain k m caps where f: "found = (k, m, caps)" by (cases found)
    show ?thesis
    proof (cases "m = []")
      case True
      then show ?thesis using Some f by (simp del: search.simps)
    next
      case False
      from "2.IH"[OF Some f[symmetric] refl False] show ?thesis
        using Some f False
        by (simp add: extract_body_eq entriesOfMatches_Cons option.map_comp comp_def
                 del: search.simps)
    qed
  qed
qed

lemma entriesOfPattern_eq:
  "entriesOfPattern ex p =
     (case extract_while ex p (ex_content ex) 0 [] of None \<Rightarrow> [] | Some es \<Rightarrow> es)"
  by (simp add: entriesOfPattern_def extract_while_eq split: option.splits)

lemma extract_while_start:
  "extract_while ex p (ex_content ex) 0 res =
     (if terminates ex p then Some (res @ entriesOfPattern ex p) else None)"
  by (auto simp: extract_while_eq terminates_def entriesOfPattern_def)

lemma extract_forEach_eq:
  "extract_forEach ex ps res =
     (if list_all (terminates ex) ps then Some (res @ concat (map (entriesOfPattern ex) ps))
      else None)"
  by (induction ps arbitrary: res) (simp_all add: extract_while_start)

lemma consuming_terminates: "consuming (pat_regex p) \<Longrightarrow> terminates ex p"
  using exec_matches_total[of "pat_regex p" "ex_content ex" 0] by (auto simp: terminates_def)


lemma extractFromFile_eq:
  "extractFromFile w (sanitizeOutputs cfg) f (sort_key priorityOf (patterns cfg)) (includeComments cfg) =
     (case files w f of
        None \<Rightarrow> Some (Inl (ReadFailed f))
      | Some content \<Rightarrow>
          if fileTerminates w cfg f then Some (Inr (entriesOfFile w cfg f)) else None)"
  by (simp add: extractFromFile_def readFile_def extract_forEach_eq fileTerminates_def
        entriesOfFile_def extractionOf_def Let_def split: option.splits)

lemma entriesOfFile_unreadable: "files w f = None \<Longrightarrow> entriesOfFile w cfg f = []"
  by (simp add: entriesOfFile_def)

lemma extract_settled_eq:
  "extract_settled w cfg (sort_key priorityOf (patterns cfg)) batch =
     (if list_all (fileTerminates w cfg) batch
      then Some (concat (map (entriesOfFile w cfg) batch)) else None)"
proof (induction batch)
  case Nil
  then show ?case by simp
next
  case (Cons f batch)
  show ?case
  proof (cases "files w f")
    case None
    then have "fileTerminates w cfg f" by (simp add: fileTerminates_def)
    then show ?thesis
      using None Cons by (simp add: extractFromFile_eq entriesOfFile_unreadable)
  next
    case (Some content)
    then show ?thesis
      using Cons by (simp add: extractFromFile_eq)
  qed
qed

lemma drop_batch: "take c (drop i vf) @ drop (i + c) vf = drop i vf"
proof -
  have "drop c (drop i vf) = drop (i + c) vf"
    by (simp add: add.commute)
  then show ?thesis
    using append_take_drop_id[of c "drop i vf"] by simp
qed

lemma batchesResult_step:
  assumes "i < length vf" and "0 < concurrency cfg"
    and "list_all (fileTerminates w cfg) (take (nat (concurrency cfg)) (drop i vf))"
  shows "batchesResult w cfg vf (i + nat (concurrency cfg))
           (acc @ concat (map (entriesOfFile w cfg) (take (nat (concurrency cfg)) (drop i vf)))) =
         batchesResult w cfg vf i acc"
proof -
  let ?c = "nat (concurrency cfg)"
  let ?batch = "take ?c (drop i vf)"
  let ?rest = "drop (i + ?c) vf"
  have split: "drop i vf = ?batch @ ?rest"
    by (simp add: drop_batch)
  have all: "list_all (fileTerminates w cfg) (drop i vf) = list_all (fileTerminates w cfg) ?rest"
    using assms(3) by (subst split) simp
  have cc: "concat (map (entriesOfFile w cfg) (drop i vf)) =
        concat (map (entriesOfFile w cfg) ?batch) @ concat (map (entriesOfFile w cfg) ?rest)"
    by (subst split) simp
  show ?thesis
  proof (cases "i + ?c < length vf")
    case True
    then show ?thesis
      using assms(1,2) all cc by (simp add: batchesResult_def)
  next
    case False
    then have "?rest = []" by simp
    then show ?thesis
      using assms(1,2) False all cc by (simp add: batchesResult_def)
  qed
qed

lemma batchesResult_stuck:
  assumes "i < length vf" and "0 < concurrency cfg"
    and "\<not> list_all (fileTerminates w cfg) (take (nat (concurrency cfg)) (drop i vf))"
  shows "batchesResult w cfg vf i acc = None"
proof -
  have "drop i vf = take (nat (concurrency cfg)) (drop i vf) @ drop (i + nat (concurrency cfg)) vf"
    by (simp add: drop_batch)
  then have "\<not> list_all (fileTerminates w cfg) (drop i vf)"
    using assms(3) by (metis list_all_append)
  then show ?thesis
    using assms(1,2) by (simp add: batchesResult_def)
qed

lemma extract_batches_eq:
  "sp = sort_key priorityOf (patterns cfg) \<Longrightarrow>
   extract_batches w cfg sp vf i acc = batchesResult w cfg vf i acc"
proof (induction w cfg sp vf i acc rule: extract_batches.induct)
  case (1 w cfg sp vf i acc)
  show ?case
  proof (cases "i < length vf")
    case False
    then show ?thesis
      by (subst extract_batches.simps) (simp add: batchesResult_def)
  next
    case lt: True
    show ?thesis
    proof (cases "concurrency cfg \<le> 0")
      case True
      then show ?thesis
        using lt by (subst extract_batches.simps) (simp add: batchesResult_def)
    next
      case False
      then have pos: "0 < concurrency cfg" by simp
      let ?batch = "take (nat (concurrency cfg)) (drop i vf)"
      show ?thesis
      proof (cases "list_all (fileTerminates w cfg) ?batch")
        case False
        then have "extract_settled w cfg sp ?batch = None"
          using "1.prems" by (simp add: extract_settled_eq)
        then have "extract_batches w cfg sp vf i acc = None"
          using lt pos by (subst extract_batches.simps) simp
        then show ?thesis
          using batchesResult_stuck[OF lt pos False] by simp
      next
        case True
        then have settled: "extract_settled w cfg sp ?batch =
              Some (concat (map (entriesOfFile w cfg) ?batch))"
          using "1.prems" by (simp add: extract_settled_eq)
        have "extract_batches w cfg sp vf i acc =
              extract_batches w cfg sp vf (i + nat (concurrency cfg))
                (acc @ concat (map (entriesOfFile w cfg) ?batch))"
          using lt pos settled by (subst extract_batches.simps) simp
        also have "\<dots> = batchesResult w cfg vf (i + nat (concurrency cfg))
                (acc @ concat (map (entriesOfFile w cfg) ?batch))"
          using lt pos by (intro "1.IH"[OF _ _ settled "1.prems"]) simp_all
        also have "\<dots> = batchesResult w cfg vf i acc"
          by (rule batchesResult_step[OF lt pos True])
        finally show ?thesis .
      qed
    qed
  qed
qed

lemma exec_matches_positions:
  "exec_matches r s pos = Some ms \<Longrightarrow>
   sorted_wrt (<) (map fst ms) \<and> (\<forall>x \<in> set ms. pos \<le> fst x)"
proof (induction r s pos arbitrary: ms rule: exec_matches.induct)
  case (1 r lastIndex)
  then show ?case by (auto split: option.splits simp del: search.simps)
next
  case (2 r c cs lastIndex)
  show ?case
  proof (cases "search r (c # cs)")
    case None
    with "2.prems" show ?thesis by (simp del: search.simps)
  next
    case (Some found)
    obtain k m caps where f: "found = (k, m, caps)" by (cases found)
    from "2.prems" Some f have ne: "m \<noteq> []"
      by (auto split: if_splits simp del: search.simps)
    from "2.prems" Some f ne obtain ms' where
      ms': "exec_matches r (drop (k + length m) (c # cs)) (lastIndex + k + length m) = Some ms'"
      and ms: "ms = (lastIndex + k, m, caps) # ms'"
      by (auto simp del: search.simps)
    from "2.IH"[OF Some f[symmetric] refl ne ms']
    have ih: "sorted_wrt (<) (map fst ms')" "\<forall>x \<in> set ms'. lastIndex + k + length m \<le> fst x"
      by auto
    have pos: "0 < length m" using ne by simp
    have a: "\<forall>x \<in> set ms'. lastIndex + k < fst x"
    proof
      fix x assume "x \<in> set ms'"
      with ih(2) have "lastIndex + k + length m \<le> fst x" by blast
      with pos show "lastIndex + k < fst x" by linarith
    qed
    have b: "\<forall>x \<in> set ms'. lastIndex \<le> fst x"
    proof
      fix x assume "x \<in> set ms'"
      with a have "lastIndex + k < fst x" by blast
      then show "lastIndex \<le> fst x" by linarith
    qed
    show ?thesis
      unfolding ms using ih(1) a b by simp
  qed
qed

lemma split_sep_length: "length (split_sep sep s) = Suc (length (filter (\<lambda>c. c = sep) s))"
  by (induction s) (auto split: list.splits)

lemma lineAt_mono: "i \<le> j \<Longrightarrow> lineAt content i \<le> lineAt content j"
proof -
  assume "i \<le> j"
  then have "take j content = take i content @ take (j - i) (drop i content)"
    by (metis le_add_diff_inverse take_add)
  then show ?thesis
    by (simp add: lineAt_def split_sep_length)
qed

lemma entriesOfMatches_lines:
  "sorted_wrt (<) (map fst ms) \<Longrightarrow> sorted (map line (entriesOfMatches ex p ms))"
proof (induction ms)
  case Nil
  then show ?case by (simp add: entriesOfMatches_def)
next
  case (Cons x ms)
  obtain i m caps where x: "x = (i, m, caps)" by (cases x)
  have later: "\<forall>e \<in> set (entriesOfMatches ex p ms). lineAt (ex_content ex) i \<le> line e"
  proof
    fix e assume "e \<in> set (entriesOfMatches ex p ms)"
    then obtain j m' caps' where "(j, m', caps') \<in> set ms"
      and e: "e = entryOf ex p j (candidate m' caps')"
      by (auto simp: entriesOfMatches_def)
    with Cons.prems x have "i < j" by auto
    then show "lineAt (ex_content ex) i \<le> line e"
      using e by (simp add: entryOf_def lineAt_mono)
  qed
  from Cons have "sorted (map line (entriesOfMatches ex p ms))" by simp
  with later show ?case
    unfolding x by (simp add: entriesOfMatches_Cons entryOf_def)
qed

lemma entriesOfPattern_lines: "sorted (map line (entriesOfPattern ex p))"
  by (auto simp: entriesOfPattern_def split: option.splits
        dest: exec_matches_positions intro: entriesOfMatches_lines)

lemma extract_eq:
  "extract' w cfg tsFiles =
     (if validate cfg \<and> \<not> pathIsValid (searchPath cfg) then Some (Inl InvalidSearchPath)
      else map_option (\<lambda>allStrings. Inr (removeDuplicates allStrings))
             (batchesResult w cfg (filterFilesBySize w tsFiles (maxFileSize cfg)) 0 []))"
  by (simp add: extract'_def extract_batches_eq Let_def split: option.splits)

lemma fileTerminates_consuming:
  "list_all (\<lambda>p. consuming (pat_regex p)) (patterns cfg) \<Longrightarrow> fileTerminates w cfg f"
  by (auto simp: fileTerminates_def list_all_iff consuming_terminates split: option.splits)

lemma batchesResult_start:
  "batchesResult w cfg vf 0 [] = Some allStrings \<Longrightarrow>
   allStrings = concat (map (entriesOfFile w cfg) vf)"
  by (cases vf) (auto simp: batchesResult_def split: if_splits)

lemma batchesResult_total:
  "0 < concurrency cfg \<Longrightarrow> list_all (fileTerminates w cfg) vf \<Longrightarrow>
   batchesResult w cfg vf 0 [] = Some (concat (map (entriesOfFile w cfg) vf))"
  by (cases vf) (auto simp: batchesResult_def)

lemma extract_dataset:
  assumes "extract' w cfg tsFiles = Some (Inr dataset)"
  shows "dataset = removeDuplicates (concat (map (entriesOfFile w cfg)
                  (filterFilesBySize w tsFiles (maxFileSize cfg))))"
proof -
  from assms obtain allStrings where
    b: "batchesResult w cfg (filterFilesBySize w tsFiles (maxFileSize cfg)) 0 [] = Some allStrings"
    and d: "dataset = removeDuplicates allStrings"
    by (auto simp: extract_eq split: if_splits)
  from batchesResult_start[OF b] d show ?thesis by simp
qed

text \<open>
  Claim C4, as amended.  For a fixed enumeration of the files and fixed contents, the
  dataset is the deduplicated concatenation, file after file in the order of the
  enumeration (a file that is too large or cannot be read adds nothing), of the entries of
  each file; the entries of a file come pattern after pattern in the order of ascending
  priority (the sort is stable), and the entries of one pattern come in the order of the
  positions of its matches, so their line numbers ascend.  Match position orders the
  entries of one pattern only: an entry of a pattern of higher priority precedes every
  entry of a pattern of lower priority in the same file, also one found earlier in the
  text.  With a positive batch size, a valid search path and patterns that match no empty
  text, the extraction returns this dataset.
\<close>

theorem extract_order:
  "(extract' w cfg tsFiles = Some (Inr dataset) \<longrightarrow>
      dataset = removeDuplicates (concat (map (entriesOfFile w cfg)
                  (filterFilesBySize w tsFiles (maxFileSize cfg)))))
   \<and> (files w f = Some content \<longrightarrow>
        entriesOfFile w cfg f =
          concat (map (entriesOfPattern (extractionOf w cfg f))
                      (sort_key priorityOf (patterns cfg))))
   \<and> sorted (map priorityOf (sort_key priorityOf (patterns cfg)))
   \<and> (exec_matches (pat_regex p) (ex_content ex) 0 = Some ms \<longrightarrow>
        entriesOfPattern ex p = entriesOfMatches ex p ms \<and> sorted_wrt (<) (map fst ms))
   \<and> sorted (map line (entriesOfPattern ex p))
   \<and> (0 < concurrency cfg \<and> list_all (\<lambda>q. consuming (pat_regex q)) (patterns cfg)
        \<and> (validate cfg \<longrightarrow> pathIsValid (searchPath cfg)) \<longrightarrow>
        extract' w cfg tsFiles =
          Some (Inr (removeDuplicates (concat (map (entriesOfFile w cfg)
                  (filterFilesBySize w tsFiles (maxFileSize cfg)))))))"
proof -
  let ?vf = "filterFilesBySize w tsFiles (maxFileSize cfg)"
  have A: "dataset = removeDuplicates (concat (map (entriesOfFile w cfg) ?vf))"
    if "extract' w cfg tsFiles = Some (Inr dataset)"
    using that by (rule extract_dataset)
  have B: "entriesOfFile w cfg f =
          concat (map (entriesOfPattern (extractionOf w cfg f))
                      (sort_key priorityOf (patterns cfg)))"
    if "files w f = Some content"
    using that by (simp add: entriesOfFile_def)
  have C: "sorted (map priorityOf (sort_key priorityOf (patterns cfg)))"
    by (rule sorted_sort_key)
  have D: "entriesOfPattern ex p = entriesOfMatches ex p ms \<and> sorted_wrt (<) (map fst ms)"
    if "exec_matches (pat_regex p) (ex_content ex) 0 = Some ms"
    using that exec_matches_positions[OF that] by (simp add: entriesOfPattern_def)
  have E: "sorted (map line (entriesOfPattern ex p))"
    by (rule entriesOfPattern_lines)
  have F: "extract' w cfg tsFiles =
          Some (Inr (removeDuplicates (concat (map (entriesOfFile w cfg) ?vf))))"
    if "0 < concurrency cfg \<and> list_all (\<lambda>q. consuming (pat_regex q)) (patterns cfg)
        \<and> (validate cfg \<longrightarrow> pathIsValid (searchPath cfg))"
  proof -
    from that have "list_all (fileTerminates w cfg) ?vf"
      by (simp add: list_all_iff fileTerminates_consuming)
    with that have "batchesResult w cfg ?vf 0 [] = Some (concat (map (entriesOfFile w cfg) ?vf))"
      by (simp add: batchesResult_total)
    with that show ?thesis
      by (auto simp: extract_eq)
  qed
  from A B C D E F show ?thesis by blast
qed

lemma defaultPatterns_consuming: "list_all (\<lambda>q. consuming (pat_regex q)) defaultPatterns"
  by (simp add: defaultPatterns_def exceptionRegex_def returnMessageRegex_def
        templateLiteralRegex_def messagePropertyRegex_def concatenatedStringRegex_def
        quote_def)

lemma entriesOfPattern_retained:
  assumes "e \<in> set (entriesOfPattern ex p)"
  shows "\<exists>t. retained t \<and> key e = generateKey t (type e) (file' e)
             \<and> text' e = sanitizeOutput (ex_sanitizeOutputs ex) t"
  using assms
  by (auto simp: entriesOfPattern_def entriesOfMatches_def entryOf_def split: option.splits)

lemma entriesOfFile_retained:
  assumes "e \<in> set (entriesOfFile w cfg f)"
  shows "\<exists>t. retained t \<and> key e = generateKey t (type e) (file' e)
             \<and> text' e = sanitizeOutput (sanitizeOutputs cfg) t"
proof -
  from assms obtain p where "e \<in> set (entriesOfPattern (extractionOf w cfg f) p)"
    by (auto simp: entriesOfFile_def split: option.splits)
  from entriesOfPattern_retained[OF this] show ?thesis
    by (simp add: extractionOf_def Let_def)
qed

lemma removeDuplicates_subset: "set (removeDuplicates xs) \<subseteq> set xs"
  unfolding removeDuplicates_filter by auto


lemma basic_scenario_eval:
  "extract' scenario_world scenario_settings [''auth/src/services/auth.service.ts''] =
     Some (Inr
       [\<lparr>key = ''AUTH.AUTH_SERVICE.RETURN_MESSAGE.VALIDATION_FAILED'', text' = ''Validation failed'',
         type = ''RETURN_MESSAGE'', file' = ''auth/src/services/auth.service.ts'', line = 1,
         context' = None, priority = Some ''medium'', category = Some ''auth''\<rparr>,
        \<lparr>key = ''AUTH.AUTH_SERVICE.MESSAGE_PROPERTY.VALIDATION_FAILED'', text' = ''Validation failed'',
         type = ''MESSAGE_PROPERTY'', file' = ''auth/src/services/auth.service.ts'', line = 1,
         context' = None, priority = Some ''medium'', category = Some ''auth''\<rparr>])"
  by code_simp

lemma order_scenario_eval:
  "extract' order_world scenario_settings [''auth/src/a.ts''] =
     Some (Inr
       [\<lparr>key = ''AUTH.A.EXCEPTION.USER_EXISTS'', text' = ''User exists'',
         type = ''EXCEPTION'', file' = ''auth/src/a.ts'', line = 2,
         context' = None, priority = Some ''high'', category = Some ''auth''\<rparr>,
        \<lparr>key = ''AUTH.A.RETURN_MESSAGE.VALIDATION_FAILED'', text' = ''Validation failed'',
         type = ''RETURN_MESSAGE'', file' = ''auth/src/a.ts'', line = 1,
         context' = None, priority = Some ''medium'', category = Some ''auth''\<rparr>,
        \<lparr>key = ''AUTH.A.MESSAGE_PROPERTY.VALIDATION_FAILED'', text' = ''Validation failed'',
         type = ''MESSAGE_PROPERTY'', file' = ''auth/src/a.ts'', line = 1,
         context' = None, priority = Some ''medium'', category = Some ''auth''\<rparr>])"
  by code_simp

lemma scenario_settings_total:
  "0 < concurrency scenario_settings
   \<and> list_all (\<lambda>q. consuming (pat_regex q)) (patterns scenario_settings)
   \<and> (validate scenario_settings \<longrightarrow> pathIsValid (searchPath scenario_settings))"
  by (simp add: scenario_settings_def defaultPatterns_consuming pathIsValid_def trim_def
        isSpace_def)

text \<open>
  The theorem at the file with a return statement on line 1 and an exception on line 2.
\<close>

theorem extract_order_witness:
  "extract' order_world scenario_settings [''auth/src/a.ts''] =
     Some (Inr (removeDuplicates (concat (map (entriesOfFile order_world scenario_settings)
        (filterFilesBySize order_world [''auth/src/a.ts''] (maxFileSize scenario_settings))))))
   \<and> removeDuplicates (concat (map (entriesOfFile order_world scenario_settings)
        (filterFilesBySize order_world [''auth/src/a.ts''] (maxFileSize scenario_settings)))) =
       [\<lparr>key = ''AUTH.A.EXCEPTION.USER_EXISTS'', text' = ''User exists'',
         type = ''EXCEPTION'', file' = ''auth/src/a.ts'', line = 2,
         context' = None, priority = Some ''high'', category = Some ''auth''\<rparr>,
        \<lparr>key = ''AUTH.A.RETURN_MESSAGE.VALIDATION_FAILED'', text' = ''Validation failed'',
         type = ''RETURN_MESSAGE'', file' = ''auth/src/a.ts'', line = 1,
         context' = None, priority = Some ''medium'', category = Some ''auth''\<rparr>,
        \<lparr>key = ''AUTH.A.MESSAGE_PROPERTY.VALIDATION_FAILED'', text' = ''Validation failed'',
         type = ''MESSAGE_PROPERTY'', file' = ''auth/src/a.ts'', line = 1,
         context' = None, priority = Some ''medium'', category = Some ''auth''\<rparr>]"
proof -
  let ?ds = "[\<lparr>key = ''AUTH.A.EXCEPTION.USER_EXISTS'', text' = ''User exists'',
         type = ''EXCEPTION'', file' = ''auth/src/a.ts'', line = 2,
         context' = None, priority = Some ''high'', category = Some ''auth''\<rparr>,
        \<lparr>key = ''AUTH.A.RETURN_MESSAGE.VALIDATION_FAILED'', text' = ''Validation failed'',
         type = ''RETURN_MESSAGE'', file' = ''auth/src/a.ts'', line = 1,
         context' = None, priority = Some ''medium'', category = Some ''auth''\<rparr>,
        \<lparr>key = ''AUTH.A.MESSAGE_PROPERTY.VALIDATION_FAILED'', text' = ''Validation failed'',
         type = ''MESSAGE_PROPERTY'', file' = ''auth/src/a.ts'', line = 1,
         context' = None, priority = Some ''medium'', category = Some ''auth''\<rparr>]"
  note t = extract_order[of order_world scenario_settings "[''auth/src/a.ts'']" ?ds]
  from t scenario_settings_total
  have a: "extract' order_world scenario_settings [''auth/src/a.ts''] =
     Some (Inr (removeDuplicates (concat (map (entriesOfFile order_world scenario_settings)
        (filterFilesBySize order_world [''auth/src/a.ts''] (maxFileSize scenario_settings))))))"
    by blast
  from t order_scenario_eval
  have b: "?ds = removeDuplicates (concat (map (entriesOfFile order_world scenario_settings)
        (filterFilesBySize order_world [''auth/src/a.ts''] (maxFileSize scenario_settings))))"
    by blast
  from a b show ?thesis by simp
qed

text \<open>
  Claim C4 as stated fails: the match on line 2, of the pattern of priority 1, precedes the
  matches on line 1, of the patterns of priority 2 and 4.
\<close>

theorem extract_order_counterexample:
  "extract' order_world scenario_settings [''auth/src/a.ts''] =
     Some (Inr
       [\<lparr>key = ''AUTH.A.EXCEPTION.USER_EXISTS'', text' = ''User exists'',
         type = ''EXCEPTION'', file' = ''auth/src/a.ts'', line = 2,
         context' = None, priority = Some ''high'', category = Some ''auth''\<rparr>,
        \<lparr>key = ''AUTH.A.RETURN_MESSAGE.VALIDATION_FAILED'', text' = ''Validation failed'',
         type = ''RETURN_MESSAGE'', file' = ''auth/src/a.ts'', line = 1,
         context' = None, priority = Some ''medium'', category = Some ''auth''\<rparr>,
        \<lparr>key = ''AUTH.A.MESSAGE_PROPERTY.VALIDATION_FAILED'', text' = ''Validation failed'',
         type = ''MESSAGE_PROPERTY'', file' = ''auth/src/a.ts'', line = 1,
         context' = None, priority = Some ''medium'', category = Some ''auth''\<rparr>])"
  by (rule order_scenario_eval)

text \<open>
  Claim C7.  Extracting the content \<open>return { message: 'Validation failed' };\<close> at the path
  \<open>auth/src/services/auth.service.ts\<close> yields an entry with the text \<open>Validation failed\<close>,
  the type \<open>RETURN_MESSAGE\<close> and the key
  \<open>AUTH.AUTH_SERVICE.RETURN_MESSAGE.VALIDATION_FAILED\<close> (and a second entry, of the pattern
  \<open>MESSAGE_PROPERTY\<close>).
\<close>

theorem extract_basic_scenario:
  "extract' scenario_world scenario_settings [''auth/src/services/auth.service.ts''] =
     Some (Inr
       [\<lparr>key = ''AUTH.AUTH_SERVICE.RETURN_MESSAGE.VALIDATION_FAILED'', text' = ''Validation failed'',
         type = ''RETURN_MESSAGE'', file' = ''auth/src/services/auth.service.ts'', line = 1,
         context' = None, priority = Some ''medium'', category = Some ''auth''\<rparr>,
        \<lparr>key = ''AUTH.AUTH_SERVICE.MESSAGE_PROPERTY.VALIDATION_FAILED'', text' = ''Validation failed'',
         type = ''MESSAGE_PROPERTY'', file' = ''auth/src/services/auth.service.ts'', line = 1,
         context' = None, priority = Some ''medium'', category = Some ''auth''\<rparr>])"
  by (rule basic_scenario_eval)

section \<open>Properties of the Template Generator and of the loading of the dataset\<close>

lemma writeFile_ok:
  "\<not> denied w p \<Longrightarrow>
   \<exists>w'. writeFile w p c = Inr w' \<and> denied w' = denied w \<and> written w' = written w @ [(p, c)]
        \<and> dirs w' = dirs w \<and> jsons w' = jsons w"
  by (simp add: writeFile_def)

lemma generate_languages_ok:
  "\<forall>p. \<not> denied w p \<Longrightarrow>
   \<exists>w'. generate_languages w st languages = (None, w') \<and> denied w' = denied w
        \<and> written w' = written w @ languageWrites st languages"
proof (induction languages arbitrary: w)
  case Nil
  show ?case by (simp add: languageWrites_def)
next
  case (Cons lang languages)
  show ?case
  proof (cases "lang = ''en''")
    case True
    with Cons show ?thesis by (simp add: languageWrites_def)
  next
    case False
    let ?p = "langFileOf (st_serviceName st) lang"
    let ?c = "jsonStringify (createTemplateTranslations (st_translations st) lang)"
    from Cons.prems have "\<not> denied w ?p" by simp
    from writeFile_ok[OF this, of ?c] obtain w1 where
      w1: "writeFile w ?p ?c = Inr w1" "denied w1 = denied w" "written w1 = written w @ [(?p, ?c)]"
      by blast
    from Cons.prems w1(2) have "\<forall>p. \<not> denied w1 p" by simp
    from Cons.IH[OF this] obtain w' where
      "generate_languages w1 st languages = (None, w')" "denied w' = denied w1"
      "written w' = written w1 @ languageWrites st languages"
      by blast
    with w1 False show ?thesis
      by (simp add: languageWrites_def)
  qed
qed

lemma generateServiceTranslations_ok:
  assumes "\<forall>p. \<not> denied w p"
  shows "\<exists>w'. generateServiceTranslations readme w st languages template = (None, w')
        \<and> denied w' = denied w
        \<and> written w' = written w @ serviceWrites readme st languages template"
proof -
  let ?svc = "st_serviceName st"
  have e: "ensureDir w (translationsDirOf ?svc) = Inr (w\<lparr>dirs := dirs w @ [translationsDirOf ?svc]\<rparr>)"
    using assms by (simp add: ensureDir_def)
  let ?w1 = "w\<lparr>dirs := dirs w @ [translationsDirOf ?svc]\<rparr>"
  have d1: "\<forall>p. \<not> denied ?w1 p" using assms by simp
  then have "\<not> denied ?w1 (enFileOf ?svc)" by blast
  from writeFile_ok[OF this, of "jsonStringify (st_translations st)"] obtain w2 where
    w2: "writeFile ?w1 (enFileOf ?svc) (jsonStringify (st_translations st)) = Inr w2"
      "denied w2 = denied ?w1"
      "written w2 = written ?w1 @ [(enFileOf ?svc, jsonStringify (st_translations st))]"
    by blast
  have d2: "\<forall>p. \<not> denied w2 p" using d1 w2(2) by simp
  obtain w3 where
    w3: "(if template then generate_languages w2 st languages else (None, w2)) = (None, w3)"
      "denied w3 = denied w2"
      "written w3 = written w2 @ (if template then languageWrites st languages else [])"
    using generate_languages_ok[OF d2, of st languages] by (cases template) auto
  have "\<not> denied w3 (readmeFileOf ?svc)" using d2 w3(2) by simp
  from writeFile_ok[OF this, of "readme st languages"] obtain w4 where
    w4: "writeFile w3 (readmeFileOf ?svc) (readme st languages) = Inr w4"
      "denied w4 = denied w3"
      "written w4 = written w3 @ [(readmeFileOf ?svc, readme st languages)]"
    by blast
  have "generateServiceTranslations readme w st languages template = (None, w4)"
    unfolding generateServiceTranslations_def e using w2(1) w3(1) w4(1)
    by (simp add: generateReadme_def)
  moreover have "denied w4 = denied w" using w4(2) w3(2) w2(2) by simp
  moreover have "written w4 = written w @ serviceWrites readme st languages template"
    using w4(3) w3(3) w2(3) by (simp add: serviceWrites_def)
  ultimately show ?thesis by blast
qed

lemma generate_for_ok:
  "\<forall>p. \<not> denied w p \<Longrightarrow>
   \<exists>w'. generate_for readme w sts languages template = (None, w') \<and> denied w' = denied w
        \<and> written w' = written w @ concat (map (\<lambda>st. serviceWrites readme st languages template) sts)"
proof (induction sts arbitrary: w)
  case Nil
  show ?case by simp
next
  case (Cons st sts)
  from generateServiceTranslations_ok[OF Cons.prems, of readme st languages template]
  obtain w1 where w1: "generateServiceTranslations readme w st languages template = (None, w1)"
    "denied w1 = denied w" "written w1 = written w @ serviceWrites readme st languages template"
    by blast
  from Cons.prems w1(2) have "\<forall>p. \<not> denied w1 p" by simp
  from Cons.IH[OF this] obtain w' where
    "generate_for readme w1 sts languages template = (None, w')" "denied w' = denied w1"
    "written w' = written w1 @ concat (map (\<lambda>st. serviceWrites readme st languages template) sts)"
    by blast
  with w1 show ?case by simp
qed

lemma firsts_snoc: "firsts (xs @ [x]) = (if x \<in> set xs then firsts xs else firsts xs @ [x])"
  by (simp add: firsts_def)

lemma firsts_set: "set (firsts xs) = set xs"
  by (simp add: firsts_def)

lemma firsts_distinct: "distinct (firsts xs)"
  by (simp add: firsts_def)

lemma serviceMap_push_map:
  "distinct L \<Longrightarrow>
   serviceMap_push (map (\<lambda>s. (s, F s)) L) s0 k =
     (if s0 \<in> set L then map (\<lambda>s. (s, if s = s0 then F s @ [k] else F s)) L
      else map (\<lambda>s. (s, F s)) L @ [(s0, [k])])"
  by (induction L) auto

lemma serviceMap_eq:
  "foldl (\<lambda>serviceMap k. serviceMap_push serviceMap (serviceOf k) k) [] ks =
     map (\<lambda>s. (s, filter (\<lambda>k. serviceOf k = s) ks)) (firsts (map serviceOf ks))"
proof (induction ks rule: rev_induct)
  case Nil
  then show ?case by (simp add: firsts_def)
next
  case (snoc k ks)
  let ?L = "firsts (map serviceOf ks)"
  have d: "distinct ?L" by (rule firsts_distinct)
  have s: "set ?L = serviceOf ` set ks" by (simp add: firsts_set)
  show ?case
  proof (cases "serviceOf k \<in> serviceOf ` set ks")
    case True
    then show ?thesis
      using snoc d s
      by (simp add: serviceMap_push_map firsts_snoc cong: map_cong)
  next
    case False
    then have "\<forall>k' \<in> set ks. serviceOf k' \<noteq> serviceOf k"
      by (metis imageI)
    then have "filter (\<lambda>k'. serviceOf k' = serviceOf k) ks = []"
      by (simp add: filter_empty_conv)
    moreover have "map (\<lambda>s. (s, filter (\<lambda>k'. serviceOf k' = s) (ks @ [k]))) ?L =
          map (\<lambda>s. (s, filter (\<lambda>k'. serviceOf k' = s) ks)) ?L"
      using False s by (intro map_cong) auto
    ultimately show ?thesis
      using snoc d s False
      by (simp add: serviceMap_push_map firsts_snoc)
  qed
qed

lemma groupByService_eq:
  "groupByService ks =
     map (\<lambda>s. \<lparr>st_serviceName = s,
               st_translations = createTranslationObject (filter (\<lambda>k. serviceOf k = s) ks),
               st_totalKeys = length (filter (\<lambda>k. serviceOf k = s) ks)\<rparr>)
         (firsts (map serviceOf ks))"
proof -
  have "groupByService ks =
      map (\<lambda>(service, serviceKeys).
            \<lparr>st_serviceName = service,
             st_translations = createTranslationObject serviceKeys,
             st_totalKeys = length serviceKeys\<rparr>)
         (foldl (\<lambda>serviceMap k. serviceMap_push serviceMap (serviceOf k) k) [] ks)"
    by (simp add: groupByService_def serviceOf_def)
  then show ?thesis
    by (simp add: serviceMap_eq comp_def)
qed

lemma map_of_obj_update: "map_of (obj_update ps n v) = (map_of ps)(n \<mapsto> v)"
  by (induction ps) (auto simp: fun_eq_iff)

lemma map_of_obj_set:
  "n \<noteq> ''__proto__'' \<Longrightarrow>
   map_of (obj_set obj k v) n = (if k = n then Some v else map_of obj n)"
  by (auto simp: obj_set_def map_of_obj_update)

lemma names_obj_update:
  "map fst (obj_update ps n v) = (if n \<in> set (map fst ps) then map fst ps else map fst ps @ [n])"
proof (induction ps)
  case Nil
  show ?case by simp
next
  case (Cons a ps)
  obtain k' v' where a: "a = (k', v')" by (cases a)
  show ?case
  proof (cases "k' = n")
    case True
    then show ?thesis unfolding a by simp
  next
    case False
    then have "n \<in> set (map fst ((k', v') # ps)) = (n \<in> set (map fst ps))"
      by auto
    with False Cons.IH show ?thesis unfolding a by simp
  qed
qed

lemma distinct_obj_update:
  "distinct (map fst ps) \<Longrightarrow> distinct (map fst (obj_update ps n v))"
  unfolding names_obj_update by simp

lemma obj_update_fresh: "n \<notin> fst ` set ps \<Longrightarrow> obj_update ps n v = ps @ [(n, v)]"
  by (induction ps) auto

lemma createTranslationObject_snoc:
  "createTranslationObject (ks @ [k]) = obj_set (createTranslationObject ks) (key k) (text' k)"
  by (simp add: createTranslationObject_def)

lemma lastTextOf_snoc:
  "lastTextOf (ks @ [k]) n = (if key k = n then text' k else lastTextOf ks n)"
  by (simp add: lastTextOf_def)

lemma createTranslationObject_lookup:
  "n \<noteq> ''__proto__'' \<Longrightarrow>
   map_of (createTranslationObject ks) n =
     (if n \<in> key ` set ks then Some (lastTextOf ks n) else None)"
proof (induction ks rule: rev_induct)
  case Nil
  then show ?case by (simp add: createTranslationObject_def)
next
  case (snoc k ks)
  then show ?case
    by (auto simp: createTranslationObject_snoc map_of_obj_set lastTextOf_snoc)
qed

lemma createTranslationObject_distinct: "distinct (map fst (createTranslationObject ks))"
proof (induction ks rule: rev_induct)
  case Nil
  then show ?case by (simp add: createTranslationObject_def)
next
  case (snoc k ks)
  then show ?case
    by (simp add: createTranslationObject_snoc obj_set_def distinct_obj_update)
qed

lemma createTranslationObject_verbatim:
  "distinct (map key ks) \<Longrightarrow> ''__proto__'' \<notin> key ` set ks \<Longrightarrow>
   createTranslationObject ks = map (\<lambda>k. (key k, text' k)) ks"
proof (induction ks rule: rev_induct)
  case Nil
  then show ?case by (simp add: createTranslationObject_def)
next
  case (snoc k ks)
  from snoc.prems have "key k \<notin> fst ` set (map (\<lambda>k. (key k, text' k)) ks)"
    by (auto simp: image_iff)
  then have "obj_update (map (\<lambda>k. (key k, text' k)) ks) (key k) (text' k) =
        map (\<lambda>k. (key k, text' k)) ks @ [(key k, text' k)]"
    by (rule obj_update_fresh)
  moreover from snoc.prems have "key k \<noteq> ''__proto__''" by auto
  ultimately show ?case
    using snoc by (simp add: createTranslationObject_snoc obj_set_def)
qed

text \<open>
  Claim C10, as amended.  For every dataset that is not empty, when no write is refused,
  the Template Generator returns normally and its writes are, service after service, the
  file \<open>en.json\<close> with the JSON text of the translation object of that service, then (only
  when the template option is on) one file for each requested language other than \<open>en\<close>,
  then the README.  The file \<open>en.json\<close> is the first write of every service whatever the
  list of languages holds; with the template option off the writes of a service are
  \<open>en.json\<close> and the README only.  The services are the first path segments of the entries'
  files, in the order of their first occurrence, each with its own entries.  The
  translation object of a list of entries has one property for each key: a key other than
  \<open>__proto__\<close> is a property exactly when an entry has it, and its value is, verbatim, the
  text of the last entry with that key.  When the keys of the entries are distinct and none
  is \<open>__proto__\<close>, the object maps the key of each entry to the text of that entry, in
  the order of the entries.
\<close>

theorem generate_writes:
  "(jsons w input = Some data \<and> keys data = Some ks \<and> ks \<noteq> [] \<and> (\<forall>p. \<not> denied w p) \<longrightarrow>
      fst (generate readme w input languages template) = None
      \<and> written (snd (generate readme w input languages template)) =
          written w @ concat (map (\<lambda>st. serviceWrites readme st languages template)
                                  (groupByService ks)))
   \<and> groupByService ks =
       map (\<lambda>s. \<lparr>st_serviceName = s,
                 st_translations = createTranslationObject (filter (\<lambda>k. serviceOf k = s) ks),
                 st_totalKeys = length (filter (\<lambda>k. serviceOf k = s) ks)\<rparr>)
           (firsts (map serviceOf ks))
   \<and> hd (serviceWrites readme st languages template) =
       (enFileOf (st_serviceName st), jsonStringify (st_translations st))
   \<and> serviceWrites readme st languages False =
       [(enFileOf (st_serviceName st), jsonStringify (st_translations st)),
        (readmeFileOf (st_serviceName st), readme st languages)]
   \<and> serviceWrites readme st languages True =
       [(enFileOf (st_serviceName st), jsonStringify (st_translations st))] @
       map (\<lambda>lang. (langFileOf (st_serviceName st) lang,
                    jsonStringify (createTemplateTranslations (st_translations st) lang)))
           (filter (\<lambda>lang. lang \<noteq> ''en'') languages) @
       [(readmeFileOf (st_serviceName st), readme st languages)]
   \<and> (n \<noteq> ''__proto__'' \<longrightarrow>
        map_of (createTranslationObject entries) n =
          (if n \<in> key ` set entries then Some (lastTextOf entries n) else None))
   \<and> distinct (map fst (createTranslationObject entries))
   \<and> (distinct (map key entries) \<and> ''__proto__'' \<notin> key ` set entries \<longrightarrow>
        createTranslationObject entries = map (\<lambda>k. (key k, text' k)) entries)"
proof -
  have A: "fst (generate readme w input languages template) = None
      \<and> written (snd (generate readme w input languages template)) =
          written w @ concat (map (\<lambda>st. serviceWrites readme st languages template)
                                  (groupByService ks))"
    if h: "jsons w input = Some data \<and> keys data = Some ks \<and> ks \<noteq> [] \<and> (\<forall>p. \<not> denied w p)"
  proof -
    from h have g: "generate readme w input languages template =
          generate_for readme w (groupByService ks) languages template"
      by (simp add: generate_def generator_loadTranslationKeys_def readJson_def)
    from h have "\<forall>p. \<not> denied w p" by blast
    from generate_for_ok[OF this, of readme "groupByService ks" languages template]
    show ?thesis unfolding g by auto
  qed
  have B: "groupByService ks =
       map (\<lambda>s. \<lparr>st_serviceName = s,
                 st_translations = createTranslationObject (filter (\<lambda>k. serviceOf k = s) ks),
                 st_totalKeys = length (filter (\<lambda>k. serviceOf k = s) ks)\<rparr>)
           (firsts (map serviceOf ks))"
    by (rule groupByService_eq)
  have C: "n \<noteq> ''__proto__'' \<longrightarrow>
        map_of (createTranslationObject entries) n =
          (if n \<in> key ` set entries then Some (lastTextOf entries n) else None)"
    using createTranslationObject_lookup[of n entries] by blast
  have D: "distinct (map fst (createTranslationObject entries))"
    by (rule createTranslationObject_distinct)
  have E: "distinct (map key entries) \<and> ''__proto__'' \<notin> key ` set entries \<longrightarrow>
        createTranslationObject entries = map (\<lambda>k. (key k, text' k)) entries"
    using createTranslationObject_verbatim[of entries] by blast
  have F: "hd (serviceWrites readme st languages template) =
       (enFileOf (st_serviceName st), jsonStringify (st_translations st))
   \<and> serviceWrites readme st languages False =
       [(enFileOf (st_serviceName st), jsonStringify (st_translations st)),
        (readmeFileOf (st_serviceName st), readme st languages)]
   \<and> serviceWrites readme st languages True =
       [(enFileOf (st_serviceName st), jsonStringify (st_translations st))] @
       map (\<lambda>lang. (langFileOf (st_serviceName st) lang,
                    jsonStringify (createTemplateTranslations (st_translations st) lang)))
           (filter (\<lambda>lang. lang \<noteq> ''en'') languages) @
       [(readmeFileOf (st_serviceName st), readme st languages)]"
    by (simp add: serviceWrites_def languageWrites_def)
  from A B C D E F show ?thesis by blast
qed

text \<open>
  The theorem at a dataset with keys of two services and the languages \<open>fr\<close> and \<open>es\<close>:
  \<open>en\<close> is not requested and \<open>en.json\<close> is written, with the text of each key as it stands
  in the dataset; the files of the two languages are written with the template option
  only.
\<close>

theorem generate_writes_witness:
  "written (snd (generate readme_stub two_service_world ''translation-keys.json''
                   [''fr'', ''es''] False)) =
     [(''auth/src/translations/en.json'',
       jsonStringify [(''AUTH.AUTH_SERVICE.EXCEPTION.USER_ALREADY_EXISTS'',
                       ''User already exists with this email'')]),
      (''auth/src/translations/README.md'', ''# auth Translation Files''),
      (''profile/src/translations/en.json'',
       jsonStringify [(''PROFILE.PROFILE_CONTROLLER.EXCEPTION.PROFILE_NOT_FOUND'',
                       ''Profile not found'')]),
      (''profile/src/translations/README.md'', ''# profile Translation Files'')]
   \<and> written (snd (generate readme_stub two_service_world ''translation-keys.json''
                     [''fr'', ''es''] True)) =
     [(''auth/src/translations/en.json'',
       jsonStringify [(''AUTH.AUTH_SERVICE.EXCEPTION.USER_ALREADY_EXISTS'',
                       ''User already exists with this email'')]),
      (''auth/src/translations/fr.json'',
       jsonStringify [(''AUTH.AUTH_SERVICE.EXCEPTION.USER_ALREADY_EXISTS'',
                       ''TODO: Translate '' @ [CHR 0x22] @ ''User already exists with this email'' @
                       [CHR 0x22] @ '' to fr'')]),
      (''auth/src/translations/es.json'',
       jsonStringify [(''AUTH.AUTH_SERVICE.EXCEPTION.USER_ALREADY_EXISTS'',
                       ''TODO: Translate '' @ [CHR 0x22] @ ''User already exists with this email'' @
                       [CHR 0x22] @ '' to es'')]),
      (''auth/src/translations/README.md'', ''# auth Translation Files''),
      (''profile/src/translations/en.json'',
       jsonStringify [(''PROFILE.PROFILE_CONTROLLER.EXCEPTION.PROFILE_NOT_FOUND'',
                       ''Profile not found'')]),
      (''profile/src/translations/fr.json'',
       jsonStringify [(''PROFILE.PROFILE_CONTROLLER.EXCEPTION.PROFILE_NOT_FOUND'',
                       ''TODO: Translate '' @ [CHR 0x22] @ ''Profile not found'' @
                       [CHR 0x22] @ '' to fr'')]),
      (''profile/src/translations/es.json'',
       jsonStringify [(''PROFILE.PROFILE_CONTROLLER.EXCEPTION.PROFILE_NOT_FOUND'',
                       ''TODO: Translate '' @ [CHR 0x22] @ ''Profile not found'' @
                       [CHR 0x22] @ '' to es'')]),
      (''profile/src/translations/README.md'', ''# profile Translation Files'')]
   \<and> jsonStringify [(''PROFILE.PROFILE_CONTROLLER.EXCEPTION.PROFILE_NOT_FOUND'', ''Profile not found'')] =
       ''{'' @ [CHR 0x0A] @ ''  '' @ [CHR 0x22] @
       ''PROFILE.PROFILE_CONTROLLER.EXCEPTION.PROFILE_NOT_FOUND'' @ [CHR 0x22] @ '': '' @
       [CHR 0x22] @ ''Profile not found'' @ [CHR 0x22] @ [CHR 0x0A] @ ''}''
   \<and> map_of (createTranslationObject two_service_keys)
        ''PROFILE.PROFILE_CONTROLLER.EXCEPTION.PROFILE_NOT_FOUND'' = Some ''Profile not found''
   \<and> createTranslationObject two_service_keys =
       [(''AUTH.AUTH_SERVICE.EXCEPTION.USER_ALREADY_EXISTS'', ''User already exists with this email''),
        (''PROFILE.PROFILE_CONTROLLER.EXCEPTION.PROFILE_NOT_FOUND'', ''Profile not found'')]"
proof -
  have h: "jsons two_service_world ''translation-keys.json'' = Some \<lparr>keys = Some two_service_keys\<rparr>
        \<and> keys \<lparr>keys = Some two_service_keys\<rparr> = Some two_service_keys
        \<and> two_service_keys \<noteq> [] \<and> (\<forall>p. \<not> denied two_service_world p)"
    by (simp add: two_service_world_def two_service_keys_def)
  have w: "written two_service_world = []"
    by (simp add: two_service_world_def)
  have e1: "concat (map (\<lambda>st. serviceWrites readme_stub st [''fr'', ''es''] False)
                        (groupByService two_service_keys)) =
     [(''auth/src/translations/en.json'',
       jsonStringify [(''AUTH.AUTH_SERVICE.EXCEPTION.USER_ALREADY_EXISTS'',
                       ''User already exists with this email'')]),
      (''auth/src/translations/README.md'', ''# auth Translation Files''),
      (''profile/src/translations/en.json'',
       jsonStringify [(''PROFILE.PROFILE_CONTROLLER.EXCEPTION.PROFILE_NOT_FOUND'',
                       ''Profile not found'')]),
      (''profile/src/translations/README.md'', ''# profile Translation Files'')]"
    by code_simp
  have e2: "concat (map (\<lambda>st. serviceWrites readme_stub st [''fr'', ''es''] True)
                        (groupByService two_service_keys)) =
     [(''auth/src/translations/en.json'',
       jsonStringify [(''AUTH.AUTH_SERVICE.EXCEPTION.USER_ALREADY_EXISTS'',
                       ''User already exists with this email'')]),
      (''auth/src/translations/fr.json'',
       jsonStringify [(''AUTH.AUTH_SERVICE.EXCEPTION.USER_ALREADY_EXISTS'',
                       ''TODO: Translate '' @ [CHR 0x22] @ ''User already exists with this email'' @
                       [CHR 0x22] @ '' to fr'')]),
      (''auth/src/translations/es.json'',
       jsonStringify [(''AUTH.AUTH_SERVICE.EXCEPTION.USER_ALREADY_EXISTS'',
                       ''TODO: Translate '' @ [CHR 0x22] @ ''User already exists with this email'' @
                       [CHR 0x22] @ '' to es'')]),
      (''auth/src/translations/README.md'', ''# auth Translation Files''),
      (''profile/src/translations/en.json'',
       jsonStringify [(''PROFILE.PROFILE_CONTROLLER.EXCEPTION.PROFILE_NOT_FOUND'',
                       ''Profile not found'')]),
      (''profile/src/translations/fr.json'',
       jsonStringify [(''PROFILE.PROFILE_CONTROLLER.EXCEPTION.PROFILE_NOT_FOUND'',
                       ''TODO: Translate '' @ [CHR 0x22] @ ''Profile not found'' @
                       [CHR 0x22] @ '' to fr'')]),
      (''profile/src/translations/es.json'',
       jsonStringify [(''PROFILE.PROFILE_CONTROLLER.EXCEPTION.PROFILE_NOT_FOUND'',
                       ''TODO: Translate '' @ [CHR 0x22] @ ''Profile not found'' @
                       [CHR 0x22] @ '' to es'')]),
      (''profile/src/translations/README.md'', ''# profile Translation Files'')]"
    by code_simp
  have e3: "jsonStringify [(''PROFILE.PROFILE_CONTROLLER.EXCEPTION.PROFILE_NOT_FOUND'', ''Profile not found'')] =
       ''{'' @ [CHR 0x0A] @ ''  '' @ [CHR 0x22] @
       ''PROFILE.PROFILE_CONTROLLER.EXCEPTION.PROFILE_NOT_FOUND'' @ [CHR 0x22] @ '': '' @
       [CHR 0x22] @ ''Profile not found'' @ [CHR 0x22] @ [CHR 0x0A] @ ''}''"
    by code_simp
  have n: "''PROFILE.PROFILE_CONTROLLER.EXCEPTION.PROFILE_NOT_FOUND'' \<noteq> ''__proto__''"
    by simp
  have m: "''PROFILE.PROFILE_CONTROLLER.EXCEPTION.PROFILE_NOT_FOUND'' \<in> key ` set two_service_keys"
    by (simp add: two_service_keys_def)
  have l: "lastTextOf two_service_keys ''PROFILE.PROFILE_CONTROLLER.EXCEPTION.PROFILE_NOT_FOUND'' =
        ''Profile not found''"
    by code_simp
  have d: "distinct (map key two_service_keys) \<and> ''__proto__'' \<notin> key ` set two_service_keys"
    by (simp add: two_service_keys_def)
  have v: "map (\<lambda>k. (key k, text' k)) two_service_keys =
       [(''AUTH.AUTH_SERVICE.EXCEPTION.USER_ALREADY_EXISTS'', ''User already exists with this email''),
        (''PROFILE.PROFILE_CONTROLLER.EXCEPTION.PROFILE_NOT_FOUND'', ''Profile not found'')]"
    by (simp add: two_service_keys_def)
  from generate_writes[of two_service_world "''translation-keys.json''"
        "\<lparr>keys = Some two_service_keys\<rparr>" two_service_keys readme_stub "[''fr'', ''es'']" False] h
  have f: "written (snd (generate readme_stub two_service_world ''translation-keys.json''
                            [''fr'', ''es''] False)) =
          written two_service_world @ concat (map (\<lambda>st. serviceWrites readme_stub st [''fr'', ''es''] False)
                                  (groupByService two_service_keys))"
    by blast
  from generate_writes[of two_service_world "''translation-keys.json''"
        "\<lparr>keys = Some two_service_keys\<rparr>" two_service_keys readme_stub "[''fr'', ''es'']" True] h
  have t: "written (snd (generate readme_stub two_service_world ''translation-keys.json''
                            [''fr'', ''es''] True)) =
          written two_service_world @ concat (map (\<lambda>st. serviceWrites readme_stub st [''fr'', ''es''] True)
                                  (groupByService two_service_keys))"
    by blast
  from generate_writes[where n = "''PROFILE.PROFILE_CONTROLLER.EXCEPTION.PROFILE_NOT_FOUND''"
        and entries = two_service_keys] n m l
  have q: "map_of (createTranslationObject two_service_keys)
        ''PROFILE.PROFILE_CONTROLLER.EXCEPTION.PROFILE_NOT_FOUND'' = Some ''Profile not found''"
    by simp
  from generate_writes[where entries = two_service_keys] d v
  have r: "createTranslationObject two_service_keys =
       [(''AUTH.AUTH_SERVICE.EXCEPTION.USER_ALREADY_EXISTS'', ''User already exists with this email''),
        (''PROFILE.PROFILE_CONTROLLER.EXCEPTION.PROFILE_NOT_FOUND'', ''Profile not found'')]"
    by simp
  from f t w e1 e2 e3 q r show ?thesis
    by simp
qed

text \<open>
  Claim C10 as stated fails for the text of a key that two entries have: the extraction
  of a file with the messages \<open>Validation failed!\<close> and \<open>Validation failed\<close> gives two
  entries with one key, and \<open>en.json\<close> holds the text of the second only.  It fails also
  for the key \<open>__proto__\<close>: the assignment creates no property, and \<open>en.json\<close> is the empty
  object.
\<close>

lemma duplicate_key_extracted:
  "extract' duplicate_key_source scenario_settings [''auth/src/services/auth.service.ts''] =
     Some (Inr duplicate_key_keys)"
  by code_simp

theorem en_json_counterexample:
  "written (snd (generate readme_stub duplicate_key_world ''translation-keys.json'' [''fr''] False)) =
     [(''auth/src/translations/en.json'',
       jsonStringify [(''AUTH.AUTH_SERVICE.EXCEPTION.VALIDATION_FAILED'', ''Validation failed'')]),
      (''auth/src/translations/README.md'', ''# auth Translation Files'')]
   \<and> (key (hd duplicate_key_keys), text' (hd duplicate_key_keys)) =
       (''AUTH.AUTH_SERVICE.EXCEPTION.VALIDATION_FAILED'', ''Validation failed!'')
   \<and> written (snd (generate readme_stub proto_key_world ''translation-keys.json'' [''fr''] False)) =
     [(''profile/src/translations/en.json'', ''{}''),
      (''profile/src/translations/README.md'', ''# profile Translation Files'')]"
  by code_simp

text \<open>
  Claim C2, as amended.  When the read of the persisted dataset fails, the Generation stage
  goes on with the empty dataset: it returns normally and writes nothing.  The Replacement
  stage does not: it ends the process with exit status 1, before it reads or writes any
  source file.
\<close>

theorem dataset_read_failure:
  "jsons w keysFile = None \<longrightarrow>
     generator_loadTranslationKeys w keysFile = \<lparr>keys = Some []\<rparr>
     \<and> generate readme w keysFile languages template = (None, w)
     \<and> replacer_loadTranslationKeys w keysFile = Exited 1
     \<and> replace w keysFile backup dryRun tsFiles = Exited 1"
  by (simp add: generator_loadTranslationKeys_def generate_def replacer_loadTranslationKeys_def
        replace_def readJson_def)

text \<open>
  The theorem at a world without a dataset file.
\<close>

theorem dataset_read_failure_witness:
  "generate readme_stub scenario_world ''translation-keys.json'' [''en'', ''fr''] True
     = (None, scenario_world)
   \<and> replace scenario_world ''translation-keys.json'' True False
       [''auth/src/services/auth.service.ts''] = Exited 1"
proof -
  have "jsons scenario_world ''translation-keys.json'' = None"
    by (simp add: scenario_world_def)
  with dataset_read_failure[of scenario_world "''translation-keys.json''" readme_stub
        "[''en'', ''fr'']" True True False "[''auth/src/services/auth.service.ts'']"]
  show ?thesis by blast
qed

text \<open>
  Claim C2 as stated fails for the Replacement stage: without a dataset file the run ends
  with exit status 1.
\<close>

theorem replace_exits_counterexample:
  "replace scenario_world ''translation-keys.json'' True False
     [''auth/src/services/auth.service.ts''] = Exited 1"
  by (simp add: replace_def replacer_loadTranslationKeys_def readJson_def scenario_world_def)

section \<open>Properties of the Replacement Engine\<close>








text \<open>
  Claim C1 says that, where a thrown exception call has a string literal with an entry in
  the dataset and a second, object-literal argument, the Replacement Engine replaces the
  literal only and leaves the second argument untouched.  The code does not: at the input
  of the replacer's test \<open>should handle exception with object parameters\<close> it counts one
  replacement, writes the backup, and writes the call without its second argument
  \<open>{ userId: 123 }\<close>.
\<close>

theorem replaceInFile_drops_object_argument:
  "fst (replaceInFile object_argument_world ''auth/src/services/auth.service.ts''
          object_argument_keys True False) = Inr 1
   \<and> written (snd (replaceInFile object_argument_world ''auth/src/services/auth.service.ts''
          object_argument_keys True False)) =
       [(''auth/src/services/auth.service.ts.backup'',
         ''throw new BadRequestException('User already exists with this email', { userId: 123 });''),
        (''auth/src/services/auth.service.ts'',
         ''throw new BadRequestException(this.translate('AUTH.AUTH_SERVICE.EXCEPTION.USER_ALREADY_EXISTS'));'')]"
  by code_simp

section \<open>Properties of the length filter\<close>

lemma splice_removed:
  "\<forall>(i, m, rep) \<in> set reps. rep = [] \<Longrightarrow> length (splice s p reps) \<le> length s - p"
proof (induction reps arbitrary: p)
  case Nil
  then show ?case by simp
next
  case (Cons x reps)
  obtain i m rep where x: "x = (i, m, rep)" by (cases x)
  from Cons.prems x have r: "rep = []" by simp
  from Cons.prems have rest: "\<forall>(i, m, rep) \<in> set reps. rep = []" by simp
  show ?case
  proof (cases "p \<le> i")
    case True
    have "length (splice s (i + length m) reps) \<le> length s - (i + length m)"
      using Cons.IH[OF rest] .
    with True show ?thesis unfolding x r by simp
  next
    case False
    with Cons.IH[OF rest, of p] show ?thesis unfolding x by simp
  qed
qed

lemma jsRemoveAll_le: "length s \<le> n \<Longrightarrow> length (jsRemoveAll r s) \<le> n"
proof -
  have "length (jsRemoveAll r s) \<le> length s - 0"
    unfolding jsRemoveAll_def jsReplaceAll_def
    by (rule splice_removed) auto
  then show "length s \<le> n \<Longrightarrow> length (jsRemoveAll r s) \<le> n" by simp
qed

lemma trim_le: "length s \<le> n \<Longrightarrow> length (trim s) \<le> n"
proof -
  have "length (trim s) \<le> length (dropWhile isSpace s)"
    unfolding trim_def by (simp add: length_dropWhile_le) (metis length_dropWhile_le length_rev)
  also have "\<dots> \<le> length s" by (rule length_dropWhile_le)
  finally show "length s \<le> n \<Longrightarrow> length (trim s) \<le> n" by simp
qed

lemma sanitizeOutput_length: "length (sanitizeOutput b s) \<le> length s"
  unfolding sanitizeOutput_def
  by (auto intro!: trim_le jsRemoveAll_le)

lemma removeDuplicates_keys: "dedupKey ` set (removeDuplicates xs) = dedupKey ` set xs"
  by (simp add: removeDuplicates_def forEach_keys)

lemma extractFromFile_entries:
  assumes "extractFromFile w san f ps inc = Some (Inr es)"
  shows "\<exists>content. files w f = Some content \<and>
           es = concat (map (entriesOfPattern
                  \<lparr>ex_sanitizeOutputs = san, ex_includeComments = inc,
                   ex_comments = (if inc then extractComments content else []),
                   ex_content = content, ex_filePath = f\<rparr>) ps)"
  using assms
  by (auto simp: extractFromFile_def readFile_def extract_forEach_eq Let_def
           split: option.splits if_splits)

text \<open>
  Claim C6, as amended.  For every candidate that a pattern captures during extraction, a
  candidate of exactly 3 or exactly 500 characters is retained (the body of the loop adds
  its entry to the results), and a candidate of 2 or of 501 characters is discarded (the
  body adds nothing); in general the candidate is discarded exactly when it is shorter
  than 3 or longer than 500 characters.  The retained candidates, and no others, reach the
  results: the loop of one pattern returns the entries of its matches whose candidates are
  3 to 500 characters long, in the order of the matches; \<open>extractFromFile\<close> returns these
  entries pattern after pattern; and the dataset of \<open>extract\<close> is the deduplicated list of
  the entries of the files, so that every entry of a file is in the dataset or has the
  concatenation \<open>key + ":" + text\<close> of an entry of the dataset, and every entry of the
  dataset stems from a candidate of 3 to 500 characters.  The text stored in an entry is
  the sanitised candidate.  It is never longer than 500 characters.  It is the candidate
  itself, and so not shorter than 3 characters, when the sanitisation of outputs is off;
  with the sanitisation on (the default) the stored text can be shorter than 3 characters.
\<close>

theorem length_filter:
  "(length (candidate m caps) = 3 \<longrightarrow>
      extract_body ex p i m caps results = results @ [entryOf ex p i (candidate m caps)])
   \<and> (length (candidate m caps) = 2 \<longrightarrow> extract_body ex p i m caps results = results)
   \<and> (length (candidate m caps) = 500 \<longrightarrow>
      extract_body ex p i m caps results = results @ [entryOf ex p i (candidate m caps)])
   \<and> (length (candidate m caps) = 501 \<longrightarrow> extract_body ex p i m caps results = results)
   \<and> ((extract_body ex p i m caps results = results) =
        (length (candidate m caps) < 3 \<or> 500 < length (candidate m caps)))
   \<and> (extract_while ex p (ex_content ex) 0 [] = Some es \<longrightarrow>
        (\<exists>ms. exec_matches (pat_regex p) (ex_content ex) 0 = Some ms \<and>
           es = map (\<lambda>(j, m, caps). entryOf ex p j (candidate m caps))
                    (filter (\<lambda>(j, m, caps). 3 \<le> length (candidate m caps)
                                        \<and> length (candidate m caps) \<le> 500) ms)))
   \<and> (extractFromFile w san f ps inc = Some (Inr fileEntries) \<longrightarrow>
        (\<exists>content. files w f = Some content \<and>
           fileEntries = concat (map (entriesOfPattern
                  \<lparr>ex_sanitizeOutputs = san, ex_includeComments = inc,
                   ex_comments = (if inc then extractComments content else []),
                   ex_content = content, ex_filePath = f\<rparr>) ps)))
   \<and> (extract' w cfg tsFiles = Some (Inr dataset) \<longrightarrow>
        dataset = removeDuplicates (concat (map (entriesOfFile w cfg)
                    (filterFilesBySize w tsFiles (maxFileSize cfg))))
        \<and> (\<forall>g \<in> set (filterFilesBySize w tsFiles (maxFileSize cfg)).
              \<forall>e \<in> set (entriesOfFile w cfg g). \<exists>d \<in> set dataset. dedupKey d = dedupKey e)
        \<and> (\<forall>e \<in> set dataset. \<exists>t. 3 \<le> length t \<and> length t \<le> 500
              \<and> key e = generateKey t (type e) (file' e)
              \<and> text' e = sanitizeOutput (sanitizeOutputs cfg) t)
        \<and> (\<forall>e \<in> set dataset. length (text' e) \<le> 500)
        \<and> (\<not> sanitizeOutputs cfg \<longrightarrow> (\<forall>e \<in> set dataset. 3 \<le> length (text' e))))"
proof -
  have body: "extract_body ex p i m caps results =
      results @ (if retained (candidate m caps) then [entryOf ex p i (candidate m caps)] else [])"
    by (rule extract_body_eq)
  have A: "length (candidate m caps) = 3 \<longrightarrow>
      extract_body ex p i m caps results = results @ [entryOf ex p i (candidate m caps)]"
    by (simp add: body retained_def)
  have B: "length (candidate m caps) = 2 \<longrightarrow> extract_body ex p i m caps results = results"
    by (simp add: body retained_def)
  have C: "length (candidate m caps) = 500 \<longrightarrow>
      extract_body ex p i m caps results = results @ [entryOf ex p i (candidate m caps)]"
    by (simp add: body retained_def)
  have D: "length (candidate m caps) = 501 \<longrightarrow> extract_body ex p i m caps results = results"
    by (simp add: body retained_def)
  have E: "(extract_body ex p i m caps results = results) =
        (length (candidate m caps) < 3 \<or> 500 < length (candidate m caps))"
    by (auto simp: body retained_def)
  have F: "\<exists>ms. exec_matches (pat_regex p) (ex_content ex) 0 = Some ms \<and>
           es = map (\<lambda>(j, m, caps). entryOf ex p j (candidate m caps))
                    (filter (\<lambda>(j, m, caps). 3 \<le> length (candidate m caps)
                                        \<and> length (candidate m caps) \<le> 500) ms)"
    if "extract_while ex p (ex_content ex) 0 [] = Some es"
    using that by (auto simp: extract_while_eq entriesOfMatches_def retained_def)
  have G: "\<exists>content. files w f = Some content \<and>
           fileEntries = concat (map (entriesOfPattern
                  \<lparr>ex_sanitizeOutputs = san, ex_includeComments = inc,
                   ex_comments = (if inc then extractComments content else []),
                   ex_content = content, ex_filePath = f\<rparr>) ps)"
    if "extractFromFile w san f ps inc = Some (Inr fileEntries)"
    using that by (rule extractFromFile_entries)
  let ?vf = "filterFilesBySize w tsFiles (maxFileSize cfg)"
  have H: "dataset = removeDuplicates (concat (map (entriesOfFile w cfg) ?vf))
        \<and> (\<forall>g \<in> set ?vf.
              \<forall>e \<in> set (entriesOfFile w cfg g). \<exists>d \<in> set dataset. dedupKey d = dedupKey e)
        \<and> (\<forall>e \<in> set dataset. \<exists>t. 3 \<le> length t \<and> length t \<le> 500
              \<and> key e = generateKey t (type e) (file' e)
              \<and> text' e = sanitizeOutput (sanitizeOutputs cfg) t)
        \<and> (\<forall>e \<in> set dataset. length (text' e) \<le> 500)
        \<and> (\<not> sanitizeOutputs cfg \<longrightarrow> (\<forall>e \<in> set dataset. 3 \<le> length (text' e)))"
    if ex: "extract' w cfg tsFiles = Some (Inr dataset)"
  proof -
    have d: "dataset = removeDuplicates (concat (map (entriesOfFile w cfg) ?vf))"
      using ex by (rule extract_dataset)
    have reach: "\<exists>d \<in> set dataset. dedupKey d = dedupKey e"
      if "g \<in> set ?vf" and "e \<in> set (entriesOfFile w cfg g)" for g e
    proof -
      from that have "dedupKey e \<in> dedupKey ` set (concat (map (entriesOfFile w cfg) ?vf))"
        by auto
      then have "dedupKey e \<in> dedupKey ` set dataset"
        unfolding d removeDuplicates_keys .
      then show ?thesis by auto
    qed
    have stem: "\<exists>t. 3 \<le> length t \<and> length t \<le> 500
              \<and> key e = generateKey t (type e) (file' e)
              \<and> text' e = sanitizeOutput (sanitizeOutputs cfg) t"
      if "e \<in> set dataset" for e
    proof -
      from that d removeDuplicates_subset obtain g where "e \<in> set (entriesOfFile w cfg g)"
        by fastforce
      from entriesOfFile_retained[OF this] show ?thesis
        by (simp add: retained_def)
    qed
    have upper: "length (text' e) \<le> 500" if "e \<in> set dataset" for e
    proof -
      from stem[OF that] obtain t where
        t: "length t \<le> 500" "text' e = sanitizeOutput (sanitizeOutputs cfg) t"
        by blast
      have "length (sanitizeOutput (sanitizeOutputs cfg) t) \<le> length t"
        by (rule sanitizeOutput_length)
      with t show ?thesis by simp
    qed
    have lower: "3 \<le> length (text' e)" if "\<not> sanitizeOutputs cfg" and "e \<in> set dataset" for e
      using stem[OF that(2)] that(1) by (auto simp: sanitizeOutput_def)
    from d reach stem upper lower show ?thesis by blast
  qed
  from A B C D E F G H show ?thesis by blast
qed

text \<open>
  The theorem at candidates of 3, 2, 500 and 501 characters in the body of the loop, and
  at the datasets of two files: the candidate of 3 characters is in the dataset, and the
  file whose only candidate has 2 characters gives the empty dataset.
\<close>

lemma boundary_three_eval:
  "extract' (boundary_world 3) scenario_settings [''auth/src/a.ts''] =
     Some (Inr [\<lparr>key = ''AUTH.A.MESSAGE_PROPERTY.AAA'', text' = ''aaa'',
                 type = ''MESSAGE_PROPERTY'', file' = ''auth/src/a.ts'', line = 1,
                 context' = None, priority = Some ''low'', category = Some ''auth''\<rparr>])"
  by code_simp

lemma boundary_two_eval:
  "extract' (boundary_world 2) scenario_settings [''auth/src/a.ts''] = Some (Inr [])"
  by code_simp

theorem length_filter_witness:
  "extract_body boundary_extraction (defaultPatterns ! 3) 0 ''message: `abc`'' [(1, ''abc'')] [] =
     [entryOf boundary_extraction (defaultPatterns ! 3) 0 ''abc'']
   \<and> extract_body boundary_extraction (defaultPatterns ! 3) 0 ''message: `ab`'' [(1, ''ab'')] [] = []
   \<and> extract_body boundary_extraction (defaultPatterns ! 3) 0
       (''message: `'' @ replicate 500 (CHR ''a'') @ ''`'') [(1, replicate 500 (CHR ''a''))] [] =
     [entryOf boundary_extraction (defaultPatterns ! 3) 0 (replicate 500 (CHR ''a''))]
   \<and> extract_body boundary_extraction (defaultPatterns ! 3) 0
       (''message: `'' @ replicate 501 (CHR ''a'') @ ''`'') [(1, replicate 501 (CHR ''a''))] [] = []
   \<and> extract' (boundary_world 3) scenario_settings [''auth/src/a.ts''] =
       Some (Inr [\<lparr>key = ''AUTH.A.MESSAGE_PROPERTY.AAA'', text' = ''aaa'',
                   type = ''MESSAGE_PROPERTY'', file' = ''auth/src/a.ts'', line = 1,
                   context' = None, priority = Some ''low'', category = Some ''auth''\<rparr>])
   \<and> [\<lparr>key = ''AUTH.A.MESSAGE_PROPERTY.AAA'', text' = ''aaa'',
        type = ''MESSAGE_PROPERTY'', file' = ''auth/src/a.ts'', line = 1,
        context' = None, priority = Some ''low'', category = Some ''auth''\<rparr>] =
       removeDuplicates (concat (map (entriesOfFile (boundary_world 3) scenario_settings)
         (filterFilesBySize (boundary_world 3) [''auth/src/a.ts''] (maxFileSize scenario_settings))))
   \<and> extract' (boundary_world 2) scenario_settings [''auth/src/a.ts''] = Some (Inr [])
   \<and> [] = removeDuplicates (concat (map (entriesOfFile (boundary_world 2) scenario_settings)
         (filterFilesBySize (boundary_world 2) [''auth/src/a.ts''] (maxFileSize scenario_settings))))"
proof -
  let ?ex = boundary_extraction
  let ?p = "defaultPatterns ! 3"
  have c3: "candidate ''message: `abc`'' [(1, ''abc'')] = ''abc''"
    by (simp add: candidate_def)
  have c2: "candidate ''message: `ab`'' [(1, ''ab'')] = ''ab''"
    by (simp add: candidate_def)
  have c500: "candidate (''message: `'' @ replicate 500 (CHR ''a'') @ ''`'')
                [(1, replicate 500 (CHR ''a''))] = replicate 500 (CHR ''a'')"
    by (simp add: candidate_def)
  have c501: "candidate (''message: `'' @ replicate 501 (CHR ''a'') @ ''`'')
                [(1, replicate 501 (CHR ''a''))] = replicate 501 (CHR ''a'')"
    by (simp add: candidate_def)
  from length_filter[of "''message: `abc`''" "[(1, ''abc'')]" ?ex ?p 0 "[]"] c3
  have A: "extract_body ?ex ?p 0 ''message: `abc`'' [(1, ''abc'')] [] = [entryOf ?ex ?p 0 ''abc'']"
    by simp
  from length_filter[of "''message: `ab`''" "[(1, ''ab'')]" ?ex ?p 0 "[]"] c2
  have B: "extract_body ?ex ?p 0 ''message: `ab`'' [(1, ''ab'')] [] = []"
    by simp
  from length_filter[of "''message: `'' @ replicate 500 (CHR ''a'') @ ''`''"
        "[(1, replicate 500 (CHR ''a''))]" ?ex ?p 0 "[]"] c500
  have C: "extract_body ?ex ?p 0 (''message: `'' @ replicate 500 (CHR ''a'') @ ''`'')
             [(1, replicate 500 (CHR ''a''))] [] = [entryOf ?ex ?p 0 (replicate 500 (CHR ''a''))]"
    by simp
  from length_filter[of "''message: `'' @ replicate 501 (CHR ''a'') @ ''`''"
        "[(1, replicate 501 (CHR ''a''))]" ?ex ?p 0 "[]"] c501
  have D: "extract_body ?ex ?p 0 (''message: `'' @ replicate 501 (CHR ''a'') @ ''`'')
             [(1, replicate 501 (CHR ''a''))] [] = []"
    by simp
  from length_filter[where w = "boundary_world 3" and cfg = scenario_settings
        and tsFiles = "[''auth/src/a.ts'']"
        and dataset = "[\<lparr>key = ''AUTH.A.MESSAGE_PROPERTY.AAA'', text' = ''aaa'',
          type = ''MESSAGE_PROPERTY'', file' = ''auth/src/a.ts'', line = 1,
          context' = None, priority = Some ''low'', category = Some ''auth''\<rparr>]"]
    boundary_three_eval
  have G: "[\<lparr>key = ''AUTH.A.MESSAGE_PROPERTY.AAA'', text' = ''aaa'',
        type = ''MESSAGE_PROPERTY'', file' = ''auth/src/a.ts'', line = 1,
        context' = None, priority = Some ''low'', category = Some ''auth''\<rparr>] =
       removeDuplicates (concat (map (entriesOfFile (boundary_world 3) scenario_settings)
         (filterFilesBySize (boundary_world 3) [''auth/src/a.ts''] (maxFileSize scenario_settings))))"
    by blast
  from length_filter[where w = "boundary_world 2" and cfg = scenario_settings
        and tsFiles = "[''auth/src/a.ts'']" and dataset = "[]"]
    boundary_two_eval
  have H: "[] = removeDuplicates (concat (map (entriesOfFile (boundary_world 2) scenario_settings)
         (filterFilesBySize (boundary_world 2) [''auth/src/a.ts''] (maxFileSize scenario_settings))))"
    by blast
  from A B C D G H boundary_three_eval boundary_two_eval show ?thesis
    by blast
qed

text \<open>
  Claim C6 as stated fails for its last clause: with the sanitisation of outputs on, as it
  is by default, the candidate \<open><b>\<close> has 3 characters and is retained, and the text
  stored in the results is \<open>b\<close>, a string of one character.
\<close>

theorem short_text_counterexample:
  "extract' markup_world scenario_settings [''auth/src/a.ts''] =
     Some (Inr [\<lparr>key = ''AUTH.A.MESSAGE_PROPERTY.B'', text' = ''b'',
                 type = ''MESSAGE_PROPERTY'', file' = ''auth/src/a.ts'', line = 1,
                 context' = None, priority = Some ''low'', category = Some ''auth''\<rparr>])
   \<and> length ''b'' < (3::nat)"
  by code_simp
end
